(* ===== verification/Go_Prelude.thy ===== *)
theory Go_Prelude
  imports Main "HOL-Library.Multiset" "HOL-Library.Signed_Division"
begin

text \<open>
  Shared vocabulary of the development: how the built-in operations of Go that the
  poker engine relies on are read in HOL, and the list, multiset and arithmetic facts
  every component theory uses.

  \<^item> A run-time panic of Go (index out of range, integer division by zero, slice bounds
    out of range, nil pointer dereference) or a fatal error of its runtime (a goroutine
    that waits for a lock nobody releases, the release of a lock that is not held) is a
    value of type \<open>panic\<close>; a computation that may panic has type
    \<open>'a result\<close>, that is \<open>panic + 'a\<close>, with \<open>Inl\<close> for the panic. \<open>bindR\<close> sequences
    two such computations: the first panic wins, as it does in Go.
  \<^item> Go's \<open>int\<close> is modelled as the unbounded \<open>int\<close> of HOL. The engine only adds and
    subtracts chip counts and seat indices, so the 64-bit width of Go's \<open>int\<close> is not
    reached for any table whose chips sum to less than \<open>2 ^ 63\<close>.
  \<^item> \<open>xs[i]\<close> on a slice is \<open>go_index\<close>: it panics unless \<open>0 \<le> i < len(xs)\<close>.
  \<^item> \<open>a % b\<close> is \<open>go_mod\<close>: it panics for \<open>b = 0\<close> and otherwise truncates towards zero
    (\<open>smod\<close> of \<open>HOL-Library.Signed_Division\<close>), unlike \<open>mod\<close> of HOL.
  \<^item> A write through a pointer into a slice, \<open>xs[i].f = v\<close>, is \<open>go_update\<close>.

  The collections \<open>go_defs\<close> (definitions of the built-ins) and \<open>frame\<close> (fields an
  operation leaves unchanged) are filled by the component theories.
\<close>

section \<open>Collections of facts\<close>

named_theorems go_defs "definitions of the Go built-in operations"
named_theorems frame "fields that an operation leaves unchanged"

section \<open>Panics and results\<close>

datatype panic =
  IndexOutOfRange | DivideByZero | SliceBoundsOutOfRange | NilDereference |
  Deadlock | UnlockOfUnlockedMutex

type_synonym 'a result = "panic + 'a"

definition bindR :: "'a result \<Rightarrow> ('a \<Rightarrow> 'b result) \<Rightarrow> 'b result" where
  "bindR m f = (case m of Inl e \<Rightarrow> Inl e | Inr x \<Rightarrow> f x)"

definition returns :: "'a result \<Rightarrow> bool" where
  "returns m = (case m of Inl e \<Rightarrow> False | Inr x \<Rightarrow> True)"

section \<open>Slices and integers\<close>

definition go_len :: "'a list \<Rightarrow> int" where
  "go_len xs = int (length xs)"

definition in_range :: "'a list \<Rightarrow> int \<Rightarrow> bool" where
  "in_range xs i = (0 \<le> i \<and> i < go_len xs)"

definition go_index :: "'a list \<Rightarrow> int \<Rightarrow> 'a result" where
  "go_index xs i = (if in_range xs i then Inr (xs ! nat i) else Inl IndexOutOfRange)"

definition go_update :: "'a list \<Rightarrow> int \<Rightarrow> 'a \<Rightarrow> 'a list" where
  "go_update xs i v = xs[nat i := v]"

definition go_mod :: "int \<Rightarrow> int \<Rightarrow> int result" where
  "go_mod a b = (if b = 0 then Inl DivideByZero else Inr (a smod b))"

lemmas go_prelude_defs [go_defs] =
  go_len_def in_range_def go_index_def go_update_def go_mod_def

section \<open>Facts about results\<close>

lemma bindR_Inr [simp]: "bindR (Inr x) f = f x"
  by (simp add: bindR_def)

lemma bindR_Inl [simp]: "bindR (Inl e) f = Inl e"
  by (simp add: bindR_def)

lemma bindR_eq_Inr_iff: "bindR m f = Inr y \<longleftrightarrow> (\<exists>x. m = Inr x \<and> f x = Inr y)"
  by (cases m) simp_all

lemma bindR_eq_Inl_iff:
  "bindR m f = Inl e \<longleftrightarrow> m = Inl e \<or> (\<exists>x. m = Inr x \<and> f x = Inl e)"
  by (cases m) simp_all

lemma bindR_cong [fundef_cong]:
  "m = m' \<Longrightarrow> (\<And>x. m' = Inr x \<Longrightarrow> f x = f' x) \<Longrightarrow> bindR m f = bindR m' f'"
  by (cases m') simp_all

lemma bindR_assoc: "bindR (bindR m f) g = bindR m (\<lambda>x. bindR (f x) g)"
  by (cases m) simp_all

lemma returns_Inr [simp]: "returns (Inr x)"
  by (simp add: returns_def)

lemma returns_Inl [simp]: "\<not> returns (Inl e)"
  by (simp add: returns_def)

lemma returns_iff: "returns m \<longleftrightarrow> (\<exists>x. m = Inr x)"
  by (cases m) simp_all

lemma returns_bindR: "returns (bindR m f) \<longleftrightarrow> (\<exists>x. m = Inr x \<and> returns (f x))"
  by (cases m) simp_all

section \<open>Facts about slices\<close>

lemma go_len_nonneg [simp]: "0 \<le> go_len xs"
  by (simp add: go_len_def)

lemma go_len_Nil [simp]: "go_len [] = 0"
  by (simp add: go_len_def)

lemma go_len_eq_0_iff [simp]: "go_len xs = 0 \<longleftrightarrow> xs = []"
  by (simp add: go_len_def)

lemma go_len_pos_iff [simp]: "0 < go_len xs \<longleftrightarrow> xs \<noteq> []"
  by (simp add: go_len_def)

lemma go_len_map [simp]: "go_len (map f xs) = go_len xs"
  by (simp add: go_len_def)

lemma go_len_update [simp]: "go_len (go_update xs i v) = go_len xs"
  by (simp add: go_len_def go_update_def)

lemma length_go_update [simp]: "length (go_update xs i v) = length xs"
  by (simp add: go_update_def)

lemma in_range_nat: "in_range xs i \<Longrightarrow> nat i < length xs"
  by (auto simp: in_range_def go_len_def nat_less_iff)

lemma in_range_nonempty: "in_range xs i \<Longrightarrow> xs \<noteq> []"
  by (auto simp: in_range_def)

lemma in_range_map [simp]: "in_range (map f xs) i = in_range xs i"
  by (simp add: in_range_def)

lemma in_range_update [simp]: "in_range (go_update xs j v) i = in_range xs i"
  by (simp add: in_range_def)

lemma in_range_same_length: "length xs = length ys \<Longrightarrow> in_range xs i = in_range ys i"
  by (simp add: in_range_def go_len_def)

lemma go_index_in_range [simp]: "in_range xs i \<Longrightarrow> go_index xs i = Inr (xs ! nat i)"
  by (simp add: go_index_def)

lemma go_index_out_of_range [simp]:
  "\<not> in_range xs i \<Longrightarrow> go_index xs i = Inl IndexOutOfRange"
  by (simp add: go_index_def)

lemma go_index_eq_Inr_iff: "go_index xs i = Inr x \<longleftrightarrow> in_range xs i \<and> x = xs ! nat i"
  by (auto simp: go_index_def)

lemma go_index_mem: "go_index xs i = Inr x \<Longrightarrow> x \<in> set xs"
  by (auto simp: go_index_eq_Inr_iff dest: in_range_nat)

lemma nth_go_update:
  "in_range xs i \<Longrightarrow> in_range xs j \<Longrightarrow>
   go_update xs i v ! nat j = (if i = j then v else xs ! nat j)"
  by (auto simp: go_update_def in_range_def go_len_def nat_eq_iff)

lemma go_update_same [simp]: "in_range xs i \<Longrightarrow> go_update xs i (xs ! nat i) = xs"
  by (simp add: go_update_def)

lemma go_index_update:
  "in_range xs i \<Longrightarrow> go_index (go_update xs i v) j =
   (if i = j then Inr v else go_index xs j)"
  by (cases "in_range xs j") (auto simp: nth_go_update)

section \<open>Facts about the remainder\<close>

lemma go_mod_zero [simp]: "go_mod a 0 = Inl DivideByZero"
  by (simp add: go_mod_def)

lemma smod_nonneg_eq_mod: "0 \<le> a \<Longrightarrow> 0 < b \<Longrightarrow> a smod b = (a mod b :: int)"
  by (simp add: signed_modulo_int_def sgn_if)

lemma go_mod_nonneg: "0 \<le> a \<Longrightarrow> 0 < b \<Longrightarrow> go_mod a b = Inr (a mod b)"
  by (simp add: go_mod_def smod_nonneg_eq_mod)

lemma go_mod_len:
  "xs \<noteq> [] \<Longrightarrow> 0 \<le> a \<Longrightarrow> go_mod a (go_len xs) = Inr (a mod go_len xs)"
  by (simp add: go_mod_nonneg)

lemma mod_len_in_range: "xs \<noteq> [] \<Longrightarrow> in_range xs (a mod go_len xs)"
  by (simp add: in_range_def)

lemma go_mod_negative: "a < 0 \<Longrightarrow> b \<noteq> 0 \<Longrightarrow> go_mod a b = Inr (- ((- a) mod \<bar>b\<bar>))"
  by (simp add: go_mod_def signed_modulo_int_def sgn_if)

section \<open>Sums and multisets over slices\<close>

lemma sum_list_map_update:
  fixes f :: "'a \<Rightarrow> int"
  shows "i < length xs \<Longrightarrow>
    sum_list (map f (xs[i := v])) = sum_list (map f xs) - f (xs ! i) + f v"
proof (induction xs arbitrary: i)
  case Nil
  then show ?case by simp
next
  case (Cons x xs)
  then show ?case by (cases i) simp_all
qed

lemma sum_list_map_go_update:
  fixes f :: "'a \<Rightarrow> int"
  shows "in_range xs i \<Longrightarrow>
    sum_list (map f (go_update xs i v)) = sum_list (map f xs) - f (xs ! nat i) + f v"
  by (simp add: go_update_def sum_list_map_update in_range_nat)

lemma map_go_update_same:
  "f v = f (xs ! nat i) \<Longrightarrow> map f (go_update xs i v) = map f xs"
  by (cases "nat i < length xs")
     (simp_all add: go_update_def map_update list_update_same_conv list_update_beyond)

lemma sum_list_go_update_same:
  fixes f :: "'a \<Rightarrow> int"
  shows "f v = f (xs ! nat i) \<Longrightarrow> sum_list (map f (go_update xs i v)) = sum_list (map f xs)"
  by (simp add: map_go_update_same)

lemma set_go_update_subset: "set (go_update xs i v) \<subseteq> insert v (set xs)"
  by (simp add: go_update_def set_update_subset_insert)

lemma ball_go_update:
  assumes "\<forall>x \<in> set xs. P x" and "P v"
  shows "\<forall>x \<in> set (go_update xs i v). P x"
  using assms set_go_update_subset [of xs i v] by auto

lemma ball_map_cong:
  assumes "map f xs = map h ys"
  shows "(\<forall>x \<in> set xs. P (f x)) = (\<forall>y \<in> set ys. P (h y))"
proof -
  have "(\<forall>x \<in> set xs. P (f x)) = (\<forall>v \<in> set (map f xs). P v)" by simp
  also have "\<dots> = (\<forall>v \<in> set (map h ys). P v)" by (simp only: assms)
  also have "\<dots> = (\<forall>y \<in> set ys. P (h y))" by simp
  finally show ?thesis .
qed

lemma map_eq_nthD:
  assumes "map f xs = map h ys" and "i < length xs"
  shows "f (xs ! i) = h (ys ! i)"
proof -
  from assms(1) have "length ys = length xs" by (rule map_eq_imp_length_eq [symmetric])
  with assms(2) arg_cong [OF assms(1), of "\<lambda>l. l ! i"] show ?thesis by simp
qed

lemma sum_list_map_same:
  "(\<And>x. x \<in> set xs \<Longrightarrow> f (g x) = (f x :: int)) \<Longrightarrow>
   sum_list (map f (map g xs)) = sum_list (map f xs)"
  by (induction xs) simp_all

lemma distinct_if_mset_subseteq:
  assumes sub: "mset xs \<subseteq># mset ys" and d: "distinct ys"
  shows "distinct xs"
  unfolding distinct_count_atmost_1
proof (intro allI)
  fix a
  have le: "count (mset xs) a \<le> count (mset ys) a"
    using sub by (rule mset_subset_eq_count)
  from d have "count (mset ys) a \<le> 1"
    by (simp add: distinct_count_atmost_1)
  with le have "count (mset xs) a \<le> 1" by simp
  then show "count (mset xs) a = (if a \<in> set xs then 1 else 0)"
    by (cases "a \<in> set xs") (auto simp: le_Suc_eq)
qed

lemma mset_tl_subseteq: "mset (tl xs) \<subseteq># mset xs"
  by (cases xs) simp_all

lemma mset_drop_subseteq: "mset (drop n xs) \<subseteq># mset xs"
proof -
  have "mset xs = mset (take n xs) + mset (drop n xs)"
    by (simp flip: mset_append)
  then show ?thesis by simp
qed

lemma count_list_length_filter: "count_list xs x = length (filter (\<lambda>y. y = x) xs)"
  by (induction xs) auto

end
