(* ===== verification/Go_Heap.thy ===== *)
theory Go_Heap
  imports Go_Prelude
begin

text \<open>
  The parts of the Go runtime and standard library that the persistence layer and the
  program wiring rely on: pointers to objects, the reader/writer lock of package \<open>sync\<close>,
  the logger of package \<open>log\<close>, \<open>time.Sleep\<close>, and the ways a program ends.

  \<^item> A pointer is a \<open>ref\<close>: \<open>Null\<close> is \<open>nil\<close>, \<open>Ref a\<close> points to the object at address
    \<open>a\<close>. The objects of one type live in an \<open>'a heap\<close>; \<open>new\<close> is \<open>&T{...}\<close>, \<open>deref\<close>
    is \<open>*p\<close> and \<open>p.f\<close> (a panic on \<open>nil\<close>), \<open>assign\<close> is a write through \<open>p\<close>. Go
    collects garbage, so a program never holds a pointer to an address that was not
    allocated; \<open>valid\<close> says so, and \<open>deref\<close> treats such a pointer like \<open>nil\<close>.
  \<^item> \<open>RWMutex\<close> is the state of a \<open>sync.RWMutex\<close> as its documentation describes it:
    free, held by one writer, or held by \<open>Suc n\<close> readers. The model runs one goroutine,
    so a lock that cannot be taken is never released: \<open>mu_Lock\<close> and \<open>mu_RLock\<close> then
    stop with \<open>Deadlock\<close>, as the runtime does when every goroutine is asleep.
  \<^item> \<open>Runtime\<close> is what the process accumulates besides its objects: the messages
    written by package \<open>log\<close>, oldest first and without the time stamp the logger puts
    in front, and the milliseconds spent in \<open>time.Sleep\<close>.
  \<^item> \<open>leave\<close> is how the function \<open>main\<close> of a program stops: it returns, the process
    is ended from inside by \<open>os.Exit\<close> or \<open>log.Fatal\<close>, or it blocks for good.
    \<open>process_end\<close> gives the exit status and the final state for a list of deferred
    calls, the newest first: they run when \<open>main\<close> returns, and only then, as the
    language specification and the documentation of \<open>os.Exit\<close> say.
\<close>

section \<open>Pointers and objects\<close>

type_synonym addr = nat

datatype ref = Null | Ref addr

record 'a heap =
  cells :: "addr \<rightharpoonup> 'a"
  lim :: addr

definition empty_heap :: "'a heap" where
  "empty_heap = \<lparr>cells = Map.empty, lim = 0\<rparr>"

definition new :: "'a \<Rightarrow> 'a heap \<Rightarrow> ref \<times> 'a heap" where
  "new v h = (Ref (lim h), h\<lparr>cells := (cells h)(lim h \<mapsto> v), lim := Suc (lim h)\<rparr>)"

definition deref :: "'a heap \<Rightarrow> ref \<Rightarrow> 'a result" where
  "deref h r =
     (case r of
        Null \<Rightarrow> Inl NilDereference
      | Ref a \<Rightarrow> (case cells h a of None \<Rightarrow> Inl NilDereference | Some v \<Rightarrow> Inr v))"

definition assign :: "ref \<Rightarrow> 'a \<Rightarrow> 'a heap \<Rightarrow> 'a heap result" where
  "assign r v h =
     bindR (deref h r) (\<lambda>old. Inr (h\<lparr>cells := (cells h)((case r of Ref a \<Rightarrow> a | Null \<Rightarrow> 0) \<mapsto> v)\<rparr>))"

fun valid :: "'a heap \<Rightarrow> ref \<Rightarrow> bool" where
  "valid h Null = True"
| "valid h (Ref a) = (a < lim h)"

definition heap_ok :: "'a heap \<Rightarrow> bool" where
  "heap_ok h = (\<forall>a. cells h a \<noteq> None \<longleftrightarrow> a < lim h)"

section \<open>The reader/writer lock\<close>

datatype RWMutex = Unlocked | Writing | Reading nat

fun mu_Lock :: "RWMutex \<Rightarrow> RWMutex result" where
  "mu_Lock Unlocked = Inr Writing"
| "mu_Lock m = Inl Deadlock"

fun mu_Unlock :: "RWMutex \<Rightarrow> RWMutex result" where
  "mu_Unlock Writing = Inr Unlocked"
| "mu_Unlock m = Inl UnlockOfUnlockedMutex"

fun mu_RLock :: "RWMutex \<Rightarrow> RWMutex result" where
  "mu_RLock Unlocked = Inr (Reading 0)"
| "mu_RLock (Reading n) = Inr (Reading (Suc n))"
| "mu_RLock Writing = Inl Deadlock"

fun mu_RUnlock :: "RWMutex \<Rightarrow> RWMutex result" where
  "mu_RUnlock (Reading 0) = Inr Unlocked"
| "mu_RUnlock (Reading (Suc n)) = Inr (Reading n)"
| "mu_RUnlock m = Inl UnlockOfUnlockedMutex"

section \<open>The logger and the clock\<close>

record Runtime =
  logged :: "string list"
  slept :: int

definition log_Println :: "string \<Rightarrow> 'a Runtime_scheme \<Rightarrow> 'a Runtime_scheme" where
  "log_Println msg s = s\<lparr>logged := logged s @ [msg]\<rparr>"

definition time_Sleep :: "int \<Rightarrow> 'a Runtime_scheme \<Rightarrow> 'a Runtime_scheme" where
  "time_Sleep ms s = s\<lparr>slept := slept s + ms\<rparr>"

section \<open>Deferred calls and the end of the process\<close>

datatype 'a leave = Return 'a | Exit int 'a | Blocked 'a

definition run_deferred :: "('a \<Rightarrow> 'a) list \<Rightarrow> 'a \<Rightarrow> 'a" where
  "run_deferred ds s = fold (\<lambda>d. d) ds s"

fun process_end :: "('a \<Rightarrow> 'a) list \<Rightarrow> 'a leave \<Rightarrow> int option \<times> 'a" where
  "process_end ds (Return s) = (Some 0, run_deferred ds s)"
| "process_end ds (Exit n s) = (Some n, s)"
| "process_end ds (Blocked s) = (None, s)"

lemmas go_heap_defs [go_defs] =
  empty_heap_def new_def deref_def assign_def log_Println_def time_Sleep_def

section \<open>Facts about heaps\<close>

lemma deref_Null [simp]: "deref h Null = Inl NilDereference"
  by (simp add: deref_def)

lemma deref_Ref: "deref h (Ref a) = Inr v \<longleftrightarrow> cells h a = Some v"
  by (simp add: deref_def split: option.splits)

lemma deref_Inr_iff: "deref h r = Inr v \<longleftrightarrow> (\<exists>a. r = Ref a \<and> cells h a = Some v)"
  by (cases r) (simp_all add: deref_Ref)

lemma deref_valid:
  assumes "heap_ok h" and "valid h r" and "r \<noteq> Null"
  shows "\<exists>v. deref h r = Inr v"
  using assms by (cases r) (auto simp: heap_ok_def deref_def split: option.splits)

lemma heap_ok_empty [simp]: "heap_ok empty_heap"
  by (simp add: heap_ok_def empty_heap_def)

lemma heap_ok_new [simp]: "heap_ok h \<Longrightarrow> heap_ok (snd (new v h))"
  by (auto simp: heap_ok_def new_def less_Suc_eq)

lemma valid_new [simp]: "valid (snd (new v h)) (fst (new v h))"
  by (simp add: new_def)

lemma valid_mono: "valid h r \<Longrightarrow> valid (snd (new v h)) r"
  by (cases r) (simp_all add: new_def)

lemma deref_new [simp]: "deref (snd (new v h)) (fst (new v h)) = Inr v"
  by (simp add: new_def deref_def)

lemma deref_new_other:
  "heap_ok h \<Longrightarrow> valid h r \<Longrightarrow> deref (snd (new v h)) r = deref h r"
  by (cases r) (auto simp: new_def deref_def)

lemma new_fresh: "heap_ok h \<Longrightarrow> valid h r \<Longrightarrow> fst (new v h) \<noteq> r"
  by (cases r) (auto simp: new_def)

lemma assign_Inr_iff:
  "assign r v h = Inr h' \<longleftrightarrow>
     (\<exists>a old. r = Ref a \<and> cells h a = Some old \<and> h' = h\<lparr>cells := (cells h)(a \<mapsto> v)\<rparr>)"
  by (cases r) (auto simp: assign_def deref_def split: option.splits)

lemma deref_assign_same: "assign r v h = Inr h' \<Longrightarrow> deref h' r = Inr v"
  by (auto simp: assign_Inr_iff deref_def)

lemma deref_assign_other: "assign r v h = Inr h' \<Longrightarrow> r' \<noteq> r \<Longrightarrow> deref h' r' = deref h r'"
  by (cases r') (auto simp: assign_Inr_iff deref_def split: if_splits)

lemma heap_ok_assign: "assign r v h = Inr h' \<Longrightarrow> heap_ok h \<Longrightarrow> heap_ok h'"
  by (auto simp: assign_Inr_iff heap_ok_def)

lemma lim_assign: "assign r v h = Inr h' \<Longrightarrow> lim h' = lim h"
  by (auto simp: assign_Inr_iff)

section \<open>Facts about the lock\<close>

lemma mu_Lock_Inr_iff: "mu_Lock m = Inr m' \<longleftrightarrow> m = Unlocked \<and> m' = Writing"
  by (cases m) auto

lemma mu_RLock_Unlocked_iff: "mu_RLock m = Inr (Reading 0) \<longleftrightarrow> m = Unlocked"
  by (cases m) auto

lemma mu_Unlock_Lock [simp]: "bindR (mu_Lock Unlocked) mu_Unlock = Inr Unlocked"
  by simp

lemma mu_RUnlock_RLock [simp]: "bindR (mu_RLock m) mu_RUnlock = (if m = Writing then Inl Deadlock else Inr m)"
  by (cases m) auto

section \<open>Facts about the logger and the clock\<close>

lemma logged_Println [simp]: "logged (log_Println msg s) = logged s @ [msg]"
  by (simp add: log_Println_def)

lemma slept_Println [simp]: "slept (log_Println msg s) = slept s"
  by (simp add: log_Println_def)

lemma more_Println [simp]: "Runtime.more (log_Println msg s) = Runtime.more s"
  by (simp add: log_Println_def)

lemma logged_Sleep [simp]: "logged (time_Sleep ms s) = logged s"
  by (simp add: time_Sleep_def)

lemma slept_Sleep [simp]: "slept (time_Sleep ms s) = slept s + ms"
  by (simp add: time_Sleep_def)

lemma more_Sleep [simp]: "Runtime.more (time_Sleep ms s) = Runtime.more s"
  by (simp add: time_Sleep_def)

section \<open>Facts about deferred calls\<close>

lemma run_deferred_simps [simp]:
  "run_deferred [] s = s" "run_deferred (d # ds) s = run_deferred ds (d s)"
  by (simp_all add: run_deferred_def)

lemma process_end_not_Return:
  "(\<And>s. l \<noteq> Return s) \<Longrightarrow> process_end ds l = process_end [] l"
  by (cases l) auto

end
