(* ===== verification/Deck_Model.thy ===== *)
theory Deck_Model
  imports Go_Prelude
begin

text \<open>
  Cards and the deck (\<open>src/pkg/game/card.go\<close>).

  \<^item> \<open>Suit\<close> and \<open>Rank\<close> are the two \<open>iota\<close> enumerations; \<open>Suit_int\<close> and \<open>Rank_int\<close> give
    the integer each constant stands for (suits from 0, ranks from 2), and \<open>all_suits\<close>,
    \<open>all_ranks\<close> are the ranges the two \<open>for\<close> loops of \<open>NewDeck\<close> run through.
  \<^item> \<open>Card\<close> and \<open>Deck\<close> are the two structs. A \<open>*Deck\<close> receiver becomes a deck that is
    passed in and returned.
  \<^item> \<open>Shuffle\<close> takes the random source as an argument: \<open>rnd i\<close> is the raw number the
    source delivers when \<open>rand.Shuffle\<close> asks for an index below \<open>i + 1\<close>. The driver
    \<open>shuffle_loop\<close> is the Fisher--Yates loop of the Go library; the swap it calls is the
    closure in the source.
  \<^item> \<open>DrawOne\<close> returns \<open>None\<close> for Go's \<open>(Card{}, false)\<close>: no caller reads the card
    when the flag is false.

  \<^item> \<open>draw_each k\<close> is not a function of the source: it is the loop a caller writes
    around \<open>DrawOne\<close> (as \<open>DealFlop\<close> does in \<open>game.go\<close>), calling it \<open>k\<close> times and
    stopping at the first call that reports an empty deck.

  The lemmas show that a new deck holds each of the 52 cards exactly once, that
  shuffling permutes the deck whatever the random source delivers, that drawing
  splits the deck into the cards drawn and the cards left, and that the two ways of
  drawing agree: \<open>Draw n\<close> takes the cards and leaves the deck that \<open>n\<close> calls of
  \<open>DrawOne\<close> do.
\<close>

section \<open>Suits and ranks\<close>

datatype Suit = Spades | Hearts | Diamonds | Clubs

fun Suit_int :: "Suit \<Rightarrow> int" where
  "Suit_int Spades = 0"
| "Suit_int Hearts = 1"
| "Suit_int Diamonds = 2"
| "Suit_int Clubs = 3"

fun Suit_String :: "Suit \<Rightarrow> string" where
  "Suit_String Spades = [CHR 0xE2, CHR 0x99, CHR 0xA0]"
| "Suit_String Hearts = [CHR 0xE2, CHR 0x99, CHR 0xA5]"
| "Suit_String Diamonds = [CHR 0xE2, CHR 0x99, CHR 0xA6]"
| "Suit_String Clubs = [CHR 0xE2, CHR 0x99, CHR 0xA3]"

datatype Rank = Two | Three | Four | Five | Six | Seven | Eight | Nine | Ten
  | Jack | Queen | King | Ace

fun Rank_int :: "Rank \<Rightarrow> int" where
  "Rank_int Two = 2"
| "Rank_int Three = 3"
| "Rank_int Four = 4"
| "Rank_int Five = 5"
| "Rank_int Six = 6"
| "Rank_int Seven = 7"
| "Rank_int Eight = 8"
| "Rank_int Nine = 9"
| "Rank_int Ten = 10"
| "Rank_int Jack = 11"
| "Rank_int Queen = 12"
| "Rank_int King = 13"
| "Rank_int Ace = 14"

fun Rank_String :: "Rank \<Rightarrow> string" where
  "Rank_String Two = ''2''"
| "Rank_String Three = ''3''"
| "Rank_String Four = ''4''"
| "Rank_String Five = ''5''"
| "Rank_String Six = ''6''"
| "Rank_String Seven = ''7''"
| "Rank_String Eight = ''8''"
| "Rank_String Nine = ''9''"
| "Rank_String Ten = ''10''"
| "Rank_String Jack = ''J''"
| "Rank_String Queen = ''Q''"
| "Rank_String King = ''K''"
| "Rank_String Ace = ''A''"

section \<open>Cards and decks\<close>

record Card =
  Rank :: Rank
  Suit :: Suit

definition Card_String :: "Card \<Rightarrow> string" where
  "Card_String c = Rank_String (Rank c) @ Suit_String (Suit c)"

record Deck =
  Cards :: "Card list"

definition all_suits :: "Suit list" where
  "all_suits = [Spades, Hearts, Diamonds, Clubs]"

definition all_ranks :: "Rank list" where
  "all_ranks = [Two, Three, Four, Five, Six, Seven, Eight, Nine, Ten, Jack, Queen, King, Ace]"

definition NewDeck :: Deck where
  "NewDeck = \<lparr>Cards = concat (map (\<lambda>suit. map (\<lambda>rank. \<lparr>Rank = rank, Suit = suit\<rparr>) all_ranks)
     all_suits)\<rparr>"

definition swap_cards :: "nat \<Rightarrow> nat \<Rightarrow> Card list \<Rightarrow> Card list" where
  "swap_cards i j cs = cs[i := cs ! j, j := cs ! i]"

fun shuffle_loop :: "(nat \<Rightarrow> nat) \<Rightarrow> nat \<Rightarrow> Card list \<Rightarrow> Card list" where
  "shuffle_loop rnd 0 cs = cs"
| "shuffle_loop rnd (Suc i) cs =
     shuffle_loop rnd i (swap_cards (Suc i) (rnd (Suc i) mod (Suc i + 1)) cs)"

definition Shuffle :: "(nat \<Rightarrow> nat) \<Rightarrow> Deck \<Rightarrow> Deck" where
  "Shuffle rnd d = d\<lparr>Cards := shuffle_loop rnd (length (Cards d) - 1) (Cards d)\<rparr>"

definition Draw :: "int \<Rightarrow> Deck \<Rightarrow> (Card list \<times> Deck) result" where
  "Draw n d =
     (let n' = (if n > go_len (Cards d) then go_len (Cards d) else n)
      in if n' < 0 then Inl SliceBoundsOutOfRange
         else Inr (take (nat n') (Cards d), d\<lparr>Cards := drop (nat n') (Cards d)\<rparr>))"

definition DrawOne :: "Deck \<Rightarrow> Card option \<times> Deck" where
  "DrawOne d =
     (if length (Cards d) = 0 then (None, d)
      else (Some (Cards d ! 0), d\<lparr>Cards := drop 1 (Cards d)\<rparr>))"

primrec draw_each :: "nat \<Rightarrow> Deck \<Rightarrow> Card list \<times> Deck" where
  "draw_each 0 d = ([], d)"
| "draw_each (Suc k) d =
     (case DrawOne d of
        (None, d') \<Rightarrow> ([], d')
      | (Some c, d') \<Rightarrow> (case draw_each k d' of (cs, d'') \<Rightarrow> (c # cs, d'')))"

lemmas deck_defs = NewDeck_def all_suits_def all_ranks_def Shuffle_def Draw_def DrawOne_def

section \<open>The enumerations\<close>

lemma Suit_int_inj: "Suit_int a = Suit_int b \<longleftrightarrow> a = b"
  by (cases a; cases b) simp_all

lemma Rank_int_inj: "Rank_int a = Rank_int b \<longleftrightarrow> a = b"
  by (cases a; cases b) simp_all

lemma Suit_int_range: "0 \<le> Suit_int s \<and> Suit_int s \<le> 3"
  by (cases s) simp_all

lemma Rank_int_range: "2 \<le> Rank_int r \<and> Rank_int r \<le> 14"
  by (cases r) simp_all

lemma all_suits_iota: "map Suit_int all_suits = [0, 1, 2, 3]"
  by (simp add: all_suits_def)

lemma all_ranks_iota: "map Rank_int all_ranks = [2, 3, 4, 5, 6, 7, 8, 9, 10, 11, 12, 13, 14]"
  by (simp add: all_ranks_def)

lemma set_all_suits [simp]: "set all_suits = UNIV"
proof -
  have "s \<in> set all_suits" for s
    by (cases s) (simp_all add: all_suits_def)
  then show ?thesis by blast
qed

lemma set_all_ranks [simp]: "set all_ranks = UNIV"
proof -
  have "r \<in> set all_ranks" for r
    by (cases r) (simp_all add: all_ranks_def)
  then show ?thesis by blast
qed

lemma distinct_all_suits [simp]: "distinct all_suits"
  by (simp add: all_suits_def)

lemma distinct_all_ranks [simp]: "distinct all_ranks"
  by (simp add: all_ranks_def)

lemma length_all_suits [simp]: "length all_suits = 4"
  by (simp add: all_suits_def)

lemma length_all_ranks [simp]: "length all_ranks = 13"
  by (simp add: all_ranks_def)

section \<open>A new deck\<close>

lemma card_of_inj: "inj (\<lambda>rank. \<lparr>Rank = rank, Suit = suit\<rparr>)"
  by (simp add: inj_def)

lemma length_NewDeck_aux: "length (Cards NewDeck) = 52"
  by (simp add: NewDeck_def length_concat comp_def all_suits_def)

lemma distinct_NewDeck_aux: "distinct (Cards NewDeck)"
  unfolding NewDeck_def
  by (simp add: distinct_concat_iff distinct_map card_of_inj inj_on_def all_suits_def)
     (auto simp: all_suits_def)

lemma mem_NewDeck [simp]: "c \<in> set (Cards NewDeck)"
  by (cases c) (auto simp: NewDeck_def)

lemma set_NewDeck: "set (Cards NewDeck) = UNIV"
  by auto

text \<open>
  C29 (type). \<open>NewDeck\<close> yields exactly 52 cards, no card twice, and every (rank, suit)
  pair is among them.
\<close>

theorem NewDeck_full:
  "length (Cards NewDeck) = 52 \<and> distinct (Cards NewDeck) \<and> set (Cards NewDeck) = UNIV"
  by (simp add: length_NewDeck_aux distinct_NewDeck_aux set_NewDeck)

section \<open>Shuffling\<close>

lemma length_swap_cards [simp]: "length (swap_cards i j cs) = length cs"
  by (simp add: swap_cards_def)

lemma mset_swap_cards:
  "i < length cs \<Longrightarrow> j < length cs \<Longrightarrow> mset (swap_cards i j cs) = mset cs"
  by (simp add: swap_cards_def mset_swap)

lemma nth_swap_cards:
  "i < length cs \<Longrightarrow> j < length cs \<Longrightarrow>
   swap_cards i j cs ! k = (if k = j then cs ! i else if k = i then cs ! j else cs ! k)"
  by (auto simp: swap_cards_def nth_list_update)

lemma length_shuffle_loop [simp]: "length (shuffle_loop rnd i cs) = length cs"
  by (induction rnd i cs rule: shuffle_loop.induct) simp_all

lemma mset_shuffle_loop: "i < length cs \<Longrightarrow> mset (shuffle_loop rnd i cs) = mset cs"
proof (induction rnd i cs rule: shuffle_loop.induct)
  case (1 rnd cs)
  then show ?case by simp
next
  case (2 rnd i cs)
  have "rnd (Suc i) mod (Suc i + 1) < length cs"
    using "2.prems" by (simp add: less_Suc_eq_le le_less_trans [OF _ "2.prems"])
  with "2.IH" "2.prems" show ?case
    by (simp add: mset_swap_cards)
qed

lemma length_Shuffle [simp]: "length (Cards (Shuffle rnd d)) = length (Cards d)"
  by (simp add: Shuffle_def)

lemma mset_Shuffle_aux: "mset (Cards (Shuffle rnd d)) = mset (Cards d)"
  by (cases "Cards d") (simp_all add: Shuffle_def mset_shuffle_loop)

lemma set_Shuffle [simp]: "set (Cards (Shuffle rnd d)) = set (Cards d)"
  by (rule mset_eq_setD) (rule mset_Shuffle_aux)

lemma distinct_Shuffle [simp]: "distinct (Cards (Shuffle rnd d)) = distinct (Cards d)"
  by (rule mset_eq_imp_distinct_iff) (rule mset_Shuffle_aux)

text \<open>
  C30 (invariant). Whatever numbers the random source delivers, \<open>Shuffle\<close> leaves the
  multiset of cards of the deck unchanged.
\<close>

theorem Shuffle_permutes: "mset (Cards (Shuffle rnd d)) = mset (Cards d)"
  by (rule mset_Shuffle_aux)

section \<open>Drawing\<close>

lemma DrawOne_empty [simp]: "Cards d = [] \<Longrightarrow> DrawOne d = (None, d)"
  by (simp add: DrawOne_def)

lemma DrawOne_Cons [simp]:
  "Cards d = c # cs \<Longrightarrow> DrawOne d = (Some c, d\<lparr>Cards := cs\<rparr>)"
  by (simp add: DrawOne_def)

lemma DrawOne_cases:
  "(Cards d = [] \<and> DrawOne d = (None, d)) \<or>
   (\<exists>c cs. Cards d = c # cs \<and> DrawOne d = (Some c, d\<lparr>Cards := cs\<rparr>))"
  by (cases "Cards d") simp_all

lemma Cards_snd_DrawOne [simp]: "Cards (snd (DrawOne d)) = tl (Cards d)"
  by (cases "Cards d") simp_all

lemma fst_DrawOne: "fst (DrawOne d) = (case Cards d of [] \<Rightarrow> None | c # cs \<Rightarrow> Some c)"
  by (cases "Cards d") simp_all

lemma Draw_negative: "n < 0 \<Longrightarrow> Draw n d = Inl SliceBoundsOutOfRange"
  by (simp add: Draw_def Let_def)

lemma Draw_nonneg:
  "0 \<le> n \<Longrightarrow> Draw n d = Inr (take (nat n) (Cards d), d\<lparr>Cards := drop (nat n) (Cards d)\<rparr>)"
  by (simp add: Draw_def Let_def go_len_def)

text \<open>
  C31 (roundtrip). \<open>Draw\<close> with a count that is not negative returns the top of the deck
  and leaves the rest: the cards drawn followed by the cards left are the deck as it
  was, and the number drawn is the count or the whole deck, whichever is less. With a
  negative count it panics.
\<close>

theorem Draw_splits_deck:
  "(0 \<le> n \<longrightarrow>
      (\<exists>cs d'. Draw n d = Inr (cs, d') \<and> cs @ Cards d' = Cards d \<and>
         length cs = min (nat n) (length (Cards d)))) \<and>
   (n < 0 \<longrightarrow> Draw n d = Inl SliceBoundsOutOfRange)"
  by (simp add: Draw_negative Draw_nonneg min.commute)

theorem Draw_splits_deck_witness:
  "(0::int) \<le> 5 \<and> (- 1::int) < 0 \<and>
   (\<exists>cs d'. Draw 5 NewDeck = Inr (cs, d') \<and> cs @ Cards d' = Cards NewDeck \<and> length cs = 5) \<and>
   Draw (- 1) NewDeck = Inl SliceBoundsOutOfRange"
  using Draw_splits_deck [of 5 NewDeck] Draw_splits_deck [of "- 1" NewDeck]
  by (simp add: length_NewDeck_aux)

lemma Deck_Cards_same: "Cards d = cs \<Longrightarrow> d\<lparr>Cards := cs\<rparr> = d"
  by (cases d) simp

lemma draw_each_eq:
  "draw_each k d = (take k (Cards d), d\<lparr>Cards := drop k (Cards d)\<rparr>)"
proof (induction k arbitrary: d)
  case 0
  show ?case by simp
next
  case (Suc k)
  show ?case by (cases "Cards d") (simp_all add: Suc.IH Deck_Cards_same)
qed

text \<open>
  C16 (equivalence). The two ways of drawing agree. For a count that is not negative
  \<open>Draw n\<close>, which cuts the slice twice, returns the cards and leaves the deck that
  \<open>n\<close> calls of \<open>DrawOne\<close> in a row do, which take the cards one at a time and stop
  when the deck is empty; so the loop of \<open>DealFlop\<close> draws what \<open>Draw 3\<close> would.
\<close>

theorem Draw_is_repeated_DrawOne:
  "0 \<le> n \<Longrightarrow> Draw n d = Inr (draw_each (nat n) d)"
  by (simp add: Draw_nonneg draw_each_eq)

theorem Draw_is_repeated_DrawOne_witness:
  "(0::int) \<le> 3 \<and> Draw 3 NewDeck = Inr (draw_each 3 NewDeck) \<and>
   map Rank (fst (draw_each 3 NewDeck)) = [Two, Three, Four] \<and>
   length (Cards (snd (draw_each 3 NewDeck))) = 49"
  using Draw_is_repeated_DrawOne [of 3 NewDeck]
  by (simp add: draw_each_eq NewDeck_def all_suits_def all_ranks_def)

end
