(* ===== verification/Player_Model.thy ===== *)
theory Player_Model
  imports Deck_Model
begin

text \<open>
  Seats (\<open>src/pkg/game/player.go\<close>).

  \<^item> \<open>PlayerAction\<close> and \<open>PlayerStatus\<close> are the two enumerations of the file.
  \<^item> \<open>Player\<close> is the struct. Its fields keep their names, except \<open>Cards\<close> and \<open>Bet\<close>,
    which are \<open>PCards\<close> and \<open>PBet\<close> here because \<open>Cards\<close> is the field of \<open>Deck\<close> and
    \<open>Bet\<close> a constant of \<open>PlayerAction\<close>.
  \<^item> Each method with a \<open>*Player\<close> receiver takes the player and returns the player it
    leaves behind; \<open>PlaceBet\<close> also returns its boolean. The method \<open>Fold\<close> is
    \<open>Player_Fold\<close>, since \<open>Fold\<close> is the action.

  The lemmas give the behaviour of \<open>PlaceBet\<close> on both branches, the chip accounting
  of every method (\<open>Chips + PBet\<close> is what a seat owns), and the status each method
  leaves.
\<close>

section \<open>Actions and status\<close>

datatype PlayerAction = Fold | Check | Call | Bet | Raise | AllIn

fun PlayerAction_int :: "PlayerAction \<Rightarrow> int" where
  "PlayerAction_int Fold = 0"
| "PlayerAction_int Check = 1"
| "PlayerAction_int Call = 2"
| "PlayerAction_int Bet = 3"
| "PlayerAction_int Raise = 4"
| "PlayerAction_int AllIn = 5"

fun PlayerAction_String :: "PlayerAction \<Rightarrow> string" where
  "PlayerAction_String Fold = ''Fold''"
| "PlayerAction_String Check = ''Check''"
| "PlayerAction_String Call = ''Call''"
| "PlayerAction_String Bet = ''Bet''"
| "PlayerAction_String Raise = ''Raise''"
| "PlayerAction_String AllIn = ''All-In''"

datatype PlayerStatus = Active | Folded | AllInStatus | Out

fun PlayerStatus_int :: "PlayerStatus \<Rightarrow> int" where
  "PlayerStatus_int Active = 0"
| "PlayerStatus_int Folded = 1"
| "PlayerStatus_int AllInStatus = 2"
| "PlayerStatus_int Out = 3"

section \<open>The player and its methods\<close>

record Player =
  ID :: string
  Name :: string
  Chips :: int
  PCards :: "Card list"
  PBet :: int
  Status :: PlayerStatus
  Position :: int

definition NewPlayer :: "string \<Rightarrow> string \<Rightarrow> int \<Rightarrow> int \<Rightarrow> Player" where
  "NewPlayer pid name chips position =
     \<lparr>ID = pid, Name = name, Chips = chips, PCards = [], PBet = 0, Status = Active,
      Position = position\<rparr>"

definition PlaceBet :: "int \<Rightarrow> Player \<Rightarrow> bool \<times> Player" where
  "PlaceBet amount p =
     (if amount > Chips p then (False, p)
      else let p1 = p\<lparr>PBet := PBet p + amount\<rparr>;
               p2 = p1\<lparr>Chips := Chips p1 - amount\<rparr>;
               p3 = (if Chips p2 = 0 then p2\<lparr>Status := AllInStatus\<rparr> else p2)
           in (True, p3))"

definition CollectWinnings :: "int \<Rightarrow> Player \<Rightarrow> Player" where
  "CollectWinnings amount p = p\<lparr>Chips := Chips p + amount\<rparr>"

definition Player_Fold :: "Player \<Rightarrow> Player" where
  "Player_Fold p = p\<lparr>Status := Folded\<rparr>"

definition ResetForNewHand :: "Player \<Rightarrow> Player" where
  "ResetForNewHand p =
     (let p1 = p\<lparr>PCards := []\<rparr>;
          p2 = p1\<lparr>PBet := 0\<rparr>
      in if Chips p2 > 0 then p2\<lparr>Status := Active\<rparr> else p2\<lparr>Status := Out\<rparr>)"

definition IsActive :: "Player \<Rightarrow> bool" where
  "IsActive p = (Status p = Active)"

definition CanAct :: "Player \<Rightarrow> bool" where
  "CanAct p = (Status p = Active \<or> Status p = AllInStatus)"

lemmas player_defs = NewPlayer_def PlaceBet_def CollectWinnings_def Player_Fold_def
  ResetForNewHand_def IsActive_def CanAct_def

section \<open>What a seat owns, and when it is sound\<close>

definition holdings :: "Player \<Rightarrow> int" where
  "holdings p = Chips p + PBet p"

definition player_ok :: "Player \<Rightarrow> bool" where
  "player_ok p = (0 \<le> Chips p \<and> 0 \<le> PBet p \<and> (Status p = AllInStatus \<longrightarrow> Chips p = 0))"

section \<open>PlaceBet\<close>

lemma PlaceBet_reject [simp]: "amount > Chips p \<Longrightarrow> PlaceBet amount p = (False, p)"
  by (simp add: PlaceBet_def)

lemma PlaceBet_accept:
  "amount \<le> Chips p \<Longrightarrow> PlaceBet amount p =
     (True, p\<lparr>PBet := PBet p + amount, Chips := Chips p - amount,
              Status := (if Chips p = amount then AllInStatus else Status p)\<rparr>)"
  by (simp add: PlaceBet_def Let_def)

lemma fst_PlaceBet [simp]: "fst (PlaceBet amount p) = (amount \<le> Chips p)"
  by (simp add: PlaceBet_def Let_def)

lemma PlaceBet_False_iff: "PlaceBet amount p = (False, p') \<longleftrightarrow> amount > Chips p \<and> p' = p"
  by (auto simp: PlaceBet_def Let_def)

lemma PlaceBet_True_iff:
  "PlaceBet amount p = (True, p') \<longleftrightarrow>
     amount \<le> Chips p \<and>
     p' = p\<lparr>PBet := PBet p + amount, Chips := Chips p - amount,
             Status := (if Chips p = amount then AllInStatus else Status p)\<rparr>"
  by (auto simp: PlaceBet_def Let_def)

lemma PlaceBet_fields [frame]:
  "ID (snd (PlaceBet amount p)) = ID p"
  "Name (snd (PlaceBet amount p)) = Name p"
  "PCards (snd (PlaceBet amount p)) = PCards p"
  "Position (snd (PlaceBet amount p)) = Position p"
  by (simp_all add: PlaceBet_def Let_def)

lemma PlaceBet_Chips:
  "Chips (snd (PlaceBet amount p)) = (if amount \<le> Chips p then Chips p - amount else Chips p)"
  by (simp add: PlaceBet_def Let_def)

lemma PlaceBet_PBet:
  "PBet (snd (PlaceBet amount p)) = (if amount \<le> Chips p then PBet p + amount else PBet p)"
  by (simp add: PlaceBet_def Let_def)

lemma PlaceBet_Status:
  "Status (snd (PlaceBet amount p)) =
     (if amount = Chips p then AllInStatus else Status p)"
  by (simp add: PlaceBet_def Let_def)

lemma holdings_PlaceBet [simp]: "holdings (snd (PlaceBet amount p)) = holdings p"
  by (simp add: holdings_def PlaceBet_def Let_def)

lemma player_ok_PlaceBet:
  "player_ok p \<Longrightarrow> 0 \<le> amount \<Longrightarrow> player_ok (snd (PlaceBet amount p))"
  by (auto simp: player_ok_def PlaceBet_def Let_def)

lemma PlaceBet_eq:
  "PlaceBet amount p =
     (if amount > Chips p then (False, p)
      else (True, p\<lparr>PBet := PBet p + amount, Chips := Chips p - amount,
                    Status := (if Chips p - amount = 0 then AllInStatus else Status p)\<rparr>))"
  by (simp add: PlaceBet_def Let_def)

text \<open>
  C32 (functional). For a seat without debts and an amount that is not negative,
  \<open>PlaceBet\<close> succeeds exactly when the stack covers the amount; it then moves the amount
  from the stack to the bet, and otherwise changes nothing. Either way the seat keeps
  what it owns, has no debts, and is all-in only with an empty stack.
\<close>

theorem PlaceBet_sound:
  assumes "player_ok p" and "0 \<le> amount"
  shows "fst (PlaceBet amount p) = (amount \<le> Chips p) \<and>
         player_ok (snd (PlaceBet amount p)) \<and>
         holdings (snd (PlaceBet amount p)) = holdings p \<and>
         (if amount \<le> Chips p
          then PBet (snd (PlaceBet amount p)) = PBet p + amount \<and>
               Chips (snd (PlaceBet amount p)) = Chips p - amount \<and>
               (Chips p = amount \<longrightarrow> Status (snd (PlaceBet amount p)) = AllInStatus)
          else snd (PlaceBet amount p) = p)"
  using assms player_ok_PlaceBet [OF assms]
  by (simp add: PlaceBet_Chips PlaceBet_PBet PlaceBet_Status)

theorem PlaceBet_sound_witness:
  "player_ok (NewPlayer ''1'' ''Player 1'' 1000 0) \<and> (0::int) \<le> 1000 \<and>
   fst (PlaceBet 1000 (NewPlayer ''1'' ''Player 1'' 1000 0)) \<and>
   Chips (snd (PlaceBet 1000 (NewPlayer ''1'' ''Player 1'' 1000 0))) = 0 \<and>
   Status (snd (PlaceBet 1000 (NewPlayer ''1'' ''Player 1'' 1000 0))) = AllInStatus"
  using PlaceBet_sound [of "NewPlayer ''1'' ''Player 1'' 1000 0" 1000]
  by (simp add: player_ok_def NewPlayer_def)

text \<open>
  \<open>PlaceBet\<close> does not refuse a negative amount: it succeeds, and the stack
  grows by what the bet shrinks.
\<close>

theorem PlaceBet_accepts_negative:
  assumes "amount < 0" and "0 \<le> Chips p"
  shows "fst (PlaceBet amount p) \<and> Chips p < Chips (snd (PlaceBet amount p)) \<and>
         PBet (snd (PlaceBet amount p)) < PBet p"
  using assms by (simp add: PlaceBet_Chips PlaceBet_PBet)

theorem PlaceBet_accepts_negative_witness:
  "(- 30::int) < 0 \<and> 0 \<le> Chips (NewPlayer ''1'' ''Player 1'' 1000 0) \<and>
   PlaceBet (- 30) (NewPlayer ''1'' ''Player 1'' 1000 0) =
     (True, (NewPlayer ''1'' ''Player 1'' 1000 0)\<lparr>PBet := - 30, Chips := 1030\<rparr>)"
  using PlaceBet_accepts_negative [of "- 30" "NewPlayer ''1'' ''Player 1'' 1000 0"]
  by (simp add: NewPlayer_def PlaceBet_def)

section \<open>The other methods\<close>

lemma NewPlayer_fields [simp]:
  "Chips (NewPlayer i n c pos) = c"
  "PBet (NewPlayer i n c pos) = 0"
  "PCards (NewPlayer i n c pos) = []"
  "Status (NewPlayer i n c pos) = Active"
  "Position (NewPlayer i n c pos) = pos"
  "ID (NewPlayer i n c pos) = i"
  "Name (NewPlayer i n c pos) = n"
  by (simp_all add: NewPlayer_def)

lemma ResetForNewHand_fields [simp]:
  "PCards (ResetForNewHand p) = []"
  "PBet (ResetForNewHand p) = 0"
  "Chips (ResetForNewHand p) = Chips p"
  "ID (ResetForNewHand p) = ID p"
  "Name (ResetForNewHand p) = Name p"
  "Position (ResetForNewHand p) = Position p"
  by (simp_all add: ResetForNewHand_def Let_def)

lemma Status_ResetForNewHand:
  "Status (ResetForNewHand p) = (if Chips p > 0 then Active else Out)"
  by (simp add: ResetForNewHand_def Let_def)

lemma IsActive_ResetForNewHand [simp]: "IsActive (ResetForNewHand p) = (Chips p > 0)"
  by (simp add: IsActive_def Status_ResetForNewHand)

lemma player_ok_ResetForNewHand: "0 \<le> Chips p \<Longrightarrow> player_ok (ResetForNewHand p)"
  by (simp add: player_ok_def Status_ResetForNewHand)

lemma Player_Fold_fields [simp]:
  "Chips (Player_Fold p) = Chips p"
  "PBet (Player_Fold p) = PBet p"
  "PCards (Player_Fold p) = PCards p"
  "Status (Player_Fold p) = Folded"
  by (simp_all add: Player_Fold_def)

lemma holdings_Player_Fold [simp]: "holdings (Player_Fold p) = holdings p"
  by (simp add: holdings_def)

lemma not_IsActive_Player_Fold [simp]: "\<not> IsActive (Player_Fold p)"
  by (simp add: IsActive_def)

lemma IsActive_imp_CanAct: "IsActive p \<Longrightarrow> CanAct p"
  by (simp add: IsActive_def CanAct_def)

lemma holdings_CollectWinnings [simp]:
  "holdings (CollectWinnings amount p) = holdings p + amount"
  by (simp add: holdings_def CollectWinnings_def)

lemma ResetForNewHand_eq:
  "ResetForNewHand p =
     p\<lparr>PCards := [], PBet := 0, Status := (if Chips p > 0 then Active else Out)\<rparr>"
  by (simp add: ResetForNewHand_def Let_def)

end
