(* ===== verification/Hand_Model.thy ===== *)
theory Hand_Model
  imports Deck_Model
begin

text \<open>
  Hand evaluation (\<open>src/pkg/game/hand.go\<close>).

  \<^item> \<open>HandRank\<close> is the enumeration of the ten categories, \<open>HandRank_int\<close> its \<open>iota\<close>
    value. The constant \<open>Pair\<close> of the source is \<open>Pair_hand\<close> here (\<open>Pair\<close> is the pairing
    of HOL). The type is made a linear order through \<open>HandRank_int\<close>, which is how Go
    compares two values of the type.
  \<^item> \<open>HandEvaluation\<close> is the struct; its fields \<open>Rank\<close>, \<open>Cards\<close>, \<open>Value\<close> are \<open>HRank\<close>,
    \<open>HCards\<close>, \<open>HValue\<close> (\<open>Rank\<close> and \<open>Cards\<close> are fields of \<open>Card\<close> and \<open>Deck\<close>).
  \<^item> \<open>EvaluateHand\<close> is the cascade of the source, and each \<open>check...\<close> function is the
    body the source has: a placeholder that answers \<open>HighCard\<close> with value 0.
  \<^item> \<open>CompareHands\<close> returns 1, -1 or 0.

  The lemmas show what the cascade computes with these bodies, and that
  \<open>CompareHands\<close> is the three-way comparison of the lexicographic order on
  (category, value).
\<close>

section \<open>Categories\<close>

datatype HandRank = HighCard | Pair_hand | TwoPair | ThreeOfAKind | Straight | Flush
  | FullHouse | FourOfAKind | StraightFlush | RoyalFlush

fun HandRank_int :: "HandRank \<Rightarrow> int" where
  "HandRank_int HighCard = 0"
| "HandRank_int Pair_hand = 1"
| "HandRank_int TwoPair = 2"
| "HandRank_int ThreeOfAKind = 3"
| "HandRank_int Straight = 4"
| "HandRank_int Flush = 5"
| "HandRank_int FullHouse = 6"
| "HandRank_int FourOfAKind = 7"
| "HandRank_int StraightFlush = 8"
| "HandRank_int RoyalFlush = 9"

fun HandRank_String :: "HandRank \<Rightarrow> string" where
  "HandRank_String HighCard = ''High Card''"
| "HandRank_String Pair_hand = ''Pair''"
| "HandRank_String TwoPair = ''Two Pair''"
| "HandRank_String ThreeOfAKind = ''Three of a Kind''"
| "HandRank_String Straight = ''Straight''"
| "HandRank_String Flush = ''Flush''"
| "HandRank_String FullHouse = ''Full House''"
| "HandRank_String FourOfAKind = ''Four of a Kind''"
| "HandRank_String StraightFlush = ''Straight Flush''"
| "HandRank_String RoyalFlush = ''Royal Flush''"

lemma HandRank_int_inj: "HandRank_int a = HandRank_int b \<longleftrightarrow> a = b"
  by (cases a; cases b) simp_all

instantiation HandRank :: linorder
begin

definition less_eq_HandRank :: "HandRank \<Rightarrow> HandRank \<Rightarrow> bool" where
  "less_eq_HandRank a b = (HandRank_int a \<le> HandRank_int b)"

definition less_HandRank :: "HandRank \<Rightarrow> HandRank \<Rightarrow> bool" where
  "less_HandRank a b = (HandRank_int a < HandRank_int b)"

instance
  by standard (auto simp: less_eq_HandRank_def less_HandRank_def HandRank_int_inj)

end

section \<open>Evaluations\<close>

record HandEvaluation =
  HRank :: HandRank
  HCards :: "Card list"
  HValue :: int

definition checkRoyalFlush :: "Card list \<Rightarrow> HandEvaluation" where
  "checkRoyalFlush cards = \<lparr>HRank = HighCard, HCards = cards, HValue = 0\<rparr>"

definition checkStraightFlush :: "Card list \<Rightarrow> HandEvaluation" where
  "checkStraightFlush cards = \<lparr>HRank = HighCard, HCards = cards, HValue = 0\<rparr>"

definition checkFourOfAKind :: "Card list \<Rightarrow> HandEvaluation" where
  "checkFourOfAKind cards = \<lparr>HRank = HighCard, HCards = cards, HValue = 0\<rparr>"

definition checkFullHouse :: "Card list \<Rightarrow> HandEvaluation" where
  "checkFullHouse cards = \<lparr>HRank = HighCard, HCards = cards, HValue = 0\<rparr>"

definition checkFlush :: "Card list \<Rightarrow> HandEvaluation" where
  "checkFlush cards = \<lparr>HRank = HighCard, HCards = cards, HValue = 0\<rparr>"

definition checkStraight :: "Card list \<Rightarrow> HandEvaluation" where
  "checkStraight cards = \<lparr>HRank = HighCard, HCards = cards, HValue = 0\<rparr>"

definition checkThreeOfAKind :: "Card list \<Rightarrow> HandEvaluation" where
  "checkThreeOfAKind cards = \<lparr>HRank = HighCard, HCards = cards, HValue = 0\<rparr>"

definition checkTwoPair :: "Card list \<Rightarrow> HandEvaluation" where
  "checkTwoPair cards = \<lparr>HRank = HighCard, HCards = cards, HValue = 0\<rparr>"

definition checkPair :: "Card list \<Rightarrow> HandEvaluation" where
  "checkPair cards = \<lparr>HRank = HighCard, HCards = cards, HValue = 0\<rparr>"

definition checkHighCard :: "Card list \<Rightarrow> HandEvaluation" where
  "checkHighCard cards = \<lparr>HRank = HighCard, HCards = cards, HValue = 0\<rparr>"

definition EvaluateHand :: "Card list \<Rightarrow> HandEvaluation" where
  "EvaluateHand cards =
     (if length cards < 5 then \<lparr>HRank = HighCard, HCards = cards, HValue = 0\<rparr>
      else if HRank (checkRoyalFlush cards) = RoyalFlush then checkRoyalFlush cards
      else if HRank (checkStraightFlush cards) = StraightFlush then checkStraightFlush cards
      else if HRank (checkFourOfAKind cards) = FourOfAKind then checkFourOfAKind cards
      else if HRank (checkFullHouse cards) = FullHouse then checkFullHouse cards
      else if HRank (checkFlush cards) = Flush then checkFlush cards
      else if HRank (checkStraight cards) = Straight then checkStraight cards
      else if HRank (checkThreeOfAKind cards) = ThreeOfAKind then checkThreeOfAKind cards
      else if HRank (checkTwoPair cards) = TwoPair then checkTwoPair cards
      else if HRank (checkPair cards) = Pair_hand then checkPair cards
      else checkHighCard cards)"

definition CompareHands :: "HandEvaluation \<Rightarrow> HandEvaluation \<Rightarrow> int" where
  "CompareHands hand1 hand2 =
     (if HRank hand1 > HRank hand2 then 1
      else if HRank hand1 < HRank hand2 then - 1
      else if HValue hand1 > HValue hand2 then 1
      else if HValue hand1 < HValue hand2 then - 1
      else 0)"

lemmas check_defs = checkRoyalFlush_def checkStraightFlush_def checkFourOfAKind_def
  checkFullHouse_def checkFlush_def checkStraight_def checkThreeOfAKind_def checkTwoPair_def
  checkPair_def checkHighCard_def

section \<open>The order on evaluations that CompareHands decides\<close>

definition hand_key :: "HandEvaluation \<Rightarrow> int \<times> int" where
  "hand_key h = (HandRank_int (HRank h), HValue h)"

definition key_less :: "int \<times> int \<Rightarrow> int \<times> int \<Rightarrow> bool" where
  "key_less a b = (fst a < fst b \<or> (fst a = fst b \<and> snd a < snd b))"

lemma HandRank_less_iff: "a < b \<longleftrightarrow> HandRank_int a < HandRank_int b"
  by (simp add: less_HandRank_def)

lemma HandRank_le_iff: "a \<le> b \<longleftrightarrow> HandRank_int a \<le> HandRank_int b"
  by (simp add: less_eq_HandRank_def)

lemma HandRank_int_range: "0 \<le> HandRank_int r \<and> HandRank_int r \<le> 9"
  by (cases r) simp_all

lemma CompareHands_range: "CompareHands a b \<in> {- 1, 0, 1}"
  by (simp add: CompareHands_def)

lemma CompareHands_eq_1_iff: "CompareHands a b = 1 \<longleftrightarrow> key_less (hand_key b) (hand_key a)"
  by (auto simp: CompareHands_def key_less_def hand_key_def HandRank_less_iff)

lemma CompareHands_eq_m1_iff: "CompareHands a b = - 1 \<longleftrightarrow> key_less (hand_key a) (hand_key b)"
  by (auto simp: CompareHands_def key_less_def hand_key_def HandRank_less_iff)

lemma CompareHands_eq_0_iff: "CompareHands a b = 0 \<longleftrightarrow> hand_key a = hand_key b"
  by (auto simp: CompareHands_def hand_key_def HandRank_less_iff HandRank_int_inj)

lemma CompareHands_refl [simp]: "CompareHands a a = 0"
  by (simp add: CompareHands_def)

lemma CompareHands_flip: "CompareHands b a = - CompareHands a b"
  by (auto simp: CompareHands_def)

lemma key_less_trans: "key_less a b \<Longrightarrow> key_less b c \<Longrightarrow> key_less a c"
  by (auto simp: key_less_def)

lemma key_less_irrefl [simp]: "\<not> key_less a a"
  by (simp add: key_less_def)

lemma key_less_total: "key_less a b \<or> a = b \<or> key_less b a"
  by (auto simp: key_less_def prod_eq_iff)

lemma EvaluateHand_stub: "EvaluateHand cards = \<lparr>HRank = HighCard, HCards = cards, HValue = 0\<rparr>"
  by (simp add: EvaluateHand_def check_defs)

definition royal_flush_hand :: "Card list" where
  "royal_flush_hand =
     [\<lparr>Rank = Ace, Suit = Hearts\<rparr>, \<lparr>Rank = King, Suit = Hearts\<rparr>,
      \<lparr>Rank = Queen, Suit = Hearts\<rparr>, \<lparr>Rank = Jack, Suit = Hearts\<rparr>,
      \<lparr>Rank = Ten, Suit = Hearts\<rparr>, \<lparr>Rank = Two, Suit = Clubs\<rparr>,
      \<lparr>Rank = Three, Suit = Clubs\<rparr>]"

text \<open>
  C33 (refinement). \<open>CompareHands\<close> decides the lexicographic order on (category,
  value): it returns 1 when the first hand is above the second, -1 when it is below,
  and 0 exactly when both have the same category and value. The category dominates the
  value.
\<close>

theorem CompareHands_decides_order:
  "CompareHands a b =
     (if key_less (hand_key b) (hand_key a) then 1
      else if key_less (hand_key a) (hand_key b) then - 1 else 0) \<and>
   (CompareHands a b = 0 \<longleftrightarrow> HRank a = HRank b \<and> HValue a = HValue b) \<and>
   (HRank b < HRank a \<longrightarrow> CompareHands a b = 1) \<and>
   CompareHands b a = - CompareHands a b"
  by (auto simp: CompareHands_def key_less_def hand_key_def HandRank_less_iff
      simp flip: HandRank_int_inj)

theorem CompareHands_decides_order_witness:
  "HRank \<lparr>HRank = Flush, HCards = [], HValue = 900\<rparr>
     < HRank \<lparr>HRank = FourOfAKind, HCards = [], HValue = 2\<rparr> \<and>
   CompareHands \<lparr>HRank = FourOfAKind, HCards = [], HValue = 2\<rparr>
     \<lparr>HRank = Flush, HCards = [], HValue = 900\<rparr> = 1"
  using CompareHands_decides_order [of "\<lparr>HRank = FourOfAKind, HCards = [], HValue = 2\<rparr>"
      "\<lparr>HRank = Flush, HCards = [], HValue = 900\<rparr>"]
  by (simp add: HandRank_less_iff)

text \<open>
  The comparison is transitive: a hand that beats a hand that beats a
  third hand beats the third.
\<close>

theorem CompareHands_transitive:
  assumes "CompareHands a b = 1" and "CompareHands b c = 1"
  shows "CompareHands a c = 1"
  using assms key_less_trans [of "hand_key c" "hand_key b" "hand_key a"]
  by (simp add: CompareHands_eq_1_iff)

theorem CompareHands_transitive_witness:
  "CompareHands \<lparr>HRank = Flush, HCards = [], HValue = 3\<rparr>
     \<lparr>HRank = Flush, HCards = [], HValue = 2\<rparr> = 1 \<and>
   CompareHands \<lparr>HRank = Flush, HCards = [], HValue = 2\<rparr>
     \<lparr>HRank = TwoPair, HCards = [], HValue = 9\<rparr> = 1 \<and>
   CompareHands \<lparr>HRank = Flush, HCards = [], HValue = 3\<rparr>
     \<lparr>HRank = TwoPair, HCards = [], HValue = 9\<rparr> = 1"
proof -
  have a: "CompareHands \<lparr>HRank = Flush, HCards = [], HValue = 3\<rparr>
     \<lparr>HRank = Flush, HCards = [], HValue = 2\<rparr> = 1"
    and b: "CompareHands \<lparr>HRank = Flush, HCards = [], HValue = 2\<rparr>
     \<lparr>HRank = TwoPair, HCards = [], HValue = 9\<rparr> = 1"
    by (simp_all add: CompareHands_def HandRank_less_iff)
  from a b CompareHands_transitive [OF a b] show ?thesis by simp
qed

text \<open>
  C34 (functional). \<open>EvaluateHand\<close> ranks every hand as a high card of value 0, the royal
  flush of hearts included, so any two hands compare as equal.
\<close>

theorem EvaluateHand_always_high_card:
  "EvaluateHand cards = \<lparr>HRank = HighCard, HCards = cards, HValue = 0\<rparr> \<and>
   HRank (EvaluateHand royal_flush_hand) \<noteq> RoyalFlush \<and>
   CompareHands (EvaluateHand cards) (EvaluateHand cards') = 0"
  by (simp add: EvaluateHand_stub CompareHands_def)

end
