(* ===== verification/Game_Model.thy ===== *)
theory Game_Model
  imports Player_Model Hand_Model
begin

text \<open>
  The table and its betting state machine (\<open>src/pkg/game/game.go\<close>): definitions only.
  The properties are in \<open>Game_Seats\<close>, \<open>Game_Chips\<close>, \<open>Game_Cards\<close> and \<open>Game_Phase\<close>.

  \<^item> \<open>GamePhase\<close> is the enumeration of streets, \<open>GameState\<close> the struct. \<open>Players\<close> is a
    slice of pointers in Go; here it is the list of the players themselves, which is the
    same thing as long as no player is seated twice.
  \<^item> A method with receiver \<open>*GameState\<close> takes the state and returns the state it leaves,
    inside \<open>result\<close> when it indexes \<open>Players\<close> or divides by its length: the value is
    \<open>Inl\<close> of the panic exactly when the Go method panics.
  \<^item> \<open>findNextActivePosition\<close> is the counting loop of the source (\<open>findNext_loop\<close>, with
    the measure \<open>len(Players) - count\<close>) after the first remainder.
  \<^item> The three lines that every \<open>Deal...\<close> method repeats are the helpers \<open>burn_card\<close>,
    \<open>deal_community_card\<close> and \<open>enter_street\<close>.
  \<^item> \<open>ProcessAction\<close> is the \<open>switch\<close> (\<open>action_switch\<close>: \<open>None\<close> stands for
    \<open>return false\<close>, which leaves the state as it was) followed by the move to the next
    seat and the test that closes the round. \<open>set_current\<close> is the write through the
    pointer \<open>player\<close>.
  \<^item> \<open>StartNewHand\<close> takes the random source of the shuffle as an argument. The two
    passes that deal the hole cards are \<open>deal_round\<close>, twice.
  \<^item> \<open>determineWinners\<close> has an empty body in the source and is the identity.
\<close>

section \<open>Phases and the state\<close>

datatype GamePhase = PreFlop | Flop | Turn | River | Showdown

fun GamePhase_int :: "GamePhase \<Rightarrow> int" where
  "GamePhase_int PreFlop = 0"
| "GamePhase_int Flop = 1"
| "GamePhase_int Turn = 2"
| "GamePhase_int River = 3"
| "GamePhase_int Showdown = 4"

fun GamePhase_String :: "GamePhase \<Rightarrow> string" where
  "GamePhase_String PreFlop = ''Pre-Flop''"
| "GamePhase_String Flop = ''Flop''"
| "GamePhase_String Turn = ''Turn''"
| "GamePhase_String River = ''River''"
| "GamePhase_String Showdown = ''Showdown''"

record GameState =
  Players :: "Player list"
  Deck :: Deck
  CommunityCards :: "Card list"
  CurrentPhase :: GamePhase
  Pot :: int
  CurrentBet :: int
  SmallBlind :: int
  BigBlind :: int
  DealerPos :: int
  CurrentPos :: int
  LastRaisePos :: int
  MinRaise :: int

definition NewGameState :: "Player list \<Rightarrow> int \<Rightarrow> int \<Rightarrow> GameState" where
  "NewGameState players smallBlind bigBlind =
     \<lparr>Players = players, Deck = NewDeck, CommunityCards = [], CurrentPhase = PreFlop,
      Pot = 0, CurrentBet = 0, SmallBlind = smallBlind, BigBlind = bigBlind,
      DealerPos = 0, CurrentPos = 0, LastRaisePos = - 1, MinRaise = bigBlind\<rparr>"

section \<open>Finding the next active seat\<close>

function findNext_loop :: "Player list \<Rightarrow> int \<Rightarrow> int \<Rightarrow> int \<Rightarrow> int result" where
  "findNext_loop ps pos nextPos cnt =
     (if cnt < go_len ps then
        bindR (go_index ps nextPos) (\<lambda>p.
          if IsActive p then Inr nextPos
          else bindR (go_mod (nextPos + 1) (go_len ps)) (\<lambda>n.
            findNext_loop ps pos n (cnt + 1)))
      else Inr pos)"
  by pat_completeness auto
termination
  by (relation "measure (\<lambda>(ps, pos, nextPos, cnt). nat (go_len ps - cnt))") auto

declare findNext_loop.simps [simp del]

definition findNextActivePosition :: "GameState \<Rightarrow> int \<Rightarrow> int result" where
  "findNextActivePosition g pos =
     bindR (go_mod (pos + 1) (go_len (Players g))) (\<lambda>nextPos.
       findNext_loop (Players g) pos nextPos 0)"

section \<open>Dealing the streets\<close>

definition burn_card :: "GameState \<Rightarrow> GameState" where
  "burn_card g = g\<lparr>Deck := snd (DrawOne (Deck g))\<rparr>"

definition deal_community_card :: "GameState \<Rightarrow> GameState" where
  "deal_community_card g =
     (case DrawOne (Deck g) of
        (Some c, d) \<Rightarrow> g\<lparr>Deck := d, CommunityCards := CommunityCards g @ [c]\<rparr>
      | (None, d) \<Rightarrow> g\<lparr>Deck := d\<rparr>)"

definition enter_street :: "GamePhase \<Rightarrow> GameState \<Rightarrow> GameState result" where
  "enter_street phase g =
     (let g1 = g\<lparr>CurrentPhase := phase, CurrentBet := 0, LastRaisePos := - 1\<rparr>
      in bindR (findNextActivePosition g1 (DealerPos g1)) (\<lambda>pos. Inr (g1\<lparr>CurrentPos := pos\<rparr>)))"

definition DealFlop :: "GameState \<Rightarrow> GameState result" where
  "DealFlop g =
     (if CurrentPhase g \<noteq> PreFlop then Inr g
      else enter_street Flop
        (deal_community_card (deal_community_card (deal_community_card (burn_card g)))))"

definition DealTurn :: "GameState \<Rightarrow> GameState result" where
  "DealTurn g =
     (if CurrentPhase g \<noteq> Flop then Inr g
      else enter_street Turn (deal_community_card (burn_card g)))"

definition DealRiver :: "GameState \<Rightarrow> GameState result" where
  "DealRiver g =
     (if CurrentPhase g \<noteq> Turn then Inr g
      else enter_street River (deal_community_card (burn_card g)))"

definition determineWinners :: "GameState \<Rightarrow> GameState" where
  "determineWinners g = g"

definition advancePhase :: "GameState \<Rightarrow> GameState result" where
  "advancePhase g =
     (case CurrentPhase g of
        PreFlop \<Rightarrow> DealFlop g
      | Flop \<Rightarrow> DealTurn g
      | Turn \<Rightarrow> DealRiver g
      | River \<Rightarrow> Inr (determineWinners (g\<lparr>CurrentPhase := Showdown\<rparr>))
      | Showdown \<Rightarrow> Inr g)"

section \<open>Queries\<close>

definition countActivePlayers :: "GameState \<Rightarrow> int" where
  "countActivePlayers g = foldl (\<lambda>cnt p. if IsActive p then cnt + 1 else cnt) 0 (Players g)"

definition GetCurrentPlayer :: "GameState \<Rightarrow> Player result" where
  "GetCurrentPlayer g = go_index (Players g) (CurrentPos g)"

definition IsHandOver :: "GameState \<Rightarrow> bool" where
  "IsHandOver g = (CurrentPhase g = Showdown \<or> countActivePlayers g \<le> 1)"

section \<open>Processing one action\<close>

definition set_current :: "GameState \<Rightarrow> Player \<Rightarrow> GameState" where
  "set_current g p = g\<lparr>Players := go_update (Players g) (CurrentPos g) p\<rparr>"

fun action_switch :: "PlayerAction \<Rightarrow> int \<Rightarrow> GameState \<Rightarrow> Player \<Rightarrow> GameState option" where
  "action_switch Fold amount g player = Some (set_current g (Player_Fold player))"
| "action_switch Check amount g player =
     (if CurrentBet g > PBet player then None else Some g)"
| "action_switch Call amount g player =
     (let callAmount = CurrentBet g - PBet player;
          r = PlaceBet callAmount player
      in if \<not> fst r then None
         else Some ((set_current g (snd r))\<lparr>Pot := Pot g + callAmount\<rparr>))"
| "action_switch Bet amount g player =
     (if CurrentBet g > 0 then None
      else if amount < BigBlind g then None
      else let r = PlaceBet amount player
           in if \<not> fst r then None
              else Some ((set_current g (snd r))
                \<lparr>Pot := Pot g + amount, CurrentBet := amount,
                 LastRaisePos := CurrentPos g, MinRaise := amount\<rparr>))"
| "action_switch Raise amount g player =
     (let raiseAmount = CurrentBet g - PBet player + amount
      in if amount < MinRaise g then None
         else let r = PlaceBet raiseAmount player
              in if \<not> fst r then None
                 else Some ((set_current g (snd r))
                   \<lparr>Pot := Pot g + raiseAmount, CurrentBet := PBet (snd r),
                    LastRaisePos := CurrentPos g, MinRaise := amount\<rparr>))"
| "action_switch AllIn amount g player =
     (let allInAmount = Chips player;
          p = snd (PlaceBet allInAmount player);
          g1 = (set_current g p)\<lparr>Pot := Pot g + allInAmount\<rparr>
      in Some (if PBet p > CurrentBet g1
               then let g2 = g1\<lparr>CurrentBet := PBet p\<rparr>;
                        g3 = g2\<lparr>LastRaisePos := CurrentPos g2\<rparr>
                    in g3\<lparr>MinRaise := CurrentBet g3 - (CurrentBet g3 - allInAmount)\<rparr>
               else g1))"

definition next_seat :: "GameState \<Rightarrow> (bool \<times> GameState) result" where
  "next_seat g =
     bindR (findNextActivePosition g (CurrentPos g)) (\<lambda>pos.
       let g1 = g\<lparr>CurrentPos := pos\<rparr>
       in if CurrentPos g1 = LastRaisePos g1 \<or> countActivePlayers g1 \<le> 1
          then bindR (advancePhase g1) (\<lambda>g2. Inr (True, g2))
          else Inr (True, g1))"

definition ProcessAction :: "PlayerAction \<Rightarrow> int \<Rightarrow> GameState \<Rightarrow> (bool \<times> GameState) result" where
  "ProcessAction action amount g =
     bindR (go_index (Players g) (CurrentPos g)) (\<lambda>player.
       case action_switch action amount g player of
         None \<Rightarrow> Inr (False, g)
       | Some g1 \<Rightarrow> next_seat g1)"

section \<open>Starting a hand\<close>

definition deal_to :: "Player \<Rightarrow> Deck \<Rightarrow> Player \<times> Deck" where
  "deal_to p d =
     (case DrawOne d of
        (Some c, d') \<Rightarrow> (p\<lparr>PCards := PCards p @ [c]\<rparr>, d')
      | (None, d') \<Rightarrow> (p, d'))"

fun deal_round :: "Player list \<Rightarrow> Deck \<Rightarrow> Player list \<times> Deck" where
  "deal_round [] d = ([], d)"
| "deal_round (p # ps) d =
     (let r = (if IsActive p \<or> Status p = AllInStatus then deal_to p d else (p, d));
          rest = deal_round ps (snd r)
      in (fst r # fst rest, snd rest))"

definition deal_hole_cards :: "GameState \<Rightarrow> GameState" where
  "deal_hole_cards g =
     (let r1 = deal_round (Players g) (Deck g);
          r2 = deal_round (fst r1) (snd r1)
      in g\<lparr>Players := fst r2, Deck := snd r2\<rparr>)"

definition post_blind :: "int \<Rightarrow> int \<Rightarrow> GameState \<Rightarrow> GameState result" where
  "post_blind pos amount g =
     bindR (go_index (Players g) pos) (\<lambda>p.
       Inr (g\<lparr>Players := go_update (Players g) pos (snd (PlaceBet amount p))\<rparr>))"

definition reset_table :: "(nat \<Rightarrow> nat) \<Rightarrow> GameState \<Rightarrow> GameState" where
  "reset_table rnd g =
     (let g1 = g\<lparr>Deck := Shuffle rnd NewDeck, CommunityCards := [], CurrentPhase := PreFlop,
                 Pot := 0, CurrentBet := 0, LastRaisePos := - 1, MinRaise := BigBlind g\<rparr>
      in g1\<lparr>Players := map ResetForNewHand (Players g1)\<rparr>)"

definition StartNewHand :: "(nat \<Rightarrow> nat) \<Rightarrow> GameState \<Rightarrow> GameState result" where
  "StartNewHand rnd g =
     (let g2 = reset_table rnd g
      in bindR (go_mod (DealerPos g2 + 1) (go_len (Players g2))) (\<lambda>dealer.
         let g3 = g2\<lparr>DealerPos := dealer\<rparr>
         in bindR (findNextActivePosition g3 (DealerPos g3)) (\<lambda>sbPos.
            bindR (post_blind sbPos (SmallBlind g3) g3) (\<lambda>g4.
            bindR (findNextActivePosition g4 sbPos) (\<lambda>bbPos.
            bindR (post_blind bbPos (BigBlind g4) g4) (\<lambda>g5.
            let g6 = deal_hole_cards (g5\<lparr>CurrentBet := BigBlind g5\<rparr>)
            in bindR (findNextActivePosition g6 bbPos) (\<lambda>pos.
               Inr (g6\<lparr>CurrentPos := pos\<rparr>))))))))"

section \<open>The table the program sets up\<close>

text \<open>
  \<open>run\<close> in \<open>src/cmd/poker/main.go\<close> seats four players with 1000 chips each and creates
  the table with blinds 5 and 10, then starts the first hand.
\<close>

definition sample_players :: "Player list" where
  "sample_players =
     [NewPlayer ''1'' ''Player 1'' 1000 0, NewPlayer ''2'' ''Player 2'' 1000 1,
      NewPlayer ''3'' ''Player 3'' 1000 2, NewPlayer ''4'' ''Player 4'' 1000 3]"

definition sample_table :: GameState where
  "sample_table = NewGameState sample_players 5 10"

definition first_hand :: "(nat \<Rightarrow> nat) \<Rightarrow> GameState result" where
  "first_hand rnd = StartNewHand rnd sample_table"

lemmas sample_defs = sample_players_def sample_table_def NewGameState_def NewPlayer_def

lemmas street_defs = burn_card_def deal_community_card_def enter_street_def
lemmas deal_defs = DealFlop_def DealTurn_def DealRiver_def advancePhase_def determineWinners_def

end
