(* ===== verification/Game_Seats.thy ===== *)
theory Game_Seats
  imports Game_Model
begin

text \<open>
  Seats and positions: what \<open>findNextActivePosition\<close> computes, and when a table is well
  formed.

  \<^item> \<open>next_active\<close> is the specification of the scan: the first seat, in the order
    \<open>pos + 1, pos + 2, \<dots>\<close> around the table, whose player is \<open>Active\<close>, and \<open>pos\<close> itself
    when there is none. \<open>seats_from\<close> is that order.
  \<^item> \<open>wf_game\<close> says that the table has a seat and that the dealer, the acting seat and
    the last aggressor (when there is one) are seats of the table.
  \<^item> The lemmas show that the loop of the source implements \<open>next_active\<close> on a table
    with a seat, that it panics with a division by zero on a table without one, and that
    the seat it returns is the first active seat clockwise.
\<close>

section \<open>The order of the scan\<close>

definition seats_from :: "nat \<Rightarrow> int \<Rightarrow> nat \<Rightarrow> int list" where
  "seats_from n start k = map (\<lambda>i. (start + int i) mod int n) [0..<k]"

definition next_active :: "Player list \<Rightarrow> int \<Rightarrow> int" where
  "next_active ps pos =
     (case List.find (\<lambda>i. IsActive (ps ! nat i)) (seats_from (length ps) (pos + 1) (length ps)) of
        None \<Rightarrow> pos
      | Some r \<Rightarrow> r)"

definition wf_game :: "GameState \<Rightarrow> bool" where
  "wf_game g =
     (Players g \<noteq> [] \<and> in_range (Players g) (DealerPos g) \<and> in_range (Players g) (CurrentPos g) \<and>
      (LastRaisePos g = - 1 \<or> in_range (Players g) (LastRaisePos g)))"

lemma seats_from_0 [simp]: "seats_from n start 0 = []"
  by (simp add: seats_from_def)

lemma seats_from_Suc: "seats_from n start (Suc k) = start mod int n # seats_from n (start + 1) k"
proof -
  have "[0..<Suc k] = 0 # map Suc [0..<k]"
    by (simp add: upt_conv_Cons map_Suc_upt del: upt_Suc)
  then show ?thesis
    by (simp add: seats_from_def comp_def add.assoc del: upt_Suc)
qed

lemma seats_from_mod: "seats_from n (start mod int n) k = seats_from n start k"
  by (simp add: seats_from_def mod_add_left_eq)

lemma length_seats_from [simp]: "length (seats_from n start k) = k"
  by (simp add: seats_from_def)

lemma nth_seats_from: "i < k \<Longrightarrow> seats_from n start k ! i = (start + int i) mod int n"
  by (simp add: seats_from_def)

lemma seats_from_in_range: "ps \<noteq> [] \<Longrightarrow> i \<in> set (seats_from (length ps) start k) \<Longrightarrow> in_range ps i"
  by (auto simp: seats_from_def in_range_def go_len_def)

lemma seats_from_covers:
  assumes "in_range ps j"
  shows "j \<in> set (seats_from (length ps) start (length ps))"
proof -
  let ?n = "int (length ps)"
  from assms have j: "0 \<le> j" "j < ?n" by (simp_all add: in_range_def go_len_def)
  let ?i = "nat ((j - start) mod ?n)"
  from j have pos: "0 < ?n" by linarith
  then have m: "0 \<le> (j - start) mod ?n" "(j - start) mod ?n < ?n"
    by simp_all
  then have "?i < length ps" by linarith
  moreover from j m have "(start + int ?i) mod ?n = j"
    by (simp add: mod_add_right_eq)
  ultimately show ?thesis
    unfolding seats_from_def by (auto simp: image_iff intro!: bexI [of _ ?i])
qed

section \<open>The loop implements the specification\<close>

lemma findNext_loop_scan:
  "ps \<noteq> [] \<Longrightarrow> in_range ps nextPos \<Longrightarrow>
   findNext_loop ps pos nextPos cnt =
     Inr (case List.find (\<lambda>i. IsActive (ps ! nat i))
                 (seats_from (length ps) nextPos (nat (int (length ps) - cnt))) of
            None \<Rightarrow> pos
          | Some r \<Rightarrow> r)"
proof (induction ps pos nextPos cnt rule: findNext_loop.induct)
  case (1 ps pos nextPos cnt)
  let ?n = "int (length ps)"
  show ?case
  proof (cases "cnt < ?n")
    case False
    then show ?thesis
      by (simp add: findNext_loop.simps [of ps pos nextPos cnt] go_len_def)
  next
    case more: True
    then have k: "nat (?n - cnt) = Suc (nat (?n - (cnt + 1)))" by simp
    from "1.prems" have self: "nextPos mod int (length ps) = nextPos"
      by (simp add: in_range_def go_len_def)
    show ?thesis
    proof (cases "IsActive (ps ! nat nextPos)")
      case True
      with more "1.prems" show ?thesis
        by (simp add: findNext_loop.simps [of ps pos nextPos cnt] go_len_def k seats_from_Suc self)
    next
      case False
      from "1.prems" have nn: "0 \<le> nextPos + 1" by (simp add: in_range_def)
      with "1.prems" have step: "go_mod (nextPos + 1) ?n = Inr ((nextPos + 1) mod ?n)"
        by (simp add: go_mod_nonneg)
      from "1.prems" have next_ok: "in_range ps ((nextPos + 1) mod ?n)"
        using mod_len_in_range [of ps "nextPos + 1"] by (simp add: go_len_def)
      have "findNext_loop ps pos ((nextPos + 1) mod ?n) (cnt + 1) =
        Inr (case List.find (\<lambda>i. IsActive (ps ! nat i))
                 (seats_from (length ps) ((nextPos + 1) mod ?n) (nat (?n - (cnt + 1)))) of
               None \<Rightarrow> pos | Some r \<Rightarrow> r)"
        using more "1.prems" False step next_ok
        by (intro "1.IH" [of "ps ! nat nextPos", unfolded go_len_def]) (simp_all add: go_len_def)
      then show ?thesis
        using more "1.prems" False step
        by (simp add: findNext_loop.simps [of ps pos nextPos cnt] go_len_def k seats_from_Suc
            self seats_from_mod)
    qed
  qed
qed

lemma findNextActivePosition_eq:
  assumes "Players g \<noteq> []" and "- 1 \<le> pos"
  shows "findNextActivePosition g pos = Inr (next_active (Players g) pos)"
proof -
  let ?ps = "Players g"
  let ?n = "int (length ?ps)"
  from assms have m: "go_mod (pos + 1) ?n = Inr ((pos + 1) mod ?n)"
    by (simp add: go_mod_nonneg)
  from assms have r: "in_range ?ps ((pos + 1) mod ?n)"
    using mod_len_in_range [of ?ps "pos + 1"] by (simp add: go_len_def)
  have "findNextActivePosition g pos = findNext_loop ?ps pos ((pos + 1) mod ?n) 0"
    by (simp add: findNextActivePosition_def go_len_def m)
  also have "\<dots> = Inr (next_active ?ps pos)"
    using assms(1) r by (simp add: findNext_loop_scan next_active_def seats_from_mod)
  finally show ?thesis .
qed

lemma findNextActivePosition_empty:
  "Players g = [] \<Longrightarrow> findNextActivePosition g pos = Inl DivideByZero"
  by (simp add: findNextActivePosition_def)

section \<open>Properties of the specification\<close>

lemma next_active_cases:
  "ps \<noteq> [] \<Longrightarrow>
   next_active ps pos = pos \<and> (\<forall>p \<in> set ps. \<not> IsActive p) \<or>
   in_range ps (next_active ps pos) \<and> IsActive (ps ! nat (next_active ps pos))"
proof (cases "List.find (\<lambda>i. IsActive (ps ! nat i)) (seats_from (length ps) (pos + 1) (length ps))")
  case None
  assume ne: "ps \<noteq> []"
  have "\<not> IsActive p" if "p \<in> set ps" for p
  proof -
    from that obtain k where k: "k < length ps" "p = ps ! k"
      by (auto simp: in_set_conv_nth)
    then have "in_range ps (int k)" by (simp add: in_range_def go_len_def)
    then have "int k \<in> set (seats_from (length ps) (pos + 1) (length ps))"
      by (rule seats_from_covers)
    with None k show ?thesis by (auto simp: find_None_iff)
  qed
  with None show ?thesis by (simp add: next_active_def)
next
  case (Some r)
  assume ne: "ps \<noteq> []"
  from Some have "r \<in> set (seats_from (length ps) (pos + 1) (length ps))" "IsActive (ps ! nat r)"
    by (auto simp: find_Some_iff in_set_conv_nth)
  with ne Some show ?thesis
    by (auto simp: next_active_def dest: seats_from_in_range)
qed

lemma next_active_in_range:
  assumes "in_range ps pos"
  shows "in_range ps (next_active ps pos)"
proof -
  from assms have "ps \<noteq> []" by (rule in_range_nonempty)
  from next_active_cases [OF this, of pos] assms show ?thesis by auto
qed

lemma next_active_none: "\<forall>p \<in> set ps. \<not> IsActive p \<Longrightarrow> next_active ps pos = pos"
proof (cases "ps = []")
  case True
  then show ?thesis by (simp add: next_active_def)
next
  case False
  assume "\<forall>p \<in> set ps. \<not> IsActive p"
  with next_active_cases [OF False, of pos] show ?thesis
    by (auto dest: in_range_nat)
qed

lemma next_active_some:
  assumes "\<exists>p \<in> set ps. IsActive p"
  shows "in_range ps (next_active ps pos) \<and> IsActive (ps ! nat (next_active ps pos))"
proof -
  from assms have "ps \<noteq> []" by auto
  from next_active_cases [OF this, of pos] assms show ?thesis by auto
qed

lemma next_active_first:
  assumes "List.find (\<lambda>i. IsActive (ps ! nat i)) (seats_from (length ps) (pos + 1) (length ps))
           = Some r"
  shows "\<exists>d < length ps. r = (pos + 1 + int d) mod int (length ps) \<and>
           (\<forall>e < d. \<not> IsActive (ps ! nat ((pos + 1 + int e) mod int (length ps))))"
proof -
  from assms obtain d where d: "d < length ps"
    "seats_from (length ps) (pos + 1) (length ps) ! d = r"
    "\<forall>e < d. \<not> IsActive (ps ! nat (seats_from (length ps) (pos + 1) (length ps) ! e))"
    by (auto simp: find_Some_iff)
  then show ?thesis
    by (intro exI [of _ d]) (auto simp: nth_seats_from)
qed

lemma next_active_found:
  assumes "\<exists>p \<in> set ps. IsActive p"
  shows "\<exists>d < length ps. next_active ps pos = (pos + 1 + int d) mod int (length ps) \<and>
           (\<forall>e < d. \<not> IsActive (ps ! nat ((pos + 1 + int e) mod int (length ps))))"
proof (cases "List.find (\<lambda>i. IsActive (ps ! nat i)) (seats_from (length ps) (pos + 1) (length ps))")
  case None
  from assms obtain k where k: "k < length ps" "IsActive (ps ! k)"
    by (auto simp: in_set_conv_nth)
  then have "in_range ps (int k)" by (simp add: in_range_def go_len_def)
  then have "int k \<in> set (seats_from (length ps) (pos + 1) (length ps))"
    by (rule seats_from_covers)
  with None k show ?thesis by (auto simp: find_None_iff)
next
  case (Some r)
  from next_active_first [OF Some] Some show ?thesis
    by (simp add: next_active_def)
qed

text \<open>
  C7 (refinement). On a table with at least one seat, and from a position of at least
  -1, the counting loop of \<open>findNextActivePosition\<close> ends and returns \<open>next_active\<close>: a
  seat of the table that is active if any seat is, and the position it was given if
  none is.
\<close>

theorem findNextActivePosition_refines:
  assumes "Players g \<noteq> []" and "- 1 \<le> pos"
  shows "findNextActivePosition g pos = Inr (next_active (Players g) pos) \<and>
         (if \<exists>p \<in> set (Players g). IsActive p
          then in_range (Players g) (next_active (Players g) pos) \<and>
               IsActive (Players g ! nat (next_active (Players g) pos))
          else next_active (Players g) pos = pos)"
  using assms next_active_some [of "Players g" pos] next_active_none [of "Players g" pos]
  by (simp add: findNextActivePosition_eq)

theorem findNextActivePosition_refines_witness:
  "Players sample_table \<noteq> [] \<and> - 1 \<le> (3::int) \<and>
   findNextActivePosition sample_table 3 = Inr (next_active (Players sample_table) 3) \<and>
   next_active (Players sample_table) 3 = 0"
proof -
  have a: "Players sample_table \<noteq> []" by (simp add: sample_defs)
  have "next_active (Players sample_table) 3 = 0" by code_simp
  with findNextActivePosition_refines [OF a, of 3] a show ?thesis by simp
qed

text \<open>
  When some seat is active, \<open>findNextActivePosition\<close> returns the first
  active seat in clockwise order after the position: every seat it passed is inactive.
\<close>

theorem findNextActivePosition_first_clockwise:
  assumes "Players g \<noteq> []" and "- 1 \<le> pos" and "\<exists>p \<in> set (Players g). IsActive p"
  shows "\<exists>r d. findNextActivePosition g pos = Inr r \<and> d < length (Players g) \<and>
           r = (pos + 1 + int d) mod int (length (Players g)) \<and>
           IsActive (Players g ! nat r) \<and>
           (\<forall>e < d. \<not> IsActive (Players g ! nat ((pos + 1 + int e) mod int (length (Players g)))))"
  using next_active_found [OF assms(3), of pos] next_active_some [OF assms(3), of pos]
  by (auto simp: findNextActivePosition_eq [OF assms(1,2)])

theorem findNextActivePosition_first_clockwise_witness:
  "Players sample_table \<noteq> [] \<and> - 1 \<le> (1::int) \<and>
   (\<exists>p \<in> set (Players sample_table). IsActive p) \<and>
   (\<exists>r d. findNextActivePosition sample_table 1 = Inr r \<and> d < length (Players sample_table) \<and>
      r = (1 + 1 + int d) mod int (length (Players sample_table)) \<and>
      IsActive (Players sample_table ! nat r) \<and>
      (\<forall>e < d. \<not> IsActive (Players sample_table !
         nat ((1 + 1 + int e) mod int (length (Players sample_table))))))"
proof -
  have a: "Players sample_table \<noteq> []" "\<exists>p \<in> set (Players sample_table). IsActive p"
    by (simp_all add: sample_defs IsActive_def)
  from findNextActivePosition_first_clockwise [OF a(1) _ a(2), of 1] a show ?thesis
    by simp
qed

end
