(* ===== verification/Seat_Search.thy ===== *)
theory Seat_Search
  imports Game_Seats "HOL-Library.While_Combinator"
begin

text \<open>
  The loop of \<open>findNextActivePosition\<close> (\<open>src/pkg/game/game.go\<close>) as the source writes
  it: two variables that the body assigns, and a \<open>return\<close> inside the body.

  \<^item> \<open>SeatLoop\<close> holds the variables \<open>nextPos\<close> and \<open>count\<close> (here \<open>count'\<close>), and \<open>outcome\<close>: \<open>None\<close>
    while the loop is running, the value returned from inside the body or the panic
    of the body once there is one.
  \<^item> \<open>seat_test\<close> is the condition of the \<open>for\<close> statement, \<open>seat_body\<close> its body, and
    \<open>findNext_while\<close> the loop with the \<open>return pos\<close> that follows it, by \<open>while_option\<close>:
    \<open>None\<close> would be a loop that never ends.
  \<^item> The lemmas show that the loop ends on every list of seats after at most
    \<open>len(Players)\<close> rounds, and that it computes what the recursive \<open>findNext_loop\<close> of
    \<open>Game_Model\<close> computes, so that every lemma about \<open>findNextActivePosition\<close> is a
    lemma about this loop.
\<close>

section \<open>The loop\<close>

record SeatLoop =
  nextPos :: int
  count' :: int
  outcome :: "int result option"

definition seat_test :: "Player list \<Rightarrow> SeatLoop \<Rightarrow> bool" where
  "seat_test ps s = (outcome s = None \<and> count' s < go_len ps)"

definition seat_body :: "Player list \<Rightarrow> SeatLoop \<Rightarrow> SeatLoop" where
  "seat_body ps s =
     (case go_index ps (nextPos s) of
        Inl e \<Rightarrow> s\<lparr>outcome := Some (Inl e)\<rparr>
      | Inr p \<Rightarrow>
          if IsActive p then s\<lparr>outcome := Some (Inr (nextPos s))\<rparr>
          else (case go_mod (nextPos s + 1) (go_len ps) of
                  Inl e \<Rightarrow> s\<lparr>outcome := Some (Inl e)\<rparr>
                | Inr n \<Rightarrow> s\<lparr>nextPos := n, count' := count' s + 1\<rparr>))"

definition seat_result :: "int \<Rightarrow> SeatLoop \<Rightarrow> int result" where
  "seat_result pos s = (case outcome s of None \<Rightarrow> Inr pos | Some r \<Rightarrow> r)"

definition findNext_while :: "Player list \<Rightarrow> int \<Rightarrow> int \<Rightarrow> int \<Rightarrow> int result option" where
  "findNext_while ps pos n c =
     map_option (seat_result pos)
       (while_option (seat_test ps) (seat_body ps) \<lparr>nextPos = n, count' = c, outcome = None\<rparr>)"

definition findNextActivePosition_while :: "GameState \<Rightarrow> int \<Rightarrow> int result option" where
  "findNextActivePosition_while g pos =
     (case go_mod (pos + 1) (go_len (Players g)) of
        Inl e \<Rightarrow> Some (Inl e)
      | Inr n \<Rightarrow> findNext_while (Players g) pos n 0)"

section \<open>The loop ends\<close>

definition rounds_left :: "Player list \<Rightarrow> SeatLoop \<Rightarrow> nat" where
  "rounds_left ps s = (if outcome s = None then Suc (nat (go_len ps - count' s)) else 0)"

lemma seat_body_decreases:
  "seat_test ps s \<Longrightarrow> rounds_left ps (seat_body ps s) < rounds_left ps s"
  by (auto simp: seat_test_def seat_body_def rounds_left_def split: sum.splits)

lemma seat_body_count:
  "seat_test ps s \<Longrightarrow> count' s \<le> count' (seat_body ps s) \<and> count' (seat_body ps s) \<le> go_len ps"
  by (auto simp: seat_test_def seat_body_def split: sum.splits)

lemma seat_loop_ends: "\<exists>t. while_option (seat_test ps) (seat_body ps) s = Some t"
  by (rule measure_while_option_Some [where P = "\<lambda>s. True" and f = "rounds_left ps"])
     (simp_all add: seat_body_decreases)

lemma seat_loop_bound:
  assumes "while_option (seat_test ps) (seat_body ps) s = Some t" and "count' s \<le> go_len ps"
  shows "count' s \<le> count' t \<and> count' t \<le> go_len ps"
  by (rule while_option_rule
      [where P = "\<lambda>t. count' s \<le> count' t \<and> count' t \<le> go_len ps", OF _ assms(1)])
     (use assms(2) seat_body_count in fastforce)+

section \<open>The loop and the recursion agree\<close>

lemma findNext_while_unfold:
  "findNext_while ps pos n c =
     (if c < go_len ps then
        (case go_index ps n of
           Inl e \<Rightarrow> Some (Inl e)
         | Inr p \<Rightarrow>
             if IsActive p then Some (Inr n)
             else (case go_mod (n + 1) (go_len ps) of
                     Inl e \<Rightarrow> Some (Inl e)
                   | Inr n' \<Rightarrow> findNext_while ps pos n' (c + 1)))
      else Some (Inr pos))"
proof -
  have stop: "while_option (seat_test ps) (seat_body ps) s = Some s" if "outcome s \<noteq> None" for s
    using that by (subst while_option_unfold) (auto simp: seat_test_def)
  show ?thesis
    unfolding findNext_while_def
    by (subst while_option_unfold)
       (auto simp: seat_test_def seat_body_def seat_result_def stop split: sum.splits)
qed

lemma findNext_while_eq: "findNext_while ps pos n c = Some (findNext_loop ps pos n c)"
proof (induction ps pos n c rule: findNext_loop.induct)
  case (1 ps pos nextPos cnt)
  show ?case
    by (subst findNext_while_unfold, subst findNext_loop.simps)
       (auto simp: 1 bindR_def split: sum.splits)
qed

section \<open>What the loop guarantees\<close>

text \<open>
  C15 (termination). The loop of \<open>findNextActivePosition\<close> ends on every list of seats
  and from every seat, also on an empty list and from a seat that does not exist: it
  stops with its test false after at most \<open>len(Players)\<close> rounds, so the method
  returns or panics and never hangs.
\<close>

theorem seat_search_terminates:
  "\<exists>t. while_option (seat_test ps) (seat_body ps) \<lparr>nextPos = n, count' = 0, outcome = None\<rparr> =
          Some t \<and>
        \<not> seat_test ps t \<and> 0 \<le> count' t \<and> count' t \<le> go_len ps \<and>
        findNext_while ps pos n 0 = Some (seat_result pos t)"
proof -
  let ?s = "\<lparr>nextPos = n, count' = 0, outcome = None\<rparr>"
  from seat_loop_ends [of ps ?s] obtain t
    where t: "while_option (seat_test ps) (seat_body ps) ?s = Some t" by blast
  from seat_loop_bound [OF t] while_option_stop [OF t] t show ?thesis
    by (simp add: findNext_while_def)
qed

text \<open>
  The link to the other theories: the loop with its two variables and the recursive
  function \<open>findNext_loop\<close> are two writings of the same lines, and they agree on every
  table. The properties of the search itself are stated in \<open>Game_Seats\<close>.
\<close>

lemma findNextActivePosition_while_eq:
  "findNextActivePosition_while g pos = Some (findNextActivePosition g pos)"
  by (simp add: findNextActivePosition_while_def findNextActivePosition_def findNext_while_eq
      bindR_def split: sum.splits)

end
