(* ===== verification/Game_Frame.thy ===== *)
theory Game_Frame
  imports Game_Seats
begin

text \<open>
  The facts about the methods of \<open>GameState\<close> that every later theory uses: which
  fields a method leaves alone, what a returned state looks like (one lemma per method,
  read off its definition), that \<open>wf_game\<close> is kept, and that a well-formed table makes
  every method return.
\<close>

section \<open>The scan reads the players only\<close>

lemma findNextActivePosition_cong:
  "Players g = Players g' \<Longrightarrow> findNextActivePosition g pos = findNextActivePosition g' pos"
  by (simp add: findNextActivePosition_def)

lemma findNextActivePosition_update [simp]:
  "findNextActivePosition (g\<lparr>Deck := d\<rparr>) pos = findNextActivePosition g pos"
  "findNextActivePosition (g\<lparr>CommunityCards := cc\<rparr>) pos = findNextActivePosition g pos"
  "findNextActivePosition (g\<lparr>CurrentPhase := ph\<rparr>) pos = findNextActivePosition g pos"
  "findNextActivePosition (g\<lparr>Pot := x\<rparr>) pos = findNextActivePosition g pos"
  "findNextActivePosition (g\<lparr>CurrentBet := x\<rparr>) pos = findNextActivePosition g pos"
  "findNextActivePosition (g\<lparr>DealerPos := x\<rparr>) pos = findNextActivePosition g pos"
  "findNextActivePosition (g\<lparr>CurrentPos := x\<rparr>) pos = findNextActivePosition g pos"
  "findNextActivePosition (g\<lparr>LastRaisePos := x\<rparr>) pos = findNextActivePosition g pos"
  "findNextActivePosition (g\<lparr>MinRaise := x\<rparr>) pos = findNextActivePosition g pos"
  by (simp_all add: findNextActivePosition_def)

lemma countActivePlayers_update [simp]:
  "countActivePlayers (g\<lparr>Deck := d\<rparr>) = countActivePlayers g"
  "countActivePlayers (g\<lparr>CommunityCards := cc\<rparr>) = countActivePlayers g"
  "countActivePlayers (g\<lparr>CurrentPhase := ph\<rparr>) = countActivePlayers g"
  "countActivePlayers (g\<lparr>Pot := x\<rparr>) = countActivePlayers g"
  "countActivePlayers (g\<lparr>CurrentBet := x\<rparr>) = countActivePlayers g"
  "countActivePlayers (g\<lparr>DealerPos := x\<rparr>) = countActivePlayers g"
  "countActivePlayers (g\<lparr>CurrentPos := x\<rparr>) = countActivePlayers g"
  "countActivePlayers (g\<lparr>LastRaisePos := x\<rparr>) = countActivePlayers g"
  "countActivePlayers (g\<lparr>MinRaise := x\<rparr>) = countActivePlayers g"
  by (simp_all add: countActivePlayers_def)

lemma foldl_count_active:
  "foldl (\<lambda>cnt p. if IsActive p then cnt + 1 else cnt) a ps = a + int (length (filter IsActive ps))"
  by (induction ps arbitrary: a) simp_all

lemma countActivePlayers_filter:
  "countActivePlayers g = int (length (filter IsActive (Players g)))"
  by (simp add: countActivePlayers_def foldl_count_active)

lemma findNext_loop_result:
  "findNext_loop ps pos nextPos cnt = Inr r \<Longrightarrow>
   r = pos \<or> (in_range ps r \<and> IsActive (ps ! nat r))"
proof (induction ps pos nextPos cnt rule: findNext_loop.induct)
  case (1 ps pos nextPos cnt)
  show ?case
  proof (cases "cnt < go_len ps")
    case False
    with "1.prems" show ?thesis
      by (simp add: findNext_loop.simps [of ps pos nextPos cnt])
  next
    case True
    with "1.prems" obtain p where p: "go_index ps nextPos = Inr p"
      and rest: "(if IsActive p then Inr nextPos
          else bindR (go_mod (nextPos + 1) (go_len ps))
                 (\<lambda>n. findNext_loop ps pos n (cnt + 1))) = Inr r"
      by (auto simp: findNext_loop.simps [of ps pos nextPos cnt] bindR_eq_Inr_iff)
    show ?thesis
    proof (cases "IsActive p")
      case True
      with p rest show ?thesis by (auto simp: go_index_eq_Inr_iff)
    next
      case False
      with rest obtain n where "go_mod (nextPos + 1) (go_len ps) = Inr n"
        and "findNext_loop ps pos n (cnt + 1) = Inr r"
        by (auto simp: bindR_eq_Inr_iff)
      with True p False show ?thesis by (intro "1.IH")
    qed
  qed
qed

lemma findNextActivePosition_result:
  "findNextActivePosition g pos = Inr r \<Longrightarrow>
   r = pos \<or> (in_range (Players g) r \<and> IsActive (Players g ! nat r))"
  by (auto simp: findNextActivePosition_def bindR_eq_Inr_iff dest: findNext_loop_result)

lemma findNextActivePosition_in_range:
  "findNextActivePosition g pos = Inr r \<Longrightarrow> in_range (Players g) pos \<Longrightarrow>
   in_range (Players g) r"
  by (auto dest: findNextActivePosition_result)

lemma findNextActivePosition_returns:
  "in_range (Players g) pos \<Longrightarrow>
   findNextActivePosition g pos = Inr (next_active (Players g) pos)"
  by (rule findNextActivePosition_eq) (auto simp: in_range_def)

section \<open>Burning and dealing a community card\<close>

lemma burn_card_frame [simp]:
  "Players (burn_card g) = Players g"
  "CommunityCards (burn_card g) = CommunityCards g"
  "CurrentPhase (burn_card g) = CurrentPhase g"
  "Pot (burn_card g) = Pot g"
  "CurrentBet (burn_card g) = CurrentBet g"
  "SmallBlind (burn_card g) = SmallBlind g"
  "BigBlind (burn_card g) = BigBlind g"
  "DealerPos (burn_card g) = DealerPos g"
  "CurrentPos (burn_card g) = CurrentPos g"
  "LastRaisePos (burn_card g) = LastRaisePos g"
  "MinRaise (burn_card g) = MinRaise g"
  by (simp_all add: burn_card_def)

lemma Deck_burn_card [simp]: "Cards (Deck (burn_card g)) = tl (Cards (Deck g))"
  by (simp add: burn_card_def)

lemma deal_community_card_frame [simp]:
  "Players (deal_community_card g) = Players g"
  "CurrentPhase (deal_community_card g) = CurrentPhase g"
  "Pot (deal_community_card g) = Pot g"
  "CurrentBet (deal_community_card g) = CurrentBet g"
  "SmallBlind (deal_community_card g) = SmallBlind g"
  "BigBlind (deal_community_card g) = BigBlind g"
  "DealerPos (deal_community_card g) = DealerPos g"
  "CurrentPos (deal_community_card g) = CurrentPos g"
  "LastRaisePos (deal_community_card g) = LastRaisePos g"
  "MinRaise (deal_community_card g) = MinRaise g"
  by (simp_all add: deal_community_card_def split: prod.splits option.splits)

lemma Deck_deal_community_card [simp]:
  "Cards (Deck (deal_community_card g)) = tl (Cards (Deck g))"
  by (cases "Cards (Deck g)") (simp_all add: deal_community_card_def)

lemma CommunityCards_deal_community_card [simp]:
  "CommunityCards (deal_community_card g) = CommunityCards g @ take 1 (Cards (Deck g))"
  by (cases "Cards (Deck g)") (simp_all add: deal_community_card_def)

lemma findNextActivePosition_street [simp]:
  "findNextActivePosition (burn_card g) pos = findNextActivePosition g pos"
  "findNextActivePosition (deal_community_card g) pos = findNextActivePosition g pos"
  by (simp_all add: findNextActivePosition_def)

section \<open>Entering a street and advancing the phase\<close>

lemma enter_street_Inr_iff:
  "enter_street phase g = Inr g' \<longleftrightarrow>
   (\<exists>pos. findNextActivePosition g (DealerPos g) = Inr pos \<and>
      g' = g\<lparr>CurrentPhase := phase, CurrentBet := 0, LastRaisePos := - 1, CurrentPos := pos\<rparr>)"
  by (auto simp: enter_street_def Let_def bindR_eq_Inr_iff)

lemma enter_street_frame:
  assumes "enter_street phase g = Inr g'"
  shows "Players g' = Players g" and "Deck g' = Deck g"
    and "CommunityCards g' = CommunityCards g" and "Pot g' = Pot g"
    and "SmallBlind g' = SmallBlind g" and "BigBlind g' = BigBlind g"
    and "DealerPos g' = DealerPos g" and "MinRaise g' = MinRaise g"
    and "CurrentPhase g' = phase" and "CurrentBet g' = 0" and "LastRaisePos g' = - 1"
  using assms by (auto simp: enter_street_Inr_iff)

lemma enter_street_wf:
  "enter_street phase g = Inr g' \<Longrightarrow> wf_game g \<Longrightarrow> wf_game g'"
  by (auto simp: enter_street_Inr_iff wf_game_def dest: findNextActivePosition_in_range)

lemma enter_street_returns: "wf_game g \<Longrightarrow> returns (enter_street phase g)"
  by (simp add: enter_street_def Let_def wf_game_def findNextActivePosition_returns)

lemma wf_game_street [simp]:
  "wf_game (burn_card g) = wf_game g"
  "wf_game (deal_community_card g) = wf_game g"
  by (simp_all add: wf_game_def)

lemma advancePhase_cases:
  assumes "advancePhase g = Inr g'"
  shows "(CurrentPhase g = PreFlop \<and> enter_street Flop
            (deal_community_card (deal_community_card (deal_community_card (burn_card g)))) = Inr g') \<or>
         (CurrentPhase g = Flop \<and> enter_street Turn (deal_community_card (burn_card g)) = Inr g') \<or>
         (CurrentPhase g = Turn \<and> enter_street River (deal_community_card (burn_card g)) = Inr g') \<or>
         (CurrentPhase g = River \<and> g' = g\<lparr>CurrentPhase := Showdown\<rparr>) \<or>
         (CurrentPhase g = Showdown \<and> g' = g)"
  using assms by (cases "CurrentPhase g") (simp_all add: deal_defs)

lemma advancePhase_frame:
  assumes "advancePhase g = Inr g'"
  shows "Players g' = Players g" and "Pot g' = Pot g"
    and "SmallBlind g' = SmallBlind g" and "BigBlind g' = BigBlind g"
    and "DealerPos g' = DealerPos g" and "MinRaise g' = MinRaise g"
  using advancePhase_cases [OF assms] by (auto dest: enter_street_frame)

lemma advancePhase_new_street:
  assumes "advancePhase g = Inr g'" and "CurrentPhase g' \<noteq> CurrentPhase g"
    and "CurrentPhase g' \<noteq> Showdown"
  shows "CurrentBet g' = 0" and "LastRaisePos g' = - 1" and "Players g' = Players g"
  using advancePhase_cases [OF assms(1)] assms(2,3)
  by (auto dest: enter_street_frame(1,9,10,11))

lemma advancePhase_wf: "advancePhase g = Inr g' \<Longrightarrow> wf_game g \<Longrightarrow> wf_game g'"
  by (drule advancePhase_cases) (auto dest: enter_street_wf simp: wf_game_def)

lemma advancePhase_returns: "wf_game g \<Longrightarrow> returns (advancePhase g)"
  by (cases "CurrentPhase g") (simp_all add: deal_defs enter_street_returns)

section \<open>The switch of ProcessAction\<close>

definition same_seat :: "Player \<Rightarrow> Player \<Rightarrow> bool" where
  "same_seat p p' =
     (ID p' = ID p \<and> Name p' = Name p \<and> Position p' = Position p \<and> PCards p' = PCards p \<and>
      holdings p' = holdings p \<and> (0 \<le> Chips p \<longrightarrow> 0 \<le> Chips p'))"

lemma same_seat_refl [simp]: "same_seat p p"
  by (simp add: same_seat_def)

lemma same_seat_PlaceBet [simp]: "same_seat p (snd (PlaceBet amount p))"
  by (simp add: same_seat_def frame PlaceBet_Chips)

lemma same_seat_Player_Fold [simp]: "same_seat p (Player_Fold p)"
  by (simp add: same_seat_def Player_Fold_def holdings_def)

lemma set_current_frame [simp]:
  "Players (set_current g p) = go_update (Players g) (CurrentPos g) p"
  "Deck (set_current g p) = Deck g"
  "CommunityCards (set_current g p) = CommunityCards g"
  "CurrentPhase (set_current g p) = CurrentPhase g"
  "Pot (set_current g p) = Pot g"
  "CurrentBet (set_current g p) = CurrentBet g"
  "SmallBlind (set_current g p) = SmallBlind g"
  "BigBlind (set_current g p) = BigBlind g"
  "DealerPos (set_current g p) = DealerPos g"
  "CurrentPos (set_current g p) = CurrentPos g"
  "LastRaisePos (set_current g p) = LastRaisePos g"
  "MinRaise (set_current g p) = MinRaise g"
  by (simp_all add: set_current_def)

lemma action_switch_frame:
  assumes "action_switch a amount g player = Some g1"
  shows "Deck g1 = Deck g" and "CommunityCards g1 = CommunityCards g"
    and "CurrentPhase g1 = CurrentPhase g" and "SmallBlind g1 = SmallBlind g"
    and "BigBlind g1 = BigBlind g" and "DealerPos g1 = DealerPos g"
    and "CurrentPos g1 = CurrentPos g" and "length (Players g1) = length (Players g)"
    and "LastRaisePos g1 = LastRaisePos g \<or> LastRaisePos g1 = CurrentPos g"
  using assms by (cases a; auto simp: Let_def split: if_splits)+

lemma action_switch_Players:
  assumes sw: "action_switch a amount g player = Some g1"
    and idx: "go_index (Players g) (CurrentPos g) = Inr player"
  shows "\<exists>p. same_seat player p \<and> Players g1 = go_update (Players g) (CurrentPos g) p \<and>
           Pot g1 - PBet p = Pot g - PBet player"
proof -
  from idx have same: "go_update (Players g) (CurrentPos g) player = Players g"
    by (auto simp: go_index_eq_Inr_iff)
  show ?thesis
  proof (cases a)
    case Fold
    with sw show ?thesis
      by (intro exI [of _ "Player_Fold player"]) auto
  next
    case Check
    with sw same show ?thesis
      by (intro exI [of _ player]) (auto split: if_splits)
  next
    case Call
    with sw show ?thesis
      by (intro exI [of _ "snd (PlaceBet (CurrentBet g - PBet player) player)"])
         (auto simp: Let_def PlaceBet_PBet split: if_splits)
  next
    case Bet
    with sw show ?thesis
      by (intro exI [of _ "snd (PlaceBet amount player)"])
         (auto simp: Let_def PlaceBet_PBet split: if_splits)
  next
    case Raise
    with sw show ?thesis
      by (intro exI [of _ "snd (PlaceBet (CurrentBet g - PBet player + amount) player)"])
         (auto simp: Let_def PlaceBet_PBet split: if_splits)
  next
    case AllIn
    with sw show ?thesis
      by (intro exI [of _ "snd (PlaceBet (Chips player) player)"])
         (auto simp: Let_def PlaceBet_PBet split: if_splits)
  qed
qed

lemma action_switch_wf:
  "action_switch a amount g player = Some g1 \<Longrightarrow> wf_game g \<Longrightarrow> wf_game g1"
  by (frule action_switch_frame(8), frule action_switch_frame(9))
     (auto simp: wf_game_def in_range_def go_len_def dest: action_switch_frame(6,7))

section \<open>Moving to the next seat, and the whole action\<close>

lemma next_seat_Inr_iff:
  "next_seat g = Inr (ok, g') \<longleftrightarrow>
   ok \<and> (\<exists>pos. findNextActivePosition g (CurrentPos g) = Inr pos \<and>
     (if pos = LastRaisePos g \<or> countActivePlayers g \<le> 1
      then advancePhase (g\<lparr>CurrentPos := pos\<rparr>) = Inr g'
      else g' = g\<lparr>CurrentPos := pos\<rparr>))"
  by (auto simp: next_seat_def Let_def bindR_eq_Inr_iff)

lemma next_seat_frame:
  assumes "next_seat g = Inr (ok, g')"
  shows "Players g' = Players g" and "Pot g' = Pot g"
    and "SmallBlind g' = SmallBlind g" and "BigBlind g' = BigBlind g"
    and "DealerPos g' = DealerPos g" and "MinRaise g' = MinRaise g" and "ok"
  using assms
  by (auto simp: next_seat_Inr_iff split: if_splits dest: advancePhase_frame)

lemma wf_game_CurrentPos:
  "wf_game g \<Longrightarrow> in_range (Players g) pos \<Longrightarrow> wf_game (g\<lparr>CurrentPos := pos\<rparr>)"
  by (simp add: wf_game_def)

lemma next_seat_wf: "next_seat g = Inr (ok, g') \<Longrightarrow> wf_game g \<Longrightarrow> wf_game g'"
proof -
  assume ns: "next_seat g = Inr (ok, g')" and wf: "wf_game g"
  from ns obtain pos where pos: "findNextActivePosition g (CurrentPos g) = Inr pos"
    and g': "if pos = LastRaisePos g \<or> countActivePlayers g \<le> 1
       then advancePhase (g\<lparr>CurrentPos := pos\<rparr>) = Inr g' else g' = g\<lparr>CurrentPos := pos\<rparr>"
    by (auto simp: next_seat_Inr_iff)
  from pos wf have "in_range (Players g) pos"
    by (auto simp: wf_game_def dest: findNextActivePosition_in_range)
  with wf have "wf_game (g\<lparr>CurrentPos := pos\<rparr>)" by (rule wf_game_CurrentPos)
  with g' show ?thesis by (auto split: if_splits dest: advancePhase_wf)
qed

lemma next_seat_returns: "wf_game g \<Longrightarrow> returns (next_seat g)"
proof -
  assume wf: "wf_game g"
  let ?pos = "next_active (Players g) (CurrentPos g)"
  from wf have pos: "findNextActivePosition g (CurrentPos g) = Inr ?pos"
    by (simp add: wf_game_def findNextActivePosition_returns)
  from wf have "wf_game (g\<lparr>CurrentPos := ?pos\<rparr>)"
    by (intro wf_game_CurrentPos) (auto simp: wf_game_def next_active_in_range)
  then have "returns (advancePhase (g\<lparr>CurrentPos := ?pos\<rparr>))"
    by (rule advancePhase_returns)
  with pos show ?thesis
    by (auto simp: next_seat_def Let_def returns_iff)
qed

lemma ProcessAction_Inr_iff:
  "ProcessAction a amount g = Inr (ok, g') \<longleftrightarrow>
   in_range (Players g) (CurrentPos g) \<and>
   (case action_switch a amount g (Players g ! nat (CurrentPos g)) of
      None \<Rightarrow> \<not> ok \<and> g' = g
    | Some g1 \<Rightarrow> next_seat g1 = Inr (ok, g'))"
  by (auto simp: ProcessAction_def bindR_eq_Inr_iff go_index_eq_Inr_iff split: option.splits)

lemma ProcessAction_rejected: "ProcessAction a amount g = Inr (False, g') \<Longrightarrow> g' = g"
  by (auto simp: ProcessAction_Inr_iff split: option.splits dest: next_seat_frame(7))

lemma ProcessAction_accepted:
  assumes "ProcessAction a amount g = Inr (True, g')"
  obtains g1 where "action_switch a amount g (Players g ! nat (CurrentPos g)) = Some g1"
    and "next_seat g1 = Inr (True, g')" and "in_range (Players g) (CurrentPos g)"
  using assms by (auto simp: ProcessAction_Inr_iff split: option.splits)

lemma ProcessAction_wf_aux:
  "ProcessAction a amount g = Inr (ok, g') \<Longrightarrow> wf_game g \<Longrightarrow> wf_game g'"
  by (auto simp: ProcessAction_Inr_iff split: option.splits
      dest: action_switch_wf next_seat_wf)

lemma ProcessAction_returns_aux: "wf_game g \<Longrightarrow> returns (ProcessAction a amount g)"
proof -
  assume wf: "wf_game g"
  then have idx: "go_index (Players g) (CurrentPos g) = Inr (Players g ! nat (CurrentPos g))"
    by (simp add: wf_game_def)
  show ?thesis
  proof (cases "action_switch a amount g (Players g ! nat (CurrentPos g))")
    case None
    with idx show ?thesis by (simp add: ProcessAction_def)
  next
    case (Some g1)
    with wf have "wf_game g1" by (auto dest: action_switch_wf)
    then have "returns (next_seat g1)" by (rule next_seat_returns)
    with idx Some show ?thesis by (simp add: ProcessAction_def)
  qed
qed

lemma ProcessAction_frame:
  assumes "ProcessAction a amount g = Inr (ok, g')"
  shows "length (Players g') = length (Players g)"
    and "SmallBlind g' = SmallBlind g" and "BigBlind g' = BigBlind g"
    and "DealerPos g' = DealerPos g"
proof -
  have "length (Players g') = length (Players g) \<and> SmallBlind g' = SmallBlind g \<and>
        BigBlind g' = BigBlind g \<and> DealerPos g' = DealerPos g"
  proof (cases "action_switch a amount g (Players g ! nat (CurrentPos g))")
    case None
    with assms show ?thesis by (simp add: ProcessAction_Inr_iff)
  next
    case (Some g1)
    with assms have ns: "next_seat g1 = Inr (ok, g')"
      by (simp add: ProcessAction_Inr_iff)
    from action_switch_frame [OF Some] next_seat_frame [OF ns] show ?thesis by simp
  qed
  then show "length (Players g') = length (Players g)" and "SmallBlind g' = SmallBlind g"
    and "BigBlind g' = BigBlind g" and "DealerPos g' = DealerPos g"
    by simp_all
qed

text \<open>
  C12 (type). On a well-formed table \<open>ProcessAction\<close> does not panic, whatever the
  action and the amount, and the table it leaves is well formed and has the same seats,
  blinds and dealer.
\<close>

theorem ProcessAction_safe:
  assumes "wf_game g"
  shows "\<exists>ok g'. ProcessAction a amount g = Inr (ok, g') \<and> wf_game g' \<and>
           length (Players g') = length (Players g) \<and> DealerPos g' = DealerPos g \<and>
           SmallBlind g' = SmallBlind g \<and> BigBlind g' = BigBlind g"
proof -
  from assms have "returns (ProcessAction a amount g)"
    by (rule ProcessAction_returns_aux)
  then obtain ok g' where r: "ProcessAction a amount g = Inr (ok, g')"
    by (auto simp: returns_iff)
  with assms have "wf_game g'" by (auto dest: ProcessAction_wf_aux)
  with r show ?thesis by (auto dest: ProcessAction_frame)
qed

lemma wf_sample_table [simp]: "wf_game sample_table"
  by (simp add: wf_game_def sample_defs in_range_def go_len_def)

theorem ProcessAction_safe_witness:
  "wf_game sample_table \<and>
   (\<exists>ok g'. ProcessAction Raise 20 sample_table = Inr (ok, g') \<and> wf_game g' \<and>
      length (Players g') = length (Players sample_table) \<and>
      DealerPos g' = DealerPos sample_table \<and>
      SmallBlind g' = SmallBlind sample_table \<and> BigBlind g' = BigBlind sample_table)"
  using ProcessAction_safe [of sample_table Raise 20] by simp

section \<open>Starting a hand\<close>

lemma reset_table_frame [simp]:
  "Players (reset_table rnd g) = map ResetForNewHand (Players g)"
  "Deck (reset_table rnd g) = Shuffle rnd NewDeck"
  "CommunityCards (reset_table rnd g) = []"
  "CurrentPhase (reset_table rnd g) = PreFlop"
  "Pot (reset_table rnd g) = 0"
  "CurrentBet (reset_table rnd g) = 0"
  "SmallBlind (reset_table rnd g) = SmallBlind g"
  "BigBlind (reset_table rnd g) = BigBlind g"
  "DealerPos (reset_table rnd g) = DealerPos g"
  "CurrentPos (reset_table rnd g) = CurrentPos g"
  "LastRaisePos (reset_table rnd g) = - 1"
  "MinRaise (reset_table rnd g) = BigBlind g"
  by (simp_all add: reset_table_def Let_def)

lemma post_blind_Inr_iff:
  "post_blind pos amount g = Inr g' \<longleftrightarrow>
   in_range (Players g) pos \<and>
   g' = g\<lparr>Players := go_update (Players g) pos (snd (PlaceBet amount (Players g ! nat pos)))\<rparr>"
  by (auto simp: post_blind_def bindR_eq_Inr_iff go_index_eq_Inr_iff)

lemma post_blind_in_range:
  "in_range (Players g) pos \<Longrightarrow>
   post_blind pos amount g =
     Inr (g\<lparr>Players := go_update (Players g) pos (snd (PlaceBet amount (Players g ! nat pos)))\<rparr>)"
  by (simp add: post_blind_def)

lemma deal_to_fields [simp]:
  "ID (fst (deal_to p d)) = ID p"
  "Name (fst (deal_to p d)) = Name p"
  "Chips (fst (deal_to p d)) = Chips p"
  "PBet (fst (deal_to p d)) = PBet p"
  "Status (fst (deal_to p d)) = Status p"
  "Position (fst (deal_to p d)) = Position p"
  by (simp_all add: deal_to_def split: prod.splits option.splits)

lemma deal_to_cards:
  "PCards (fst (deal_to p d)) = PCards p @ take 1 (Cards d)"
  "Cards (snd (deal_to p d)) = tl (Cards d)"
  by (cases "Cards d"; simp add: deal_to_def)+

lemma IsActive_deal_to [simp]: "IsActive (fst (deal_to p d)) = IsActive p"
  by (simp add: IsActive_def)

lemma holdings_deal_to [simp]: "holdings (fst (deal_to p d)) = holdings p"
  by (simp add: holdings_def)

lemma length_deal_round [simp]: "length (fst (deal_round ps d)) = length ps"
  by (induction ps arbitrary: d) (simp_all add: Let_def)

lemma deal_round_map:
  assumes "\<And>p d. f (fst (deal_to p d)) = f p"
  shows "map f (fst (deal_round ps d)) = map f ps"
  by (induction ps arbitrary: d) (simp_all add: Let_def assms)

lemma deal_round_fields [simp]:
  "map Chips (fst (deal_round ps d)) = map Chips ps"
  "map PBet (fst (deal_round ps d)) = map PBet ps"
  "map Status (fst (deal_round ps d)) = map Status ps"
  "map IsActive (fst (deal_round ps d)) = map IsActive ps"
  "map holdings (fst (deal_round ps d)) = map holdings ps"
  by (rule deal_round_map, simp)+

lemma deal_hole_cards_frame [simp]:
  "CommunityCards (deal_hole_cards g) = CommunityCards g"
  "CurrentPhase (deal_hole_cards g) = CurrentPhase g"
  "Pot (deal_hole_cards g) = Pot g"
  "CurrentBet (deal_hole_cards g) = CurrentBet g"
  "SmallBlind (deal_hole_cards g) = SmallBlind g"
  "BigBlind (deal_hole_cards g) = BigBlind g"
  "DealerPos (deal_hole_cards g) = DealerPos g"
  "CurrentPos (deal_hole_cards g) = CurrentPos g"
  "LastRaisePos (deal_hole_cards g) = LastRaisePos g"
  "MinRaise (deal_hole_cards g) = MinRaise g"
  "length (Players (deal_hole_cards g)) = length (Players g)"
  by (simp_all add: deal_hole_cards_def Let_def)

lemma deal_hole_cards_fields [simp]:
  "map Chips (Players (deal_hole_cards g)) = map Chips (Players g)"
  "map PBet (Players (deal_hole_cards g)) = map PBet (Players g)"
  "map Status (Players (deal_hole_cards g)) = map Status (Players g)"
  "map IsActive (Players (deal_hole_cards g)) = map IsActive (Players g)"
  "map holdings (Players (deal_hole_cards g)) = map holdings (Players g)"
  by (simp_all add: deal_hole_cards_def Let_def)

lemma next_active_cong:
  assumes "map IsActive ps = map IsActive ps'"
  shows "next_active ps pos = next_active ps' pos"
proof -
  from assms have len: "length ps = length ps'"
    by (rule map_eq_imp_length_eq)
  have "IsActive (ps ! nat i) = IsActive (ps' ! nat i)"
    if "i \<in> set (seats_from (length ps) (pos + 1) (length ps))" for i
  proof (cases "ps = []")
    case True
    with that show ?thesis by simp
  next
    case False
    with that have "nat i < length ps"
      by (auto dest: seats_from_in_range in_range_nat)
    with assms len show ?thesis
      by (metis nth_map)
  qed
  then have "List.find (\<lambda>i. IsActive (ps ! nat i)) (seats_from (length ps) (pos + 1) (length ps)) =
    List.find (\<lambda>i. IsActive (ps' ! nat i)) (seats_from (length ps) (pos + 1) (length ps))"
    by (intro find_cong) auto
  with len show ?thesis by (simp add: next_active_def)
qed

end
