(* ===== verification/Game_Start.thy ===== *)
theory Game_Start
  imports Game_Frame
begin

text \<open>
  Starting a hand: \<open>StartNewHand\<close> written out.

  \<^item> \<open>new_dealer\<close>, \<open>sb_seat\<close> and \<open>bb_seat\<close> are the seats the method computes for the
    button and the two blinds; \<open>fresh_players\<close>, \<open>after_sb\<close> and \<open>after_bb\<close> are the players
    after the reset and after each blind; \<open>started\<close> is the state the method leaves.
  \<^item> The lemmas show that on a table with at least one seat and a dealer position of at
    least -1 the method returns \<open>started\<close>, which is well formed, and that on a table
    with no seat it panics with a division by zero.
\<close>

section \<open>The state a new hand starts in\<close>

definition new_dealer :: "GameState \<Rightarrow> int" where
  "new_dealer g = (DealerPos g + 1) mod go_len (Players g)"

definition fresh_players :: "GameState \<Rightarrow> Player list" where
  "fresh_players g = map ResetForNewHand (Players g)"

definition sb_seat :: "GameState \<Rightarrow> int" where
  "sb_seat g = next_active (fresh_players g) (new_dealer g)"

definition after_sb :: "GameState \<Rightarrow> Player list" where
  "after_sb g = go_update (fresh_players g) (sb_seat g)
     (snd (PlaceBet (SmallBlind g) (fresh_players g ! nat (sb_seat g))))"

definition bb_seat :: "GameState \<Rightarrow> int" where
  "bb_seat g = next_active (after_sb g) (sb_seat g)"

definition after_bb :: "GameState \<Rightarrow> Player list" where
  "after_bb g = go_update (after_sb g) (bb_seat g)
     (snd (PlaceBet (BigBlind g) (after_sb g ! nat (bb_seat g))))"

definition started :: "(nat \<Rightarrow> nat) \<Rightarrow> GameState \<Rightarrow> GameState" where
  "started rnd g =
     (deal_hole_cards ((reset_table rnd g)
        \<lparr>DealerPos := new_dealer g, Players := after_bb g, CurrentBet := BigBlind g\<rparr>))
     \<lparr>CurrentPos := next_active (after_bb g) (bb_seat g)\<rparr>"

section \<open>The seats are seats of the table\<close>

lemma start_lengths [simp]:
  "length (fresh_players g) = length (Players g)"
  "length (after_sb g) = length (Players g)"
  "length (after_bb g) = length (Players g)"
  by (simp_all add: fresh_players_def after_sb_def after_bb_def)

lemma start_in_range_eq [simp]:
  "in_range (fresh_players g) i = in_range (Players g) i"
  "in_range (after_sb g) i = in_range (Players g) i"
  "in_range (after_bb g) i = in_range (Players g) i"
  "in_range (Players (deal_hole_cards g)) i = in_range (Players g) i"
  by (rule in_range_same_length, simp)+

lemma start_in_range:
  assumes "Players g \<noteq> []"
  shows "in_range (Players g) (new_dealer g)" "in_range (Players g) (sb_seat g)"
    "in_range (Players g) (bb_seat g)" "in_range (Players g) (next_active (after_bb g) (bb_seat g))"
proof -
  show d: "in_range (Players g) (new_dealer g)"
    using assms by (simp add: new_dealer_def mod_len_in_range)
  then have "in_range (fresh_players g) (new_dealer g)" by simp
  then have "in_range (fresh_players g) (sb_seat g)"
    unfolding sb_seat_def by (rule next_active_in_range)
  then show s: "in_range (Players g) (sb_seat g)" by simp
  then have "in_range (after_sb g) (sb_seat g)" by simp
  then have "in_range (after_sb g) (bb_seat g)"
    unfolding bb_seat_def by (rule next_active_in_range)
  then show b: "in_range (Players g) (bb_seat g)" by simp
  then have "in_range (after_bb g) (bb_seat g)" by simp
  then have "in_range (after_bb g) (next_active (after_bb g) (bb_seat g))"
    by (rule next_active_in_range)
  then show "in_range (Players g) (next_active (after_bb g) (bb_seat g))" by simp
qed

section \<open>StartNewHand returns the state written out\<close>

lemma StartNewHand_eq:
  assumes ne: "Players g \<noteq> []" and d: "- 1 \<le> DealerPos g"
  shows "StartNewHand rnd g = Inr (started rnd g)"
proof -
  note r = start_in_range [OF ne]
  let ?g2 = "reset_table rnd g"
  have m: "go_mod (DealerPos g + 1) (go_len (Players g)) = Inr (new_dealer g)"
    using ne d by (simp add: go_mod_len new_dealer_def)
  let ?g3 = "?g2\<lparr>DealerPos := new_dealer g\<rparr>"
  have sb: "findNextActivePosition ?g2 (new_dealer g) = Inr (sb_seat g)"
    using r(1) by (simp add: findNextActivePosition_returns sb_seat_def fresh_players_def)
  let ?g4 = "?g3\<lparr>Players := after_sb g\<rparr>"
  have p1: "post_blind (sb_seat g) (SmallBlind g) ?g3 = Inr ?g4"
    using r(2) by (simp add: post_blind_in_range after_sb_def fresh_players_def)
  have bb: "findNextActivePosition ?g4 (sb_seat g) = Inr (bb_seat g)"
    using r(2) by (simp add: findNextActivePosition_returns bb_seat_def)
  let ?g5 = "?g4\<lparr>Players := after_bb g\<rparr>"
  have p2: "post_blind (bb_seat g) (BigBlind g) ?g4 = Inr ?g5"
    using r(3) by (simp add: post_blind_in_range after_bb_def)
  let ?g6 = "deal_hole_cards (?g5\<lparr>CurrentBet := BigBlind g\<rparr>)"
  have "in_range (Players ?g6) (bb_seat g)"
    using r(3) by simp
  then have "findNextActivePosition ?g6 (bb_seat g) = Inr (next_active (Players ?g6) (bb_seat g))"
    by (rule findNextActivePosition_returns)
  also have "next_active (Players ?g6) (bb_seat g) = next_active (after_bb g) (bb_seat g)"
    by (rule next_active_cong) simp
  finally have cur:
    "findNextActivePosition ?g6 (bb_seat g) = Inr (next_active (after_bb g) (bb_seat g))" .
  show ?thesis
    using cur by (simp add: StartNewHand_def Let_def m sb p1 bb p2 started_def)
qed

lemma StartNewHand_empty: "Players g = [] \<Longrightarrow> StartNewHand rnd g = Inl DivideByZero"
  by (simp add: StartNewHand_def Let_def)

section \<open>The fields of the started state\<close>

lemma started_frame [simp]:
  "CommunityCards (started rnd g) = []"
  "CurrentPhase (started rnd g) = PreFlop"
  "Pot (started rnd g) = 0"
  "CurrentBet (started rnd g) = BigBlind g"
  "SmallBlind (started rnd g) = SmallBlind g"
  "BigBlind (started rnd g) = BigBlind g"
  "DealerPos (started rnd g) = new_dealer g"
  "CurrentPos (started rnd g) = next_active (after_bb g) (bb_seat g)"
  "LastRaisePos (started rnd g) = - 1"
  "MinRaise (started rnd g) = BigBlind g"
  "length (Players (started rnd g)) = length (Players g)"
  by (simp_all add: started_def)

lemma started_fields [simp]:
  "map Chips (Players (started rnd g)) = map Chips (after_bb g)"
  "map PBet (Players (started rnd g)) = map PBet (after_bb g)"
  "map Status (Players (started rnd g)) = map Status (after_bb g)"
  "map IsActive (Players (started rnd g)) = map IsActive (after_bb g)"
  "map holdings (Players (started rnd g)) = map holdings (after_bb g)"
  by (simp_all add: started_def)

lemma in_range_started [simp]:
  "in_range (Players (started rnd g)) i = in_range (Players g) i"
  by (rule in_range_same_length) simp

lemma wf_started:
  assumes "Players g \<noteq> []"
  shows "wf_game (started rnd g)"
proof -
  from assms have "Players (started rnd g) \<noteq> []"
    using length_0_conv [of "Players (started rnd g)"] by simp
  with start_in_range(1,4) [OF assms] show ?thesis
    by (simp add: wf_game_def)
qed

text \<open>
  C13 (type). On a table with at least one seat whose dealer position is at least -1,
  \<open>StartNewHand\<close> does not panic; the hand starts before the flop with an empty board
  and an empty pot, the current bet is the big blind, nobody is recorded as the last
  aggressor, and the table is well formed. This is a statement of safety and of the
  fields of the table only: it does not say what the two blind seats post, which
  \<open>started\<close> gives in general and \<open>first_hand_scenario\<close> for the first hand of the program.
\<close>

theorem StartNewHand_safe:
  assumes "Players g \<noteq> []" and "- 1 \<le> DealerPos g"
  shows "\<exists>g'. StartNewHand rnd g = Inr g' \<and> wf_game g' \<and> CurrentPhase g' = PreFlop \<and>
           CommunityCards g' = [] \<and> Pot g' = 0 \<and> CurrentBet g' = BigBlind g \<and>
           LastRaisePos g' = - 1 \<and> length (Players g') = length (Players g)"
  using assms by (simp add: StartNewHand_eq wf_started)

theorem StartNewHand_safe_witness:
  "Players sample_table \<noteq> [] \<and> - 1 \<le> DealerPos sample_table \<and>
   (\<exists>g'. StartNewHand (\<lambda>i. i) sample_table = Inr g' \<and> wf_game g' \<and>
      CurrentPhase g' = PreFlop \<and> CommunityCards g' = [] \<and> Pot g' = 0 \<and>
      CurrentBet g' = BigBlind sample_table \<and> LastRaisePos g' = - 1 \<and>
      length (Players g') = length (Players sample_table))"
  using StartNewHand_safe [of sample_table "\<lambda>i. i"] by (simp add: sample_defs)

text \<open>
  On a table without seats \<open>StartNewHand\<close> panics with an integer division
  by zero, and so does the search for the next active seat.
\<close>

theorem empty_table_panics:
  "StartNewHand rnd (NewGameState [] sb bb) = Inl DivideByZero \<and>
   findNextActivePosition (NewGameState [] sb bb) pos = Inl DivideByZero"
  by (simp add: StartNewHand_empty findNextActivePosition_empty NewGameState_def)

end
