(* ===== verification/Game_Chips.thy ===== *)
theory Game_Chips
  imports Game_Start
begin

text \<open>
  Chip accounting.

  \<^item> \<open>total_chips\<close> and \<open>total_bets\<close> are the sums of the stacks and of the bets of all
    seats, \<open>in_play\<close> the sum of both: every chip a seat owns.
  \<^item> \<open>money_ok\<close> says that no stack, bet, current bet, minimum raise or big blind is
    negative.
  \<^item> The lemmas show that an action moves chips between a stack and a bet and never
    creates or destroys any, that the pot changes by exactly what the bets change by,
    that \<open>money_ok\<close> is kept, and what \<open>StartNewHand\<close> does to the chips that were bet in
    the hand before.
\<close>

section \<open>Totals\<close>

definition total_chips :: "GameState \<Rightarrow> int" where
  "total_chips g = sum_list (map Chips (Players g))"

definition total_bets :: "GameState \<Rightarrow> int" where
  "total_bets g = sum_list (map PBet (Players g))"

definition in_play :: "GameState \<Rightarrow> int" where
  "in_play g = sum_list (map holdings (Players g))"

definition money_ok :: "GameState \<Rightarrow> bool" where
  "money_ok g =
     ((\<forall>p \<in> set (Players g). 0 \<le> Chips p \<and> 0 \<le> PBet p) \<and>
      0 \<le> CurrentBet g \<and> 0 \<le> MinRaise g \<and> 0 \<le> BigBlind g)"

lemma sum_list_holdings:
  "sum_list (map holdings ps) = sum_list (map Chips ps) + sum_list (map PBet ps)"
  by (induction ps) (simp_all add: holdings_def)

lemma in_play_eq: "in_play g = total_chips g + total_bets g"
  by (simp add: in_play_def total_chips_def total_bets_def sum_list_holdings)

lemma totals_cong:
  "Players g' = Players g \<Longrightarrow> total_chips g' = total_chips g"
  "Players g' = Players g \<Longrightarrow> total_bets g' = total_bets g"
  "Players g' = Players g \<Longrightarrow> in_play g' = in_play g"
  by (simp_all add: total_chips_def total_bets_def in_play_def)

lemma sum_list_nonneg_le:
  fixes f :: "'a \<Rightarrow> int"
  assumes "\<forall>x \<in> set xs. 0 \<le> f x" and "x \<in> set xs"
  shows "f x \<le> sum_list (map f xs)"
  using assms
proof (induction xs)
  case Nil
  then show ?case by simp
next
  case (Cons y ys)
  have "0 \<le> sum_list (map f ys)"
    using Cons.prems(1) by (intro sum_list_nonneg) auto
  with Cons show ?case by auto
qed

section \<open>One action\<close>

lemma action_switch_accounts:
  assumes sw: "action_switch a amount g player = Some g1"
    and idx: "go_index (Players g) (CurrentPos g) = Inr player"
  shows "in_play g1 = in_play g" and "Pot g1 - total_bets g1 = Pot g - total_bets g"
proof -
  from idx have r: "in_range (Players g) (CurrentPos g)"
    and pl: "Players g ! nat (CurrentPos g) = player"
    by (auto simp: go_index_eq_Inr_iff)
  from action_switch_Players [OF sw idx] obtain p where p: "same_seat player p"
    "Players g1 = go_update (Players g) (CurrentPos g) p"
    "Pot g1 - PBet p = Pot g - PBet player"
    by blast
  from p(1) have h: "holdings p = holdings player"
    by (simp add: same_seat_def)
  have "in_play g1 = in_play g - holdings player + holdings p"
    unfolding in_play_def p(2) using r by (simp add: sum_list_map_go_update pl)
  with h show "in_play g1 = in_play g" by simp
  have "total_bets g1 = total_bets g - PBet player + PBet p"
    unfolding total_bets_def p(2) using r by (simp add: sum_list_map_go_update pl)
  with p(3) show "Pot g1 - total_bets g1 = Pot g - total_bets g" by simp
qed

lemma ProcessAction_accounts_aux:
  assumes "ProcessAction a amount g = Inr (ok, g')"
  shows "in_play g' = in_play g" and "Pot g' - total_bets g' = Pot g - total_bets g"
proof -
  let ?p = "Players g ! nat (CurrentPos g)"
  have "in_play g' = in_play g \<and> Pot g' - total_bets g' = Pot g - total_bets g"
  proof (cases "action_switch a amount g ?p")
    case None
    with assms show ?thesis by (simp add: ProcessAction_Inr_iff)
  next
    case (Some g1)
    with assms have ns: "next_seat g1 = Inr (ok, g')"
      and idx: "go_index (Players g) (CurrentPos g) = Inr ?p"
      by (simp_all add: ProcessAction_Inr_iff)
    from next_seat_frame(1,2) [OF ns] action_switch_accounts [OF Some idx]
    show ?thesis by (simp add: in_play_def total_bets_def)
  qed
  then show "in_play g' = in_play g" and "Pot g' - total_bets g' = Pot g - total_bets g"
    by simp_all
qed

text \<open>
  C4 (invariant). An action neither creates nor destroys chips: the stacks and bets of
  all seats together are what they were, and the pot has changed by exactly what the
  bets of the seats have changed by.
\<close>

theorem ProcessAction_conserves_chips:
  assumes "ProcessAction a amount g = Inr (ok, g')"
  shows "in_play g' = in_play g \<and> Pot g' - Pot g = total_bets g' - total_bets g"
  using ProcessAction_accounts_aux [OF assms] by simp

theorem ProcessAction_conserves_chips_witness:
  "\<exists>ok g'. ProcessAction Raise 20 sample_table = Inr (ok, g') \<and>
     in_play g' = in_play sample_table \<and>
     Pot g' - Pot sample_table = total_bets g' - total_bets sample_table"
proof -
  from ProcessAction_returns_aux [OF wf_sample_table, of Raise 20]
  obtain ok g' where r: "ProcessAction Raise 20 sample_table = Inr (ok, g')"
    by (auto simp: returns_iff)
  from r ProcessAction_conserves_chips [OF r] show ?thesis by blast
qed

section \<open>No debts\<close>

lemma money_okI:
  assumes "\<And>p. p \<in> set (Players g) \<Longrightarrow> 0 \<le> Chips p \<and> 0 \<le> PBet p"
    and "0 \<le> CurrentBet g" and "0 \<le> MinRaise g" and "0 \<le> BigBlind g"
  shows "money_ok g"
  using assms by (simp add: money_ok_def)

lemma money_okD:
  assumes "money_ok g"
  shows "p \<in> set (Players g) \<Longrightarrow> 0 \<le> Chips p" "p \<in> set (Players g) \<Longrightarrow> 0 \<le> PBet p"
    "0 \<le> CurrentBet g" "0 \<le> MinRaise g" "0 \<le> BigBlind g"
  using assms by (simp_all add: money_ok_def)

lemma money_ok_same:
  assumes "money_ok g" and "Players g' = Players g" and "0 \<le> CurrentBet g'"
    and "MinRaise g' = MinRaise g" and "BigBlind g' = BigBlind g"
  shows "money_ok g'"
  using assms by (simp add: money_ok_def)

lemma money_ok_seat:
  assumes ok: "money_ok g" and p: "0 \<le> Chips p" "0 \<le> PBet p"
    and pl: "Players g' = go_update (Players g) i p"
    and rest: "0 \<le> CurrentBet g'" "0 \<le> MinRaise g'" "BigBlind g' = BigBlind g"
  shows "money_ok g'"
proof (rule money_okI)
  fix q assume "q \<in> set (Players g')"
  with pl set_go_update_subset [of "Players g" i p] have "q = p \<or> q \<in> set (Players g)"
    by auto
  with p money_okD(1,2) [OF ok] show "0 \<le> Chips q \<and> 0 \<le> PBet q" by auto
qed (use rest money_okD(5) [OF ok] in simp_all)

lemma PlaceBet_nonneg:
  assumes "0 \<le> Chips p" and "0 \<le> PBet p" and "0 \<le> PBet p + amount"
  shows "0 \<le> Chips (snd (PlaceBet amount p))" "0 \<le> PBet (snd (PlaceBet amount p))"
  using assms by (simp_all add: PlaceBet_Chips PlaceBet_PBet)

lemma action_switch_money_ok:
  assumes sw: "action_switch a amount g player = Some g1"
    and mem: "player \<in> set (Players g)" and ok: "money_ok g"
  shows "money_ok g1"
proof -
  note pl = money_okD(1,2) [OF ok mem] and st = money_okD(3,4,5) [OF ok]
  have bet: "money_ok g'"
    if "0 \<le> PBet player + x" "Players g' = go_update (Players g) (CurrentPos g) (snd (PlaceBet x player))"
      "0 \<le> CurrentBet g'" "0 \<le> MinRaise g'" "BigBlind g' = BigBlind g" for x g'
    using ok PlaceBet_nonneg [OF pl that(1)] that(2-) by (rule money_ok_seat)
  show ?thesis
  proof (cases a)
    case Fold
    with sw have "g1 = set_current g (Player_Fold player)" by simp
    with pl st show ?thesis
      by (intro money_ok_seat [OF ok, of "Player_Fold player" _ "CurrentPos g"])
         (simp_all add: Player_Fold_def)
  next
    case Check
    with sw ok show ?thesis by (auto split: if_splits)
  next
    case Call
    with sw st show ?thesis
      by (intro bet [of "CurrentBet g - PBet player"]) (auto simp: Let_def split: if_splits)
  next
    case Bet
    with sw pl st show ?thesis
      by (intro bet [of amount]) (auto simp: Let_def split: if_splits)
  next
    case Raise
    with sw pl st show ?thesis
      by (intro bet [of "CurrentBet g - PBet player + amount"])
         (auto simp: Let_def PlaceBet_PBet split: if_splits)
  next
    case AllIn
    with sw pl st show ?thesis
      by (intro bet [of "Chips player"]) (auto simp: Let_def PlaceBet_PBet split: if_splits)
  qed
qed

lemma enter_street_money_ok: "enter_street phase g = Inr g' \<Longrightarrow> money_ok g \<Longrightarrow> money_ok g'"
  by (auto simp: enter_street_Inr_iff money_ok_def)

lemma money_ok_street [simp]:
  "money_ok (burn_card g) = money_ok g"
  "money_ok (deal_community_card g) = money_ok g"
  by (simp_all add: money_ok_def)

lemma advancePhase_money_ok: "advancePhase g = Inr g' \<Longrightarrow> money_ok g \<Longrightarrow> money_ok g'"
  by (drule advancePhase_cases) (auto dest: enter_street_money_ok simp: money_ok_def)

lemma next_seat_money_ok:
  assumes "next_seat g = Inr (ok, g')" and "money_ok g"
  shows "money_ok g'"
proof -
  from assms(2) have "money_ok (g\<lparr>CurrentPos := pos\<rparr>)" for pos
    by (simp add: money_ok_def)
  with assms(1) show ?thesis
    by (auto simp: next_seat_Inr_iff split: if_splits dest: advancePhase_money_ok)
qed

lemma ProcessAction_money_ok_aux:
  assumes "ProcessAction a amount g = Inr (ok, g')" and "money_ok g"
  shows "money_ok g'"
proof (cases "action_switch a amount g (Players g ! nat (CurrentPos g))")
  case None
  with assms show ?thesis by (simp add: ProcessAction_Inr_iff)
next
  case (Some g1)
  with assms(1) have ns: "next_seat g1 = Inr (ok, g')"
    and r: "in_range (Players g) (CurrentPos g)"
    by (simp_all add: ProcessAction_Inr_iff)
  from r have "Players g ! nat (CurrentPos g) \<in> set (Players g)"
    by (simp add: in_range_nat)
  then have "money_ok g1" by (rule action_switch_money_ok [OF Some _ assms(2)])
  with ns show ?thesis by (rule next_seat_money_ok)
qed


text \<open>
  An action keeps every stack, every bet, the current bet and the minimum
  raise non-negative, whatever the action and the amount are: a call or a raise of a
  seat whose bet is above the current bet takes chips back, and never more than the seat
  has bet.
\<close>

theorem ProcessAction_no_debt:
  assumes "ProcessAction a amount g = Inr (ok, g')" and "money_ok g"
  shows "money_ok g'"
  using assms by (rule ProcessAction_money_ok_aux)

theorem ProcessAction_no_debt_witness:
  "money_ok sample_table \<and>
   (\<exists>ok g'. ProcessAction Raise 20 sample_table = Inr (ok, g') \<and> money_ok g')"
proof -
  have m: "money_ok sample_table"
    by (simp add: money_ok_def sample_defs)
  from ProcessAction_returns_aux [OF wf_sample_table, of Raise 20]
  obtain ok g' where r: "ProcessAction Raise 20 sample_table = Inr (ok, g')"
    by (auto simp: returns_iff)
  from m r ProcessAction_no_debt [OF r m] show ?thesis by blast
qed

section \<open>Starting a hand\<close>

lemma holdings_fresh_players: "sum_list (map holdings (fresh_players g)) = total_chips g"
  by (simp add: fresh_players_def total_chips_def holdings_def comp_def)

lemma holdings_after_bb: "sum_list (map holdings (after_bb g)) = total_chips g"
  by (simp add: after_bb_def after_sb_def sum_list_go_update_same holdings_fresh_players)

lemma in_play_started: "in_play (started rnd g) = total_chips g"
  by (simp add: in_play_def holdings_after_bb)

lemma blind_nonneg:
  assumes "\<forall>p \<in> set ps. 0 \<le> Chips p \<and> 0 \<le> PBet p" and "0 \<le> amount" and "in_range ps i"
  shows "\<forall>p \<in> set (go_update ps i (snd (PlaceBet amount (ps ! nat i)))). 0 \<le> Chips p \<and> 0 \<le> PBet p"
proof (rule ball_go_update [OF assms(1)])
  from assms(3) have "ps ! nat i \<in> set ps" by (simp add: in_range_nat)
  with assms(1,2) show "0 \<le> Chips (snd (PlaceBet amount (ps ! nat i))) \<and>
      0 \<le> PBet (snd (PlaceBet amount (ps ! nat i)))"
    by (simp add: PlaceBet_nonneg)
qed

lemma money_ok_after_bb:
  assumes ne: "Players g \<noteq> []" and c: "\<forall>p \<in> set (Players g). 0 \<le> Chips p"
    and b: "0 \<le> SmallBlind g" "0 \<le> BigBlind g"
  shows "\<forall>p \<in> set (after_bb g). 0 \<le> Chips p \<and> 0 \<le> PBet p"
proof -
  note r = start_in_range [OF ne]
  from c have "\<forall>p \<in> set (fresh_players g). 0 \<le> Chips p \<and> 0 \<le> PBet p"
    by (simp add: fresh_players_def)
  then have "\<forall>p \<in> set (after_sb g). 0 \<le> Chips p \<and> 0 \<le> PBet p"
    unfolding after_sb_def using b(1) r(2) by (intro blind_nonneg) simp_all
  then show ?thesis
    unfolding after_bb_def using b(2) r(3) by (intro blind_nonneg) simp_all
qed

lemma money_ok_started:
  assumes ne: "Players g \<noteq> []" and c: "\<forall>p \<in> set (Players g). 0 \<le> Chips p"
    and b: "0 \<le> SmallBlind g" "0 \<le> BigBlind g"
  shows "money_ok (started rnd g)"
proof -
  from money_ok_after_bb [OF assms]
  have "(\<forall>p \<in> set (after_bb g). 0 \<le> Chips p)" "(\<forall>p \<in> set (after_bb g). 0 \<le> PBet p)"
    by simp_all
  then have "(\<forall>p \<in> set (Players (started rnd g)). 0 \<le> Chips p)"
    "(\<forall>p \<in> set (Players (started rnd g)). 0 \<le> PBet p)"
    using ball_map_cong [of Chips "Players (started rnd g)" Chips "after_bb g" "\<lambda>v. 0 \<le> v"]
      ball_map_cong [of PBet "Players (started rnd g)" PBet "after_bb g" "\<lambda>v. 0 \<le> v"]
    by simp_all
  with b show ?thesis by (simp add: money_ok_def)
qed


text \<open>
  C26 (safety). \<open>StartNewHand\<close> keeps the stacks and nothing else: the chips on the table
  after it are the chips that were in the stacks before it, and the pot is empty. What
  the seats had bet in the hand before, and the pot of that hand, are gone; whatever
  the blind seats post stays on the table as their bets and none of it is in the pot.
  How much they post is not part of this statement.
\<close>

theorem StartNewHand_keeps_stacks_only:
  assumes "Players g \<noteq> []" and "- 1 \<le> DealerPos g"
  shows "\<exists>g'. StartNewHand rnd g = Inr g' \<and> in_play g' = total_chips g \<and> Pot g' = 0"
  using assms by (simp add: StartNewHand_eq in_play_started)

theorem StartNewHand_keeps_stacks_only_witness:
  "Players sample_table \<noteq> [] \<and> - 1 \<le> DealerPos sample_table \<and>
   (\<exists>g'. StartNewHand (\<lambda>i. i) sample_table = Inr g' \<and>
      in_play g' = total_chips sample_table \<and> Pot g' = 0)"
  using StartNewHand_keeps_stacks_only [of sample_table "\<lambda>i. i"] by (simp add: sample_defs)

text \<open>
  If no stack and no blind is negative, the hand \<open>StartNewHand\<close> starts has
  no negative stack or bet: a blind a seat cannot pay in full is not posted at all.
\<close>

theorem StartNewHand_no_debt:
  assumes "Players g \<noteq> []" and "- 1 \<le> DealerPos g"
    and "\<forall>p \<in> set (Players g). 0 \<le> Chips p" and "0 \<le> SmallBlind g" and "0 \<le> BigBlind g"
  shows "\<exists>g'. StartNewHand rnd g = Inr g' \<and> money_ok g'"
  using assms by (simp add: StartNewHand_eq money_ok_started)

theorem StartNewHand_no_debt_witness:
  "Players sample_table \<noteq> [] \<and> - 1 \<le> DealerPos sample_table \<and>
   list_all (\<lambda>p. 0 \<le> Chips p) (Players sample_table) \<and>
   0 \<le> SmallBlind sample_table \<and> 0 \<le> BigBlind sample_table \<and>
   (\<exists>g'. StartNewHand (\<lambda>i. i) sample_table = Inr g' \<and> money_ok g')"
  using StartNewHand_no_debt [of sample_table "\<lambda>i. i"] by (simp add: sample_defs)

end
