(* ===== verification/Game_Cards.thy ===== *)
theory Game_Cards
  imports Game_Chips
begin

text \<open>
  Where the cards are.

  \<^item> \<open>hole_cards\<close> are the cards in the hands of all seats, \<open>all_cards\<close> the cards of the
    deck, of the board and of the hands together.
  \<^item> \<open>board_size\<close> is the number of community cards a street shows and \<open>cards_needed\<close> the
    number of cards the streets that follow still take from the deck; \<open>board_ok\<close> says
    that the board has the size of its street and the deck holds what is still needed.
  \<^item> The lemmas show that dealing moves cards and never copies one: after \<open>StartNewHand\<close>
    the cards of the table are the 52 cards of a new deck, every seat that takes part
    holds two of them, and an action only ever removes cards (the burnt ones).
  \<^item> The last section gives each \<open>Deal...\<close> method in closed form: nothing outside its
    street, one card burnt and one or three cards dealt on it.
\<close>

section \<open>The cards of a table\<close>

definition hole_cards :: "GameState \<Rightarrow> Card list" where
  "hole_cards g = concat (map PCards (Players g))"

definition all_cards :: "GameState \<Rightarrow> Card list" where
  "all_cards g = Cards (Deck g) @ CommunityCards g @ hole_cards g"

fun board_size :: "GamePhase \<Rightarrow> nat" where
  "board_size PreFlop = 0"
| "board_size Flop = 3"
| "board_size Turn = 4"
| "board_size River = 5"
| "board_size Showdown = 5"

fun cards_needed :: "GamePhase \<Rightarrow> nat" where
  "cards_needed PreFlop = 8"
| "cards_needed Flop = 4"
| "cards_needed Turn = 2"
| "cards_needed River = 0"
| "cards_needed Showdown = 0"

definition board_ok :: "GameState \<Rightarrow> bool" where
  "board_ok g =
     (length (CommunityCards g) = board_size (CurrentPhase g) \<and>
      cards_needed (CurrentPhase g) \<le> length (Cards (Deck g)))"

lemma hole_cards_cong: "map PCards (Players g') = map PCards (Players g) \<Longrightarrow> hole_cards g' = hole_cards g"
  by (simp add: hole_cards_def)

definition dealt :: "Player list \<Rightarrow> nat" where
  "dealt ps = length (filter CanAct ps)"

lemma all_cards_update [simp]:
  "all_cards (g\<lparr>CurrentPhase := ph\<rparr>) = all_cards g"
  "all_cards (g\<lparr>CurrentPos := pos\<rparr>) = all_cards g"
  by (simp_all add: all_cards_def hole_cards_def)

section \<open>Dealing a street\<close>

lemma all_cards_burn_card: "mset (all_cards (burn_card g)) \<subseteq># mset (all_cards g)"
  by (simp add: all_cards_def hole_cards_def mset_tl_subseteq)

lemma all_cards_deal_community_card [simp]:
  "mset (all_cards (deal_community_card g)) = mset (all_cards g)"
  by (cases "Cards (Deck g)") (simp_all add: all_cards_def hole_cards_def deal_community_card_def)

lemma all_cards_enter_street:
  "enter_street phase g = Inr g' \<Longrightarrow> all_cards g' = all_cards g"
  by (auto simp: enter_street_Inr_iff all_cards_def hole_cards_def)

lemma all_cards_advancePhase:
  assumes "advancePhase g = Inr g'"
  shows "mset (all_cards g') \<subseteq># mset (all_cards g)"
  using advancePhase_cases [OF assms]
  by (auto dest!: all_cards_enter_street simp: all_cards_burn_card)

section \<open>One action\<close>

lemma all_cards_action_switch:
  assumes sw: "action_switch a amount g player = Some g1"
    and idx: "go_index (Players g) (CurrentPos g) = Inr player"
  shows "all_cards g1 = all_cards g"
proof -
  from idx have pl: "Players g ! nat (CurrentPos g) = player"
    by (auto simp: go_index_eq_Inr_iff)
  from action_switch_Players [OF sw idx] obtain p where p: "same_seat player p"
    "Players g1 = go_update (Players g) (CurrentPos g) p"
    by blast
  from p(1) pl have "PCards p = PCards (Players g ! nat (CurrentPos g))"
    by (simp add: same_seat_def)
  then have "map PCards (Players g1) = map PCards (Players g)"
    unfolding p(2) by (rule map_go_update_same)
  with action_switch_frame(1,2) [OF sw] show ?thesis
    by (simp add: all_cards_def hole_cards_def)
qed

lemma all_cards_next_seat:
  assumes "next_seat g = Inr (ok, g')"
  shows "mset (all_cards g') \<subseteq># mset (all_cards g)"
  using assms
  by (auto simp: next_seat_Inr_iff split: if_splits dest!: all_cards_advancePhase)

lemma all_cards_ProcessAction_aux:
  assumes "ProcessAction a amount g = Inr (ok, g')"
  shows "mset (all_cards g') \<subseteq># mset (all_cards g)"
proof (cases "action_switch a amount g (Players g ! nat (CurrentPos g))")
  case None
  with assms show ?thesis by (simp add: ProcessAction_Inr_iff)
next
  case (Some g1)
  with assms have ns: "next_seat g1 = Inr (ok, g')"
    and idx: "go_index (Players g) (CurrentPos g) = Inr (Players g ! nat (CurrentPos g))"
    by (simp_all add: ProcessAction_Inr_iff)
  from all_cards_next_seat [OF ns] all_cards_action_switch [OF Some idx]
  show ?thesis by simp
qed

section \<open>Dealing the hole cards\<close>

lemma CanAct_iff: "CanAct p \<longleftrightarrow> IsActive p \<or> Status p = AllInStatus"
  by (simp add: CanAct_def IsActive_def)

lemma dealt_Cons [simp]:
  "dealt [] = 0"
  "dealt (p # ps) = (if CanAct p then Suc (dealt ps) else dealt ps)"
  by (simp_all add: dealt_def)

lemma dealt_le_length: "dealt ps \<le> length ps"
  by (simp add: dealt_def)

lemma dealt_cong:
  assumes "map Status ps' = map Status ps"
  shows "dealt ps' = dealt ps"
proof -
  let ?P = "\<lambda>s. s = Active \<or> s = AllInStatus"
  have d: "dealt qs = length (filter ?P (map Status qs))" for qs
    by (simp add: dealt_def filter_map comp_def CanAct_def [abs_def])
  show ?thesis by (simp only: d assms)
qed

lemma dealt_deal_round [simp]: "dealt (fst (deal_round ps d)) = dealt ps"
  by (rule dealt_cong) simp

lemma deal_round_deck:
  "Cards (snd (deal_round ps d)) = drop (dealt ps) (Cards d)"
  by (induction ps arbitrary: d) (simp_all add: Let_def CanAct_iff deal_to_cards drop_Suc tl_drop)

lemma deal_round_hands:
  "mset (concat (map PCards (fst (deal_round ps d)))) =
   mset (concat (map PCards ps)) + mset (take (dealt ps) (Cards d))"
proof (induction ps arbitrary: d)
  case Nil
  then show ?case by simp
next
  case (Cons p ps)
  then show ?case
    by (cases "Cards d") (simp_all add: Let_def CanAct_iff deal_to_cards)
qed

lemma deal_round_counts:
  assumes "dealt ps \<le> length (Cards d)"
  shows "map (\<lambda>p. length (PCards p)) (fst (deal_round ps d)) =
         map (\<lambda>p. length (PCards p) + (if CanAct p then 1 else 0)) ps"
  using assms
proof (induction ps arbitrary: d)
  case Nil
  then show ?case by simp
next
  case (Cons p ps)
  then show ?case
    by (cases "Cards d") (auto simp: Let_def CanAct_iff deal_to_cards)
qed

lemma all_cards_deal_hole_cards [simp]:
  "mset (all_cards (deal_hole_cards g)) = mset (all_cards g)"
proof -
  let ?r1 = "deal_round (Players g) (Deck g)"
  let ?r2 = "deal_round (fst ?r1) (snd ?r1)"
  have "mset (take n xs) + mset (drop n xs) = mset xs" for n and xs :: "Card list"
    by (simp flip: mset_append)
  then have split: "mset (drop n xs) + mset (take n xs) = mset xs" for n and xs :: "Card list"
    by (simp add: add.commute)
  have "mset (Cards (snd ?r2)) + mset (concat (map PCards (fst ?r2))) =
        mset (Cards (snd ?r1)) + mset (concat (map PCards (fst ?r1)))"
    by (simp add: deal_round_hands deal_round_deck [of "fst ?r1"] split)
  also have "\<dots> = mset (Cards (Deck g)) + mset (concat (map PCards (Players g)))"
    by (simp add: deal_round_hands deal_round_deck [of "Players g"] split)
  finally show ?thesis
    by (simp add: all_cards_def hole_cards_def deal_hole_cards_def Let_def)
qed

lemma deal_round_nth:
  assumes "dealt ps \<le> length (Cards d)" and "i < length ps"
  shows "length (PCards (fst (deal_round ps d) ! i)) =
           length (PCards (ps ! i)) + (if CanAct (ps ! i) then 1 else 0)"
    and "Status (fst (deal_round ps d) ! i) = Status (ps ! i)"
    and "CanAct (fst (deal_round ps d) ! i) = CanAct (ps ! i)"
proof -
  from assms(2) have i: "i < length (fst (deal_round ps d))" by simp
  from map_eq_nthD [OF deal_round_counts [OF assms(1)] i]
  show "length (PCards (fst (deal_round ps d) ! i)) =
           length (PCards (ps ! i)) + (if CanAct (ps ! i) then 1 else 0)" .
  from map_eq_nthD [OF deal_round_fields(3) i]
  show s: "Status (fst (deal_round ps d) ! i) = Status (ps ! i)" .
  then show "CanAct (fst (deal_round ps d) ! i) = CanAct (ps ! i)"
    by (simp add: CanAct_def)
qed

lemma deal_hole_cards_Players:
  "Players (deal_hole_cards g) =
     fst (deal_round (fst (deal_round (Players g) (Deck g))) (snd (deal_round (Players g) (Deck g))))"
  "Cards (Deck (deal_hole_cards g)) =
     drop (dealt (Players g)) (drop (dealt (Players g)) (Cards (Deck g)))"
  by (simp_all add: deal_hole_cards_def Let_def deal_round_deck)

lemma deal_hole_cards_nth:
  assumes enough: "2 * dealt (Players g) \<le> length (Cards (Deck g))" and i: "i < length (Players g)"
  shows "length (PCards (Players (deal_hole_cards g) ! i)) =
           length (PCards (Players g ! i)) + (if CanAct (Players g ! i) then 2 else 0)"
    and "CanAct (Players (deal_hole_cards g) ! i) = CanAct (Players g ! i)"
proof -
  let ?r1 = "deal_round (Players g) (Deck g)"
  from enough have e1: "dealt (Players g) \<le> length (Cards (Deck g))" by simp
  from enough have e2: "dealt (fst ?r1) \<le> length (Cards (snd ?r1))"
    by (simp add: deal_round_deck)
  from i have i': "i < length (fst ?r1)" by simp
  note a = deal_round_nth [OF e1 i] and b = deal_round_nth [OF e2 i']
  from a(1,3) b(1) show "length (PCards (Players (deal_hole_cards g) ! i)) =
           length (PCards (Players g ! i)) + (if CanAct (Players g ! i) then 2 else 0)"
    by (simp add: deal_hole_cards_Players)
  from a(3) b(3) show "CanAct (Players (deal_hole_cards g) ! i) = CanAct (Players g ! i)"
    by (simp add: deal_hole_cards_Players)
qed

section \<open>The cards of a hand that starts\<close>

lemma PCards_after_bb: "map PCards (after_bb g) = replicate (length (Players g)) []"
proof -
  have "map PCards (after_bb g) = map PCards (fresh_players g)"
    by (simp add: after_bb_def after_sb_def map_go_update_same frame)
  then show ?thesis
    by (simp add: fresh_players_def comp_def map_replicate_const)
qed

lemma Deck_started:
  "Cards (Deck (started rnd g)) =
     drop (dealt (after_bb g)) (drop (dealt (after_bb g)) (Cards (Shuffle rnd NewDeck)))"
  by (simp add: started_def deal_hole_cards_Players)

lemma all_cards_started: "mset (all_cards (started rnd g)) = mset (Cards NewDeck)"
proof -
  let ?x = "(reset_table rnd g)\<lparr>DealerPos := new_dealer g, Players := after_bb g,
    CurrentBet := BigBlind g\<rparr>"
  have "mset (all_cards (started rnd g)) = mset (all_cards ?x)"
    by (simp add: started_def)
  also have "all_cards ?x = Cards (Shuffle rnd NewDeck)"
    by (simp add: all_cards_def hole_cards_def PCards_after_bb)
  finally show ?thesis by (simp add: mset_Shuffle_aux)
qed

lemma distinct_all_cards_started: "distinct (all_cards (started rnd g))"
  using mset_eq_imp_distinct_iff [OF all_cards_started [of rnd g]]
  by (simp add: distinct_NewDeck_aux)

lemma hole_cards_started:
  assumes "length (Players g) \<le> 26" and "p \<in> set (Players (started rnd g))"
  shows "length (PCards p) = (if CanAct p then 2 else 0)"
proof -
  let ?x = "(reset_table rnd g)\<lparr>DealerPos := new_dealer g, Players := after_bb g,
    CurrentBet := BigBlind g\<rparr>"
  from assms(2) obtain i where i: "i < length (Players g)" and p: "p = Players (deal_hole_cards ?x) ! i"
    by (auto simp: in_set_conv_nth started_def)
  from assms(1) dealt_le_length [of "after_bb g"]
  have enough: "2 * dealt (Players ?x) \<le> length (Cards (Deck ?x))"
    by (simp add: length_NewDeck_aux)
  from i have i': "i < length (Players ?x)" by simp
  from arg_cong [OF PCards_after_bb [of g], of "\<lambda>l. l ! i"] i
  have "PCards (Players ?x ! i) = []" by simp
  with deal_hole_cards_nth [OF enough i'] show ?thesis by (simp add: p)
qed

section \<open>The board\<close>

lemma board_ok_advancePhase:
  assumes "advancePhase g = Inr g'" and "board_ok g"
  shows "board_ok g'"
  using advancePhase_cases [OF assms(1)] assms(2)
  by (auto simp: board_ok_def enter_street_Inr_iff)

lemma board_ok_next_seat:
  assumes "next_seat g = Inr (ok, g')" and "board_ok g"
  shows "board_ok g'"
proof -
  from assms(2) have "board_ok (g\<lparr>CurrentPos := pos\<rparr>)" for pos
    by (simp add: board_ok_def)
  with assms(1) show ?thesis
    by (auto simp: next_seat_Inr_iff split: if_splits dest: board_ok_advancePhase)
qed

lemma board_ok_ProcessAction_aux:
  assumes "ProcessAction a amount g = Inr (ok, g')" and "board_ok g"
  shows "board_ok g'"
proof (cases "action_switch a amount g (Players g ! nat (CurrentPos g))")
  case None
  with assms show ?thesis by (simp add: ProcessAction_Inr_iff)
next
  case (Some g1)
  with assms(1) have ns: "next_seat g1 = Inr (ok, g')"
    by (simp add: ProcessAction_Inr_iff)
  from action_switch_frame(1,2,3) [OF Some] assms(2) have "board_ok g1"
    by (simp add: board_ok_def)
  with ns show ?thesis by (rule board_ok_next_seat)
qed

lemma board_ok_started:
  assumes "length (Players g) \<le> 22"
  shows "board_ok (started rnd g)"
  using assms dealt_le_length [of "after_bb g"]
  by (simp add: board_ok_def Deck_started length_NewDeck_aux)

lemma all_cards_sample_table [simp]: "all_cards sample_table = Cards NewDeck"
  by (simp add: all_cards_def hole_cards_def sample_defs)

lemma board_ok_sample_table [simp]: "board_ok sample_table"
  by (simp add: board_ok_def sample_defs length_NewDeck_aux)

text \<open>
  C8 (invariant). The hand \<open>StartNewHand\<close> starts holds the 52 cards of a new deck, each
  exactly once, in the deck and in the hands of the seats: no card is dealt twice.
\<close>

theorem StartNewHand_deals_each_card_once:
  assumes "Players g \<noteq> []" and "- 1 \<le> DealerPos g"
  shows "\<exists>g'. StartNewHand rnd g = Inr g' \<and> mset (all_cards g') = mset (Cards NewDeck) \<and>
           distinct (all_cards g') \<and> length (all_cards g') = 52"
proof -
  from mset_eq_length [OF all_cards_started [of rnd g]]
  have "length (all_cards (started rnd g)) = 52" by (simp add: length_NewDeck_aux)
  with assms show ?thesis
    by (simp add: StartNewHand_eq all_cards_started distinct_all_cards_started)
qed

theorem StartNewHand_deals_each_card_once_witness:
  "Players sample_table \<noteq> [] \<and> - 1 \<le> DealerPos sample_table \<and>
   (\<exists>g'. StartNewHand (\<lambda>i. i) sample_table = Inr g' \<and>
      mset (all_cards g') = mset (Cards NewDeck) \<and> distinct (all_cards g') \<and>
      length (all_cards g') = 52)"
  using StartNewHand_deals_each_card_once [of sample_table "\<lambda>i. i"] by (simp add: sample_defs)

text \<open>
  At a table of at most 26 seats, after \<open>StartNewHand\<close> every seat that
  can act (active or all-in) holds exactly two cards and every other seat holds none.
\<close>

theorem StartNewHand_two_hole_cards:
  assumes "Players g \<noteq> []" and "- 1 \<le> DealerPos g" and "length (Players g) \<le> 26"
  shows "\<exists>g'. StartNewHand rnd g = Inr g' \<and>
           (\<forall>p \<in> set (Players g'). length (PCards p) = (if CanAct p then 2 else 0))"
  using assms by (simp add: StartNewHand_eq hole_cards_started)

theorem StartNewHand_two_hole_cards_witness:
  "Players sample_table \<noteq> [] \<and> - 1 \<le> DealerPos sample_table \<and>
   length (Players sample_table) \<le> 26 \<and>
   (\<exists>g'. StartNewHand (\<lambda>i. i) sample_table = Inr g' \<and>
      (\<forall>p \<in> set (Players g'). length (PCards p) = (if CanAct p then 2 else 0)))"
  using StartNewHand_two_hole_cards [of sample_table "\<lambda>i. i"] by (simp add: sample_defs)

text \<open>
  An action deals no card twice: the cards of the table after it are
  cards of the table before it, each at most as often, so a table without duplicates
  stays without duplicates.
\<close>

theorem ProcessAction_no_duplicate_cards:
  assumes "ProcessAction a amount g = Inr (ok, g')" and "distinct (all_cards g)"
  shows "mset (all_cards g') \<subseteq># mset (all_cards g) \<and> distinct (all_cards g')"
  using all_cards_ProcessAction_aux [OF assms(1)] assms(2)
  by (auto intro: distinct_if_mset_subseteq)

theorem ProcessAction_no_duplicate_cards_witness:
  "distinct (all_cards sample_table) \<and>
   (\<exists>ok g'. ProcessAction Fold 0 sample_table = Inr (ok, g') \<and>
      mset (all_cards g') \<subseteq># mset (all_cards sample_table) \<and> distinct (all_cards g'))"
proof -
  have d: "distinct (all_cards sample_table)"
    by (simp add: distinct_NewDeck_aux)
  from ProcessAction_returns_aux [OF wf_sample_table, of Fold 0]
  obtain ok g' where r: "ProcessAction Fold 0 sample_table = Inr (ok, g')"
    by (auto simp: returns_iff)
  from d r ProcessAction_no_duplicate_cards [OF r d] show ?thesis by blast
qed

text \<open>
  The board has the size of its street (0, 3, 4, 5 and 5 cards) and the
  deck holds the cards the streets to come will take; an action keeps this, so a street
  is never dealt short.
\<close>

theorem ProcessAction_board_ok:
  assumes "ProcessAction a amount g = Inr (ok, g')" and "board_ok g"
  shows "board_ok g'"
  using assms by (rule board_ok_ProcessAction_aux)

theorem ProcessAction_board_ok_witness:
  "board_ok sample_table \<and>
   (\<exists>ok g'. ProcessAction Fold 0 sample_table = Inr (ok, g') \<and> board_ok g')"
proof -
  from ProcessAction_returns_aux [OF wf_sample_table, of Fold 0]
  obtain ok g' where r: "ProcessAction Fold 0 sample_table = Inr (ok, g')"
    by (auto simp: returns_iff)
  from r ProcessAction_board_ok [OF r board_ok_sample_table] show ?thesis by auto
qed

section \<open>The three streets\<close>

lemma enter_street_eq:
  assumes "wf_game g"
  shows "enter_street phase g =
     Inr (g\<lparr>CurrentPhase := phase, CurrentBet := 0, LastRaisePos := - 1,
           CurrentPos := next_active (Players g) (DealerPos g)\<rparr>)"
  using assms
  by (simp add: enter_street_def Let_def wf_game_def findNextActivePosition_returns)

lemma drop_tl: "drop n (tl xs) = drop (Suc n) xs"
  by (cases xs) simp_all

lemma take1_tl: "take (Suc 0) xs @ take n (tl xs) = take (Suc n) xs"
  by (cases xs) simp_all

lemma take_three:
  "take (Suc (Suc 0)) cs @ take (Suc 0) (tl (tl cs)) = take (Suc (Suc (Suc 0))) cs"
  by (cases cs; cases "tl cs"; cases "tl (tl cs)") simp_all

lemma tl_four: "tl (tl (tl (tl cs))) = drop (Suc (Suc (Suc (Suc 0)))) cs"
  by (simp add: drop_Suc)

lemma Deal_street_aux:
  assumes "wf_game g"
  shows "enter_street phase (deal_community_card (burn_card g)) =
     Inr (g\<lparr>Deck := Deck g\<lparr>Cards := drop 2 (Cards (Deck g))\<rparr>,
           CommunityCards := CommunityCards g @ take 1 (tl (Cards (Deck g))),
           CurrentPhase := phase, CurrentBet := 0, LastRaisePos := - 1,
           CurrentPos := next_active (Players g) (DealerPos g)\<rparr>)"
proof -
  let ?g1 = "deal_community_card (burn_card g)"
  have "?g1 = g\<lparr>Deck := Deck g\<lparr>Cards := drop 2 (Cards (Deck g))\<rparr>,
      CommunityCards := CommunityCards g @ take 1 (tl (Cards (Deck g)))\<rparr>"
    by (cases "Cards (Deck g)"; cases "tl (Cards (Deck g))")
       (simp_all add: street_defs DrawOne_def drop_Suc numeral_2_eq_2)
  moreover from assms have "wf_game ?g1" by simp
  ultimately show ?thesis by (simp add: enter_street_eq)
qed

text \<open>
  C39 (functional). Outside its own street a \<open>Deal...\<close> method changes nothing. On its
  street, on a well-formed table, \<open>DealTurn\<close> and \<open>DealRiver\<close> burn the top card, put the
  next one on the board, open the new street with no bet and no aggressor, and give the
  action to the first active seat after the button.
\<close>

theorem Deal_methods_follow_the_streets:
  "(CurrentPhase g \<noteq> PreFlop \<longrightarrow> DealFlop g = Inr g) \<and>
   (CurrentPhase g \<noteq> Flop \<longrightarrow> DealTurn g = Inr g) \<and>
   (CurrentPhase g \<noteq> Turn \<longrightarrow> DealRiver g = Inr g) \<and>
   (wf_game g \<and> CurrentPhase g = Flop \<longrightarrow>
      DealTurn g = Inr (g\<lparr>Deck := Deck g\<lparr>Cards := drop 2 (Cards (Deck g))\<rparr>,
        CommunityCards := CommunityCards g @ take 1 (tl (Cards (Deck g))),
        CurrentPhase := Turn, CurrentBet := 0, LastRaisePos := - 1,
        CurrentPos := next_active (Players g) (DealerPos g)\<rparr>)) \<and>
   (wf_game g \<and> CurrentPhase g = Turn \<longrightarrow>
      DealRiver g = Inr (g\<lparr>Deck := Deck g\<lparr>Cards := drop 2 (Cards (Deck g))\<rparr>,
        CommunityCards := CommunityCards g @ take 1 (tl (Cards (Deck g))),
        CurrentPhase := River, CurrentBet := 0, LastRaisePos := - 1,
        CurrentPos := next_active (Players g) (DealerPos g)\<rparr>))"
  by (simp add: DealFlop_def DealTurn_def DealRiver_def Deal_street_aux)

theorem Deal_methods_follow_the_streets_witness:
  "CurrentPhase sample_table \<noteq> Flop \<and> DealTurn sample_table = Inr sample_table \<and>
   wf_game (sample_table\<lparr>CurrentPhase := Flop\<rparr>) \<and>
   map_sum id (\<lambda>g. (CurrentPhase g, length (Cards (Deck g)), length (CommunityCards g),
       CurrentPos g)) (DealTurn (sample_table\<lparr>CurrentPhase := Flop\<rparr>)) =
     Inr (Turn, 50, 1, 1)"
proof -
  have a: "CurrentPhase sample_table \<noteq> Flop" "wf_game (sample_table\<lparr>CurrentPhase := Flop\<rparr>)"
    using wf_sample_table by (simp_all add: wf_game_def) (simp add: sample_defs)
  have n: "next_active (Players sample_table) (DealerPos sample_table) = 1"
    by code_simp
  from Deal_methods_follow_the_streets [of sample_table]
    Deal_methods_follow_the_streets [of "sample_table\<lparr>CurrentPhase := Flop\<rparr>"] a n
  show ?thesis
    by (simp add: length_NewDeck_aux) (simp add: sample_defs length_NewDeck_aux)
qed

text \<open>
  On a well-formed table before the flop with at least four cards in the
  deck, \<open>DealFlop\<close> burns the top card and puts the next three on the board, in the
  order of the deck.
\<close>

theorem DealFlop_deals_three:
  assumes "wf_game g" and "CurrentPhase g = PreFlop"
  shows "\<exists>g'. DealFlop g = Inr g' \<and> CurrentPhase g' = Flop \<and>
           CommunityCards g' = CommunityCards g @ take 3 (tl (Cards (Deck g))) \<and>
           Cards (Deck g') = drop 4 (Cards (Deck g)) \<and> CurrentBet g' = 0 \<and>
           LastRaisePos g' = - 1 \<and> CurrentPos g' = next_active (Players g) (DealerPos g) \<and>
           Players g' = Players g \<and> Pot g' = Pot g"
proof -
  let ?g1 = "deal_community_card (deal_community_card (deal_community_card (burn_card g)))"
  from assms(1) have "wf_game ?g1" by simp
  from enter_street_eq [OF this, of Flop] assms(2) show ?thesis
    by (simp add: DealFlop_def drop_tl take1_tl take_three tl_four numeral_eq_Suc)
qed

theorem DealFlop_deals_three_witness:
  "wf_game sample_table \<and> CurrentPhase sample_table = PreFlop \<and>
   (\<exists>g'. DealFlop sample_table = Inr g' \<and> CurrentPhase g' = Flop \<and>
      length (CommunityCards g') = 3 \<and> length (Cards (Deck g')) = 48)"
proof -
  have a: "CurrentPhase sample_table = PreFlop" "CommunityCards sample_table = []"
    "Deck sample_table = NewDeck"
    by (simp_all add: sample_defs)
  from DealFlop_deals_three [OF wf_sample_table a(1)] a show ?thesis
    by (auto simp: length_NewDeck_aux)
qed

end
