(* ===== verification/Game_Phase.thy ===== *)
theory Game_Phase
  imports Game_Cards
begin

text \<open>
  The rules of a betting round, as a specification of \<open>ProcessAction\<close>.

  \<^item> \<open>current\<close> is the seat to act. \<open>legal\<close> says which actions the rules accept, \<open>paid\<close>
    what an accepted action moves from the stack of the seat to its bet and to the pot,
    \<open>seat_after\<close> the seat after the action, and \<open>bet_after\<close>, \<open>raiser_after\<close> and
    \<open>min_raise_after\<close> the betting state; \<open>apply_action\<close> puts them together.
  \<^item> \<open>next_phase\<close> is the street after a street; \<open>closes\<close> is the test that ends a betting
    round.
  \<^item> The lemmas show that the \<open>switch\<close> of \<open>ProcessAction\<close> computes \<open>apply_action\<close> on
    the legal actions and refuses the others, that the result of \<open>ProcessAction\<close> is
    \<open>legal\<close>, that a refused action changes nothing, that the phase moves forward by at
    most one street, and when it does.
\<close>

section \<open>The rules\<close>

definition current :: "GameState \<Rightarrow> Player" where
  "current g = Players g ! nat (CurrentPos g)"

fun legal :: "PlayerAction \<Rightarrow> int \<Rightarrow> GameState \<Rightarrow> bool" where
  "legal Fold amount g = True"
| "legal Check amount g = (CurrentBet g \<le> PBet (current g))"
| "legal Call amount g = (CurrentBet g - PBet (current g) \<le> Chips (current g))"
| "legal Bet amount g =
     (CurrentBet g \<le> 0 \<and> BigBlind g \<le> amount \<and> amount \<le> Chips (current g))"
| "legal Raise amount g =
     (MinRaise g \<le> amount \<and> CurrentBet g - PBet (current g) + amount \<le> Chips (current g))"
| "legal AllIn amount g = True"

fun paid :: "PlayerAction \<Rightarrow> int \<Rightarrow> GameState \<Rightarrow> int" where
  "paid Fold amount g = 0"
| "paid Check amount g = 0"
| "paid Call amount g = CurrentBet g - PBet (current g)"
| "paid Bet amount g = amount"
| "paid Raise amount g = CurrentBet g - PBet (current g) + amount"
| "paid AllIn amount g = Chips (current g)"

definition pays :: "int \<Rightarrow> Player \<Rightarrow> Player" where
  "pays x p = p\<lparr>PBet := PBet p + x, Chips := Chips p - x,
                Status := (if Chips p = x then AllInStatus else Status p)\<rparr>"

fun seat_after :: "PlayerAction \<Rightarrow> int \<Rightarrow> GameState \<Rightarrow> Player" where
  "seat_after Fold amount g = (current g)\<lparr>Status := Folded\<rparr>"
| "seat_after Check amount g = current g"
| "seat_after a amount g = pays (paid a amount g) (current g)"

definition all_in_raises :: "GameState \<Rightarrow> bool" where
  "all_in_raises g = (CurrentBet g < PBet (current g) + Chips (current g))"

fun bet_after :: "PlayerAction \<Rightarrow> int \<Rightarrow> GameState \<Rightarrow> int" where
  "bet_after Bet amount g = amount"
| "bet_after Raise amount g = CurrentBet g + amount"
| "bet_after AllIn amount g =
     (if all_in_raises g then PBet (current g) + Chips (current g) else CurrentBet g)"
| "bet_after a amount g = CurrentBet g"

fun raiser_after :: "PlayerAction \<Rightarrow> int \<Rightarrow> GameState \<Rightarrow> int" where
  "raiser_after Bet amount g = CurrentPos g"
| "raiser_after Raise amount g = CurrentPos g"
| "raiser_after AllIn amount g = (if all_in_raises g then CurrentPos g else LastRaisePos g)"
| "raiser_after a amount g = LastRaisePos g"

fun min_raise_after :: "PlayerAction \<Rightarrow> int \<Rightarrow> GameState \<Rightarrow> int" where
  "min_raise_after Bet amount g = amount"
| "min_raise_after Raise amount g = amount"
| "min_raise_after AllIn amount g = (if all_in_raises g then Chips (current g) else MinRaise g)"
| "min_raise_after a amount g = MinRaise g"

definition apply_action :: "PlayerAction \<Rightarrow> int \<Rightarrow> GameState \<Rightarrow> GameState" where
  "apply_action a amount g =
     g\<lparr>Players := go_update (Players g) (CurrentPos g) (seat_after a amount g),
       Pot := Pot g + paid a amount g, CurrentBet := bet_after a amount g,
       LastRaisePos := raiser_after a amount g, MinRaise := min_raise_after a amount g\<rparr>"

fun next_phase :: "GamePhase \<Rightarrow> GamePhase" where
  "next_phase PreFlop = Flop"
| "next_phase Flop = Turn"
| "next_phase Turn = River"
| "next_phase River = Showdown"
| "next_phase Showdown = Showdown"

definition closes :: "GameState \<Rightarrow> bool" where
  "closes g =
     (next_active (Players g) (CurrentPos g) = LastRaisePos g \<or> countActivePlayers g \<le> 1)"

section \<open>The switch computes the rules\<close>

lemma PlaceBet_pays: "x \<le> Chips p \<Longrightarrow> snd (PlaceBet x p) = pays x p"
  by (simp add: PlaceBet_accept pays_def)

lemma pays_fields [simp]:
  "PBet (pays x p) = PBet p + x"
  "Chips (pays x p) = Chips p - x"
  "Status (pays x p) = (if Chips p = x then AllInStatus else Status p)"
  "PCards (pays x p) = PCards p"
  "ID (pays x p) = ID p"
  "Name (pays x p) = Name p"
  "Position (pays x p) = Position p"
  by (simp_all add: pays_def)

lemma Player_Fold_eq: "Player_Fold p = p\<lparr>Status := Folded\<rparr>"
  by (simp add: Player_Fold_def)

lemma action_switch_illegal:
  "\<not> legal a amount g \<Longrightarrow> action_switch a amount g (current g) = None"
  by (cases a) (auto simp: Let_def)

lemma action_switch_legal:
  assumes "legal a amount g" and "in_range (Players g) (CurrentPos g)"
  shows "action_switch a amount g (current g) = Some (apply_action a amount g)"
proof (cases a)
  case Check
  with assms show ?thesis
    by (simp add: apply_action_def current_def)
next
  case AllIn
  then show ?thesis
    by (simp add: apply_action_def Let_def set_current_def PlaceBet_pays all_in_raises_def)
qed (use assms in \<open>simp_all add: apply_action_def Let_def set_current_def PlaceBet_pays
       Player_Fold_eq\<close>)

section \<open>The whole action\<close>

lemma wf_game_current: "wf_game g \<Longrightarrow> go_index (Players g) (CurrentPos g) = Inr (current g)"
  by (simp add: wf_game_def current_def)

lemma ProcessAction_eq:
  assumes "wf_game g"
  shows "ProcessAction a amount g =
           (if legal a amount g then next_seat (apply_action a amount g) else Inr (False, g))"
  using assms wf_game_current [OF assms]
  by (simp add: ProcessAction_def action_switch_illegal action_switch_legal wf_game_def)

lemma apply_action_frame [simp]:
  "length (Players (apply_action a amount g)) = length (Players g)"
  "CurrentPos (apply_action a amount g) = CurrentPos g"
  "DealerPos (apply_action a amount g) = DealerPos g"
  "CurrentPhase (apply_action a amount g) = CurrentPhase g"
  "Deck (apply_action a amount g) = Deck g"
  "CommunityCards (apply_action a amount g) = CommunityCards g"
  "Pot (apply_action a amount g) = Pot g + paid a amount g"
  "LastRaisePos (apply_action a amount g) = raiser_after a amount g"
  "CurrentBet (apply_action a amount g) = bet_after a amount g"
  "MinRaise (apply_action a amount g) = min_raise_after a amount g"
  by (simp_all add: apply_action_def)

lemma next_seat_eq:
  assumes "in_range (Players g) (CurrentPos g)"
  shows "next_seat g =
     (let g1 = g\<lparr>CurrentPos := next_active (Players g) (CurrentPos g)\<rparr>
      in if closes g then bindR (advancePhase g1) (\<lambda>g2. Inr (True, g2)) else Inr (True, g1))"
  using assms
  by (simp add: next_seat_def findNextActivePosition_returns Let_def closes_def)

lemma advancePhase_phase:
  "advancePhase g = Inr g' \<Longrightarrow> CurrentPhase g' = next_phase (CurrentPhase g)"
  by (drule advancePhase_cases) (auto dest: enter_street_frame(9))

lemma next_seat_phase:
  assumes "next_seat g = Inr (ok, g')" and "in_range (Players g) (CurrentPos g)"
  shows "CurrentPhase g' = (if closes g then next_phase (CurrentPhase g) else CurrentPhase g)"
  using assms(1) unfolding next_seat_eq [OF assms(2)]
  by (auto simp: Let_def bindR_eq_Inr_iff dest: advancePhase_phase split: if_splits)

lemma next_seat_open:
  assumes "in_range (Players g) (CurrentPos g)" and "\<not> closes g"
  shows "next_seat g = Inr (True, g\<lparr>CurrentPos := next_active (Players g) (CurrentPos g)\<rparr>)"
  using assms by (simp add: next_seat_eq Let_def)

lemma GamePhase_int_next_phase:
  "GamePhase_int (next_phase ph) = min 4 (GamePhase_int ph + 1)"
  by (cases ph) simp_all

lemma ProcessAction_phase_aux:
  assumes "ProcessAction a amount g = Inr (ok, g')" and "wf_game g"
  shows "CurrentPhase g' =
     (if legal a amount g \<and> closes (apply_action a amount g)
      then next_phase (CurrentPhase g) else CurrentPhase g)"
proof (cases "legal a amount g")
  case True
  with assms have ns: "next_seat (apply_action a amount g) = Inr (ok, g')"
    by (simp add: ProcessAction_eq)
  from assms(2) have "in_range (Players (apply_action a amount g)) (CurrentPos (apply_action a amount g))"
    by (simp add: wf_game_def in_range_def go_len_def)
  from next_seat_phase [OF ns this] True show ?thesis by simp
next
  case False
  with assms show ?thesis by (simp add: ProcessAction_eq)
qed

lemma current_in_set: "wf_game g \<Longrightarrow> current g \<in> set (Players g)"
  by (auto simp: wf_game_def current_def in_range_def go_len_def intro!: nth_mem)

lemma ProcessAction_new_phase:
  assumes wf: "wf_game g" and r: "ProcessAction a amount g = Inr (ok, g1)"
    and ph: "CurrentPhase g1 \<noteq> CurrentPhase g"
  shows "legal a amount g \<and>
         advancePhase ((apply_action a amount g)
           \<lparr>CurrentPos := next_active (Players (apply_action a amount g)) (CurrentPos g)\<rparr>) =
           Inr g1"
proof -
  let ?g = "apply_action a amount g"
  from ProcessAction_phase_aux [OF r wf] ph have l: "legal a amount g" and c: "closes ?g"
    by (auto split: if_splits)
  from wf have "in_range (Players ?g) (CurrentPos ?g)"
    by (simp add: wf_game_def in_range_def go_len_def)
  from next_seat_eq [OF this] c r wf l show ?thesis
    by (auto simp: ProcessAction_eq Let_def bindR_eq_Inr_iff)
qed

lemma ProcessAction_legal_aux:
  assumes wf: "wf_game g" and l: "legal a amount g"
  shows "\<exists>g'. ProcessAction a amount g = Inr (True, g') \<and>
           Players g' = go_update (Players g) (CurrentPos g) (seat_after a amount g) \<and>
           Pot g' = Pot g + paid a amount g \<and> MinRaise g' = min_raise_after a amount g"
proof -
  from ProcessAction_returns_aux [OF wf, of a amount]
  obtain ok g' where r: "ProcessAction a amount g = Inr (ok, g')"
    by (auto simp: returns_iff)
  with wf l have ns: "next_seat (apply_action a amount g) = Inr (ok, g')"
    by (simp add: ProcessAction_eq)
  from next_seat_frame(1,2,6,7) [OF ns] r show ?thesis
    by (simp add: apply_action_def)
qed

lemma ProcessAction_illegal_aux:
  "wf_game g \<Longrightarrow> \<not> legal a amount g \<Longrightarrow> ProcessAction a amount g = Inr (False, g)"
  by (simp add: ProcessAction_eq)

lemma seat_after_PBet:
  "PBet (seat_after a amount g) = PBet (current g) + paid a amount g"
  "Chips (seat_after a amount g) = Chips (current g) - paid a amount g"
  by (cases a; simp)+

lemma closes_without_raiser:
  assumes wf: "wf_game g" and "raiser_after a amount g = - 1"
  shows "closes (apply_action a amount g) \<longleftrightarrow> countActivePlayers (apply_action a amount g) \<le> 1"
proof -
  let ?g1 = "apply_action a amount g"
  from wf have "in_range (Players ?g1) (CurrentPos ?g1)"
    by (simp add: wf_game_def in_range_def go_len_def)
  then have "in_range (Players ?g1) (next_active (Players ?g1) (CurrentPos ?g1))"
    by (rule next_active_in_range)
  then have "next_active (Players ?g1) (CurrentPos ?g1) \<noteq> - 1"
    by (auto simp: in_range_def)
  with assms(2) show ?thesis by (simp add: closes_def)
qed

text \<open>
  C3 (refinement). On a well-formed table the result of \<open>ProcessAction\<close> is \<open>true\<close> exactly
  for the actions the rules accept: a fold and an all-in always, a check when nothing is
  to be matched, a call and a raise when the stack covers them, a bet when no bet is open
  and it is at least the big blind, a raise when it is at least the minimum raise. A
  refused action leaves the table as it was.
\<close>

theorem ProcessAction_accepts_exactly_legal:
  assumes "wf_game g"
  shows "\<exists>g'. ProcessAction a amount g = Inr (legal a amount g, g') \<and>
           (\<not> legal a amount g \<longrightarrow> g' = g)"
proof (cases "legal a amount g")
  case True
  with ProcessAction_legal_aux [OF assms True] show ?thesis by auto
next
  case False
  with ProcessAction_illegal_aux [OF assms False] show ?thesis by simp
qed

theorem ProcessAction_accepts_exactly_legal_witness:
  "wf_game sample_table \<and>
   ProcessAction Raise 5 sample_table = Inr (False, sample_table) \<and>
   (\<exists>g'. ProcessAction Raise 20 sample_table = Inr (True, g'))"
proof -
  have "\<not> legal Raise 5 sample_table" "legal Raise 20 sample_table"
    by (simp_all add: sample_defs current_def)
  with ProcessAction_accepts_exactly_legal [OF wf_sample_table, of Raise 5]
    ProcessAction_accepts_exactly_legal [OF wf_sample_table, of Raise 20]
  show ?thesis by auto
qed

text \<open>
  C5 (functional). An accepted action moves \<open>paid\<close> chips from the stack of the seat that
  acts to its bet and adds the same amount to the pot; the seat folds on a fold and
  becomes all-in when its stack reaches zero; no other seat changes.
\<close>

theorem ProcessAction_moves_the_chips:
  assumes "wf_game g" and "legal a amount g"
  shows "\<exists>g'. ProcessAction a amount g = Inr (True, g') \<and>
           Players g' = go_update (Players g) (CurrentPos g) (seat_after a amount g) \<and>
           Pot g' = Pot g + paid a amount g \<and>
           PBet (seat_after a amount g) = PBet (current g) + paid a amount g \<and>
           Chips (seat_after a amount g) = Chips (current g) - paid a amount g"
  using ProcessAction_legal_aux [OF assms] by (auto simp: seat_after_PBet)

theorem ProcessAction_moves_the_chips_witness:
  "wf_game sample_table \<and> legal Raise 20 sample_table \<and>
   (\<exists>g'. ProcessAction Raise 20 sample_table = Inr (True, g') \<and>
      Players g' = go_update (Players sample_table) (CurrentPos sample_table)
        (seat_after Raise 20 sample_table) \<and>
      Pot g' = 20 \<and> PBet (seat_after Raise 20 sample_table) = 20 \<and>
      Chips (seat_after Raise 20 sample_table) = 980)"
proof -
  have l: "legal Raise 20 sample_table"
    by (simp add: sample_defs current_def)
  have v: "paid Raise 20 sample_table = 20" "Pot sample_table = 0"
    "PBet (seat_after Raise 20 sample_table) = 20" "Chips (seat_after Raise 20 sample_table) = 980"
    by (simp_all add: sample_defs current_def)
  from ProcessAction_moves_the_chips [OF wf_sample_table l] l v show ?thesis
    by auto
qed

text \<open>
  C11 (safety). An action never moves the hand back to an earlier street and never skips
  one: the phase stays, or becomes the next one, and it becomes the next one exactly when
  the action is accepted and closes the betting round.
\<close>

theorem ProcessAction_phase_moves_forward:
  assumes "ProcessAction a amount g = Inr (ok, g')" and "wf_game g"
  shows "CurrentPhase g' =
           (if legal a amount g \<and> closes (apply_action a amount g)
            then next_phase (CurrentPhase g) else CurrentPhase g) \<and>
         GamePhase_int (CurrentPhase g) \<le> GamePhase_int (CurrentPhase g') \<and>
         GamePhase_int (CurrentPhase g') \<le> GamePhase_int (CurrentPhase g) + 1"
  using ProcessAction_phase_aux [OF assms]
  by (cases "CurrentPhase g") (simp_all add: GamePhase_int_next_phase)

theorem ProcessAction_phase_moves_forward_witness:
  "wf_game sample_table \<and>
   (\<exists>ok g'. ProcessAction Raise 20 sample_table = Inr (ok, g') \<and>
      GamePhase_int (CurrentPhase sample_table) \<le> GamePhase_int (CurrentPhase g') \<and>
      GamePhase_int (CurrentPhase g') \<le> GamePhase_int (CurrentPhase sample_table) + 1)"
proof -
  from ProcessAction_returns_aux [OF wf_sample_table, of Raise 20]
  obtain ok g' where r: "ProcessAction Raise 20 sample_table = Inr (ok, g')"
    by (auto simp: returns_iff)
  from wf_sample_table r ProcessAction_phase_moves_forward [OF r wf_sample_table, THEN conjunct2]
  show ?thesis by blast
qed

text \<open>
  C27 (liveness). A betting round in which nobody has bet or raised does not end by
  checks, calls and folds: as long as two seats stay active, the phase, the current bet
  and the missing aggressor stay as they are, however often the action goes round.
\<close>

theorem round_without_raiser_stays_open:
  assumes "wf_game g" and "LastRaisePos g = - 1" and "a = Fold \<or> a = Check \<or> a = Call"
    and "legal a amount g" and "1 < countActivePlayers (apply_action a amount g)"
  shows "\<exists>g'. ProcessAction a amount g = Inr (True, g') \<and> CurrentPhase g' = CurrentPhase g \<and>
           LastRaisePos g' = - 1 \<and> CurrentBet g' = CurrentBet g"
proof -
  let ?g1 = "apply_action a amount g"
  from assms(2,3) have lr: "raiser_after a amount g = - 1" and cb: "bet_after a amount g = CurrentBet g"
    by auto
  from assms(5) closes_without_raiser [OF assms(1) lr] have "\<not> closes ?g1" by simp
  moreover from assms(1) have "in_range (Players ?g1) (CurrentPos ?g1)"
    by (simp add: wf_game_def in_range_def go_len_def)
  ultimately have "next_seat ?g1 = Inr (True, ?g1\<lparr>CurrentPos := next_active (Players ?g1) (CurrentPos ?g1)\<rparr>)"
    by (simp add: next_seat_open)
  with assms(1,4) lr cb show ?thesis by (simp add: ProcessAction_eq)
qed

theorem round_without_raiser_stays_open_witness:
  "wf_game sample_table \<and> LastRaisePos sample_table = - 1 \<and> legal Check 0 sample_table \<and>
   1 < countActivePlayers (apply_action Check 0 sample_table) \<and>
   (\<exists>g'. ProcessAction Check 0 sample_table = Inr (True, g') \<and>
      CurrentPhase g' = CurrentPhase sample_table \<and> LastRaisePos g' = - 1 \<and>
      CurrentBet g' = CurrentBet sample_table)"
proof -
  have a: "LastRaisePos sample_table = - 1" "legal Check 0 sample_table"
    "1 < countActivePlayers (apply_action Check 0 sample_table)"
    by (simp_all add: sample_defs current_def apply_action_def countActivePlayers_def
        go_update_def IsActive_def)
  from round_without_raiser_stays_open [of sample_table Check 0] a
  show ?thesis by simp
qed

text \<open>
  C38 (functional). An all-in above the current bet makes the seat the aggressor, and the
  minimum raise becomes the whole stack the seat pushed in, not the amount by which the
  bet went up.
\<close>

theorem all_in_sets_min_raise_to_stack:
  assumes "wf_game g" and "all_in_raises g"
  shows "\<exists>g'. ProcessAction AllIn amount g = Inr (True, g') \<and> MinRaise g' = Chips (current g) \<and>
           Chips (seat_after AllIn amount g) = 0"
  using ProcessAction_legal_aux [OF assms(1), of AllIn amount] assms(2) by auto

theorem all_in_sets_min_raise_to_stack_witness:
  "wf_game sample_table \<and> all_in_raises sample_table \<and>
   (\<exists>g'. ProcessAction AllIn 0 sample_table = Inr (True, g') \<and> MinRaise g' = 1000)"
proof -
  have a: "all_in_raises sample_table" "Chips (current sample_table) = 1000"
    by (simp_all add: all_in_raises_def current_def sample_defs)
  from all_in_sets_min_raise_to_stack [OF wf_sample_table a(1), of 0] a show ?thesis
    by auto
qed

end
