(* ===== verification/Game_UI.thy ===== *)
theory Game_UI
  imports Game_Phase "HOL-Library.Word"
begin

text \<open>
  The controller (\<open>src/pkg/ui/game_ui.go\<close>) and the states the program reaches.

  \<^item> \<open>Theme\<close> is the struct of the six colours (\<open>NRGBA\<close>, four bytes each) and \<open>NewTheme\<close>
    its constructor; the embedded theme of the toolkit is never read and left out.
  \<^item> \<open>GameUI\<close> is the struct: the theme, the table (a value here; \<open>Program_Model\<close> has
    the pointer), the amount of the next bet and the size of the window. Its six
    buttons and its slider are what one frame reports, \<open>Clicks\<close>: which buttons were
    clicked, and the slider as the function that scales a stack
    (\<open>int(slider * float32(chips))\<close> in the source).
  \<^item> \<open>NewGameUI\<close> and \<open>SetWindowSize\<close> are the functions of these names.
    \<open>handleButtonClicks\<close> is the method of that name: one \<open>ProcessAction\<close> per clicked
    button, in the order of the source, then the new amount, raised to the big blind.
  \<^item> \<open>table_inv\<close> collects the invariants of a table; \<open>reachable\<close> are the states of the
    window: the first hand of \<open>run\<close> (\<open>src/cmd/poker/main.go\<close>), and per frame one
    \<open>SetWindowSize\<close> and one \<open>handleButtonClicks\<close> (at the end of \<open>Layout\<close>).
  \<^item> The lemmas show that every reachable state satisfies the invariants, holds the 4000
    chips the four seats brought, and that no frame panics.
\<close>

section \<open>The controller\<close>

record Clicks =
  foldClicked :: bool
  checkClicked :: bool
  callClicked :: bool
  betClicked :: bool
  raiseClicked :: bool
  allInClicked :: bool
  sliderAmount :: "int \<Rightarrow> int"

type_synonym Point = "int \<times> int"

record NRGBA =
  ColR :: "8 word"
  ColG :: "8 word"
  ColB :: "8 word"
  ColA :: "8 word"

record Theme =
  CardBack :: NRGBA
  CardFront :: NRGBA
  TableColor :: NRGBA
  ButtonColor :: NRGBA
  PlayerColor :: NRGBA
  ActivePlayer :: NRGBA

definition NewTheme :: Theme where
  "NewTheme =
     \<lparr>CardBack = \<lparr>ColR = 0x20, ColG = 0x20, ColB = 0x80, ColA = 0xFF\<rparr>,
      CardFront = \<lparr>ColR = 0xFF, ColG = 0xFF, ColB = 0xFF, ColA = 0xFF\<rparr>,
      TableColor = \<lparr>ColR = 0x00, ColG = 0x80, ColB = 0x40, ColA = 0xFF\<rparr>,
      ButtonColor = \<lparr>ColR = 0x30, ColG = 0x30, ColB = 0x30, ColA = 0xFF\<rparr>,
      PlayerColor = \<lparr>ColR = 0x40, ColG = 0x40, ColB = 0x40, ColA = 0xFF\<rparr>,
      ActivePlayer = \<lparr>ColR = 0x60, ColG = 0x60, ColB = 0x00, ColA = 0xFF\<rparr>\<rparr>"

record GameUI =
  theme :: Theme
  gameState :: GameState
  betAmount :: int
  windowSize :: Point

definition NewGameUI :: "Theme \<Rightarrow> GameState \<Rightarrow> GameUI" where
  "NewGameUI th g = \<lparr>theme = th, gameState = g, betAmount = BigBlind g, windowSize = (0, 0)\<rparr>"

definition SetWindowSize :: "Point \<Rightarrow> GameUI \<Rightarrow> GameUI" where
  "SetWindowSize sz ui = ui\<lparr>windowSize := sz\<rparr>"

definition on_click :: "bool \<Rightarrow> PlayerAction \<Rightarrow> int \<Rightarrow> GameState \<Rightarrow> GameState result" where
  "on_click clicked a amount g =
     (if clicked then bindR (ProcessAction a amount g) (\<lambda>r. Inr (snd r)) else Inr g)"

definition handleButtonClicks :: "Clicks \<Rightarrow> GameUI \<Rightarrow> GameUI result" where
  "handleButtonClicks c ui =
     bindR (on_click (foldClicked c) Fold 0 (gameState ui)) (\<lambda>g1.
     bindR (on_click (checkClicked c) Check 0 g1) (\<lambda>g2.
     bindR (on_click (callClicked c) Call 0 g2) (\<lambda>g3.
     bindR (on_click (betClicked c) Bet (betAmount ui) g3) (\<lambda>g4.
     bindR (on_click (raiseClicked c) Raise (betAmount ui) g4) (\<lambda>g5.
     bindR (on_click (allInClicked c) AllIn 0 g5) (\<lambda>g6.
     bindR (GetCurrentPlayer g6) (\<lambda>player.
       let b = sliderAmount c (Chips player)
       in Inr (ui\<lparr>gameState := g6,
                  betAmount := (if b < BigBlind g6 then BigBlind g6 else b)\<rparr>))))))))"

section \<open>The invariants of a table\<close>

definition table_inv :: "GameState \<Rightarrow> bool" where
  "table_inv g = (wf_game g \<and> money_ok g \<and> board_ok g \<and> distinct (all_cards g))"

definition same_table :: "GameState \<Rightarrow> GameState \<Rightarrow> bool" where
  "same_table g g' =
     (in_play g' = in_play g \<and> length (Players g') = length (Players g) \<and>
      BigBlind g' = BigBlind g \<and> SmallBlind g' = SmallBlind g \<and> DealerPos g' = DealerPos g)"

definition pot_gap :: "GameState \<Rightarrow> int" where
  "pot_gap g = Pot g - total_bets g"

inductive reachable :: "GameUI \<Rightarrow> bool" where
  init: "first_hand rnd = Inr g \<Longrightarrow> reachable (NewGameUI NewTheme g)"
| resize: "reachable ui \<Longrightarrow> reachable (SetWindowSize sz ui)"
| frame: "reachable ui \<Longrightarrow> handleButtonClicks c ui = Inr ui' \<Longrightarrow> reachable ui'"

lemma same_table_refl [simp]: "same_table g g"
  by (simp add: same_table_def)

lemma same_table_trans: "same_table g g' \<Longrightarrow> same_table g' g'' \<Longrightarrow> same_table g g''"
  by (simp add: same_table_def)

lemma ProcessAction_table_inv:
  assumes "table_inv g"
  shows "\<exists>ok g'. ProcessAction a amount g = Inr (ok, g') \<and> table_inv g' \<and> same_table g g' \<and>
           pot_gap g' = pot_gap g"
proof -
  from assms have wf: "wf_game g" by (simp add: table_inv_def)
  from ProcessAction_returns_aux [OF wf, of a amount]
  obtain ok g' where r: "ProcessAction a amount g = Inr (ok, g')"
    by (auto simp: returns_iff)
  from assms have "table_inv g'"
    using ProcessAction_wf_aux [OF r] ProcessAction_money_ok_aux [OF r]
      board_ok_ProcessAction_aux [OF r] all_cards_ProcessAction_aux [OF r]
    by (auto simp: table_inv_def intro: distinct_if_mset_subseteq)
  moreover have "same_table g g'"
    using ProcessAction_accounts_aux(1) [OF r] ProcessAction_frame [OF r]
    by (simp add: same_table_def)
  moreover have "pot_gap g' = pot_gap g"
    using ProcessAction_accounts_aux(2) [OF r] by (simp add: pot_gap_def)
  ultimately show ?thesis using r by blast
qed

lemma on_click_table_inv:
  assumes "table_inv g"
  shows "\<exists>g'. on_click clicked a amount g = Inr g' \<and> table_inv g' \<and> same_table g g' \<and>
           pot_gap g' = pot_gap g"
proof (cases clicked)
  case True
  with ProcessAction_table_inv [OF assms, of a amount] show ?thesis
    by (auto simp: on_click_def)
next
  case False
  with assms show ?thesis by (simp add: on_click_def)
qed

lemma handleButtonClicks_table_inv:
  assumes "table_inv (gameState ui)"
  shows "\<exists>ui'. handleButtonClicks c ui = Inr ui' \<and> table_inv (gameState ui') \<and>
           same_table (gameState ui) (gameState ui') \<and>
           Pot (gameState ui') - total_bets (gameState ui') =
             Pot (gameState ui) - total_bets (gameState ui) \<and>
           BigBlind (gameState ui') \<le> betAmount ui'"
proof -
  note step = on_click_table_inv
  from step [OF assms] obtain g1 where
    1: "on_click (foldClicked c) Fold 0 (gameState ui) = Inr g1" "table_inv g1"
      "same_table (gameState ui) g1" "pot_gap g1 = pot_gap (gameState ui)" by blast
  from step [OF 1(2)] obtain g2 where
    2: "on_click (checkClicked c) Check 0 g1 = Inr g2" "table_inv g2" "same_table g1 g2"
      "pot_gap g2 = pot_gap g1" by blast
  from step [OF 2(2)] obtain g3 where
    3: "on_click (callClicked c) Call 0 g2 = Inr g3" "table_inv g3" "same_table g2 g3"
      "pot_gap g3 = pot_gap g2" by blast
  from step [OF 3(2)] obtain g4 where
    4: "on_click (betClicked c) Bet (betAmount ui) g3 = Inr g4" "table_inv g4" "same_table g3 g4"
      "pot_gap g4 = pot_gap g3" by blast
  from step [OF 4(2)] obtain g5 where
    5: "on_click (raiseClicked c) Raise (betAmount ui) g4 = Inr g5" "table_inv g5"
      "same_table g4 g5" "pot_gap g5 = pot_gap g4" by blast
  from step [OF 5(2)] obtain g6 where
    6: "on_click (allInClicked c) AllIn 0 g5 = Inr g6" "table_inv g6" "same_table g5 g6"
      "pot_gap g6 = pot_gap g5" by blast
  from 6(2) have cur: "GetCurrentPlayer g6 = Inr (current g6)"
    by (simp add: GetCurrentPlayer_def table_inv_def wf_game_current)
  have same: "same_table (gameState ui) g6"
    using 1(3) 2(3) 3(3) 4(3) 5(3) 6(3) by (blast intro: same_table_trans)
  have gap: "pot_gap g6 = pot_gap (gameState ui)"
    using 1(4) 2(4) 3(4) 4(4) 5(4) 6(4) by simp
  show ?thesis
    using 1(1) 2(1) 3(1) 4(1) 5(1) 6(1,2) cur same gap
    by (simp add: handleButtonClicks_def Let_def pot_gap_def)
qed

section \<open>The states the program reaches\<close>

lemma sample_table_values [simp]:
  "length (Players sample_table) = 4" "Players sample_table \<noteq> []"
  "BigBlind sample_table = 10" "SmallBlind sample_table = 5"
  "DealerPos sample_table = 0" "new_dealer sample_table = 1"
  "total_chips sample_table = 4000"
  by (simp_all add: total_chips_def new_dealer_def go_len_def sample_defs)

lemma first_hand_eq: "first_hand rnd = Inr (started rnd sample_table)"
  by (simp add: first_hand_def StartNewHand_eq)

lemma table_inv_first_hand: "table_inv (started rnd sample_table)"
proof -
  have "Players sample_table \<noteq> []" "length (Players sample_table) \<le> 22"
    "\<forall>p \<in> set (Players sample_table). 0 \<le> Chips p"
    "0 \<le> SmallBlind sample_table" "0 \<le> BigBlind sample_table"
    by (simp_all add: sample_defs)
  then show ?thesis
    by (simp add: table_inv_def wf_started money_ok_started board_ok_started
        distinct_all_cards_started)
qed

lemma first_hand_values:
  "in_play (started rnd sample_table) = 4000"
  "length (Players (started rnd sample_table)) = 4"
  "BigBlind (started rnd sample_table) = 10"
  "SmallBlind (started rnd sample_table) = 5"
  "DealerPos (started rnd sample_table) = 1"
  by (simp_all add: in_play_started)

lemma first_hand_blinds:
  "map PBet (after_bb sample_table) = [0, 0, 5, 10]"
  "map Chips (after_bb sample_table) = [1000, 1000, 995, 990]"
  "map Status (after_bb sample_table) = [Active, Active, Active, Active]"
  "sb_seat sample_table = 2" "bb_seat sample_table = 3"
  "next_active (after_bb sample_table) (bb_seat sample_table) = 0"
  by code_simp+

lemma first_hand_pot_gap: "pot_gap (started rnd sample_table) = - 15"
  by (simp add: pot_gap_def total_bets_def first_hand_blinds)

definition program_inv :: "GameUI \<Rightarrow> bool" where
  "program_inv ui =
     (table_inv (gameState ui) \<and> in_play (gameState ui) = 4000 \<and>
      length (Players (gameState ui)) = 4 \<and> BigBlind (gameState ui) = 10 \<and>
      SmallBlind (gameState ui) = 5 \<and> DealerPos (gameState ui) = 1 \<and>
      pot_gap (gameState ui) = - 15 \<and> BigBlind (gameState ui) \<le> betAmount ui)"

lemma program_inv_init: "program_inv (NewGameUI NewTheme (started rnd sample_table))"
  by (simp add: program_inv_def NewGameUI_def table_inv_first_hand first_hand_values
      first_hand_pot_gap)

lemma program_inv_frame:
  assumes "program_inv ui" and "handleButtonClicks c ui = Inr ui'"
  shows "program_inv ui'"
proof -
  from assms(1) have "table_inv (gameState ui)" by (simp add: program_inv_def)
  from handleButtonClicks_table_inv [OF this, of c] assms show ?thesis
    by (auto simp: program_inv_def same_table_def pot_gap_def)
qed

lemma reachable_program_inv: "reachable ui \<Longrightarrow> program_inv ui"
proof (induction rule: reachable.induct)
  case (init rnd g)
  then show ?case by (auto simp: first_hand_eq program_inv_init)
next
  case (resize ui sz)
  then show ?case by (simp add: program_inv_def SetWindowSize_def)
next
  case (frame ui c ui')
  then show ?case by (auto intro: program_inv_frame)
qed

lemma table_inv_sample_table [simp]: "table_inv sample_table"
  by (simp add: table_inv_def money_ok_def distinct_NewDeck_aux) (simp add: sample_defs)

definition sample_started :: GameState where
  "sample_started = started (\<lambda>i. i) sample_table"

lemma reachable_first_hand: "reachable (NewGameUI NewTheme (started rnd sample_table))"
  by (rule reachable.init) (rule first_hand_eq)

text \<open>
  C24 (safety). A frame of the controller does not panic on a table that satisfies the
  invariants, whichever buttons were clicked: the table it leaves satisfies them again,
  holds the same chips, and the amount of the next bet is at least the big blind.
\<close>

theorem handleButtonClicks_safe:
  assumes "table_inv (gameState ui)"
  shows "\<exists>ui'. handleButtonClicks c ui = Inr ui' \<and> table_inv (gameState ui') \<and>
           in_play (gameState ui') = in_play (gameState ui) \<and>
           BigBlind (gameState ui') \<le> betAmount ui'"
  using handleButtonClicks_table_inv [OF assms, of c] by (auto simp: same_table_def)

theorem handleButtonClicks_safe_witness:
  "table_inv (gameState (NewGameUI NewTheme sample_table)) \<and>
   (\<exists>ui'. handleButtonClicks
       \<lparr>foldClicked = True, checkClicked = True, callClicked = False, betClicked = True,
        raiseClicked = False, allInClicked = True, sliderAmount = (\<lambda>chips. chips div 2)\<rparr>
       (NewGameUI NewTheme sample_table) = Inr ui' \<and>
      table_inv (gameState ui') \<and>
      in_play (gameState ui') = in_play (gameState (NewGameUI NewTheme sample_table)) \<and>
      BigBlind (gameState ui') \<le> betAmount ui')"
proof -
  have "table_inv (gameState (NewGameUI NewTheme sample_table))"
    by (simp add: NewGameUI_def)
  with handleButtonClicks_safe [of "NewGameUI NewTheme sample_table"] show ?thesis by blast
qed

text \<open>
  C1 (invariant). Every state the program reaches (the first hand that \<open>run\<close> starts at
  the table of four seats with 1000 chips each, then any number of frames with any
  clicks and any window sizes) is well formed, has no negative stack or bet, no duplicate card, a board of the
  size of its street, four seats, and exactly the 4000 chips the seats brought.
\<close>

theorem reachable_invariant:
  assumes "reachable ui"
  shows "table_inv (gameState ui) \<and> in_play (gameState ui) = 4000 \<and>
         length (Players (gameState ui)) = 4 \<and> 10 \<le> betAmount ui"
  using reachable_program_inv [OF assms] by (simp add: program_inv_def)

theorem reachable_invariant_witness:
  "reachable (NewGameUI NewTheme (started (\<lambda>i. i) sample_table)) \<and>
   table_inv (gameState (NewGameUI NewTheme (started (\<lambda>i. i) sample_table))) \<and>
   in_play (gameState (NewGameUI NewTheme (started (\<lambda>i. i) sample_table))) = 4000 \<and>
   length (Players (gameState (NewGameUI NewTheme (started (\<lambda>i. i) sample_table)))) = 4 \<and>
   10 \<le> betAmount (NewGameUI NewTheme (started (\<lambda>i. i) sample_table))"
  using reachable_invariant [OF reachable_first_hand [of "\<lambda>i. i"]] reachable_first_hand [of "\<lambda>i. i"]
  by simp

text \<open>
  C10 (safety). The program never panics in the engine: from every state it reaches,
  every frame returns, and the state it returns is reachable again.
\<close>

theorem program_never_panics:
  assumes "reachable ui"
  shows "\<exists>ui'. handleButtonClicks c ui = Inr ui' \<and> reachable ui'"
proof -
  from reachable_program_inv [OF assms] have "table_inv (gameState ui)"
    by (simp add: program_inv_def)
  from handleButtonClicks_table_inv [OF this, of c] obtain ui' where
    "handleButtonClicks c ui = Inr ui'" by blast
  with assms show ?thesis by (blast intro: reachable.frame)
qed

theorem program_never_panics_witness:
  "reachable (NewGameUI NewTheme (started (\<lambda>i. i) sample_table)) \<and>
   (\<exists>ui'. handleButtonClicks
       \<lparr>foldClicked = False, checkClicked = False, callClicked = True, betClicked = False,
        raiseClicked = True, allInClicked = False, sliderAmount = (\<lambda>chips. chips div 2)\<rparr>
       (NewGameUI NewTheme (started (\<lambda>i. i) sample_table)) = Inr ui' \<and> reachable ui')"
  using program_never_panics [OF reachable_first_hand [of "\<lambda>i. i"]]
    reachable_first_hand [of "\<lambda>i. i"]
  by blast

text \<open>
  C28 (safety). The blinds never reach the pot: in every state the program reaches the
  pot is 15 chips (the small and the big blind) short of what the seats have bet.
\<close>

theorem blinds_never_reach_the_pot:
  assumes "reachable ui"
  shows "Pot (gameState ui) = total_bets (gameState ui) - 15"
  using reachable_program_inv [OF assms] by (simp add: program_inv_def pot_gap_def)

theorem blinds_never_reach_the_pot_witness:
  "reachable (NewGameUI NewTheme (started (\<lambda>i. i) sample_table)) \<and>
   Pot (gameState (NewGameUI NewTheme (started (\<lambda>i. i) sample_table))) = 0 \<and>
   total_bets (gameState (NewGameUI NewTheme (started (\<lambda>i. i) sample_table))) = 15"
  using blinds_never_reach_the_pot [OF reachable_first_hand [of "\<lambda>i. i"]]
    reachable_first_hand [of "\<lambda>i. i"]
  by (simp add: NewGameUI_def)

lemma holdings_le_in_play:
  assumes "money_ok g" and "p \<in> set (Players g)"
  shows "holdings p \<le> in_play g"
proof -
  from assms(1) have "\<forall>q \<in> set (Players g). 0 \<le> holdings q"
    by (simp add: money_ok_def holdings_def)
  from sum_list_nonneg_le [OF this assms(2)] show ?thesis by (simp add: in_play_def)
qed

lemma reachable_bounds_aux:
  assumes "reachable ui" and "p \<in> set (Players (gameState ui))"
  shows "0 \<le> Chips p \<and> Chips p \<le> 4000 \<and> 0 \<le> PBet p \<and> PBet p \<le> 4000 \<and>
         - 15 \<le> Pot (gameState ui) \<and> Pot (gameState ui) \<le> 3985"
proof -
  let ?g = "gameState ui"
  from reachable_program_inv [OF assms(1)] have m: "money_ok ?g" and i: "in_play ?g = 4000"
    and gap: "Pot ?g = total_bets ?g - 15"
    by (simp_all add: program_inv_def table_inv_def pot_gap_def)
  from m assms(2) have nn: "0 \<le> Chips p" "0 \<le> PBet p" by (simp_all add: money_ok_def)
  from holdings_le_in_play [OF m assms(2)] i have h: "Chips p + PBet p \<le> 4000"
    by (simp add: holdings_def)
  from m have "0 \<le> total_chips ?g" "0 \<le> total_bets ?g"
    by (auto simp: total_chips_def total_bets_def money_ok_def intro!: sum_list_nonneg)
  with i have "0 \<le> total_bets ?g" "total_bets ?g \<le> 4000" by (simp_all add: in_play_eq)
  with nn h gap show ?thesis by simp
qed

text \<open>
  C25 (bounds). In every state the program reaches, every stack and every bet is between
  0 and 4000 and the pot is between -15 and 3985: the numbers the engine computes with
  stay far inside the range of a Go \<open>int\<close>, which is why they are modelled as integers
  without a width.
\<close>

theorem reachable_amounts_bounded:
  assumes "reachable ui" and "p \<in> set (Players (gameState ui))"
  shows "0 \<le> Chips p \<and> Chips p \<le> 4000 \<and> 0 \<le> PBet p \<and> PBet p \<le> 4000 \<and>
         - 15 \<le> Pot (gameState ui) \<and> Pot (gameState ui) \<le> 3985"
  using assms by (rule reachable_bounds_aux)

theorem reachable_amounts_bounded_witness:
  "reachable (NewGameUI NewTheme sample_started) \<and>
   list_all (\<lambda>p. 0 \<le> Chips p \<and> Chips p \<le> 4000 \<and> 0 \<le> PBet p \<and> PBet p \<le> 4000)
     (Players (gameState (NewGameUI NewTheme sample_started))) \<and>
   Players (gameState (NewGameUI NewTheme sample_started)) \<noteq> [] \<and>
   - 15 \<le> Pot (gameState (NewGameUI NewTheme sample_started)) \<and>
   Pot (gameState (NewGameUI NewTheme sample_started)) \<le> 3985"
proof -
  have r: "reachable (NewGameUI NewTheme sample_started)"
    unfolding sample_started_def by (rule reachable_first_hand)
  have ne: "Players (gameState (NewGameUI NewTheme sample_started)) \<noteq> []"
    using length_0_conv [of "Players (started (\<lambda>i. i) sample_table)"]
    by (simp add: NewGameUI_def sample_started_def)
  then have q: "hd (Players (gameState (NewGameUI NewTheme sample_started)))
      \<in> set (Players (gameState (NewGameUI NewTheme sample_started)))"
    by (rule hd_in_set)
  from reachable_amounts_bounded [OF r q] reachable_amounts_bounded [OF r] r ne show ?thesis
    by (auto simp: list_all_iff)
qed

end
