(* ===== verification/Game_View.thy ===== *)
theory Game_View
  imports Game_UI
begin

text \<open>
  What the program draws (\<open>src/pkg/ui/game_ui.go\<close>, \<open>src/pkg/ui/player_ui.go\<close>).

  \<^item> A \<open>Scene\<close> is what a layout function contributes to a frame. Its leaves are the
    operations the source adds to \<open>gtx.Ops\<close> (\<open>FillShape\<close>, \<open>Offset\<close>, \<open>ColorOp\<close>,
    \<open>Label\<close>) and the widgets of the toolkit it lays out (\<open>Text\<close> for a
    \<open>material.H6\<close>, \<open>Body1\<close> or \<open>Body2\<close> label with the colour the source sets,
    \<open>Button\<close> with the \<open>Clickable\<close> it is bound to, \<open>Slider\<close>); its nodes are the
    containers \<open>layout.Inset\<close> and \<open>layout.Flex\<close> with their children in the order of
    the source, and \<open>Box\<close>: the operations of one function body with the
    \<open>layout.Dimensions\<close> it returns. The four numbers of an \<open>Inset\<close> are top, bottom,
    left and right. The \<open>op.Save\<close> and \<open>Load\<close> that bracket the body of
    \<open>PlayerUI.Layout\<close> are the \<open>Box\<close> of that body. How the toolkit turns containers
    into pixels is not part of the repository and not modelled. Lengths in \<open>unit.Dp\<close> and \<open>unit.Sp\<close>
    and the \<open>float32\<close> border widths are the whole numbers the source writes; the
    weights of \<open>layout.Flexed\<close> are in tenths.
  \<^item> Of the context \<open>gtx\<close> the source reads \<open>gtx.Constraints.Max\<close> only, in \<open>Layout\<close>;
    it is the argument \<open>max_size\<close> there.
  \<^item> \<open>string(rune(n))\<close>, which the source uses to show an amount, is \<open>string_of_rune
    (rune n)\<close>: \<open>rune\<close> converts to \<open>int32\<close> (a \<open>32 word\<close>, read as signed) and
    \<open>string_of_rune\<close> gives the UTF-8 bytes of that code point, or of \<open>U+FFFD\<close> when it
    is none, as the language specification says. \<open>Itoa\<close> is \<open>strconv.Itoa\<close>, the
    decimal numeral, for comparison.
  \<^item> \<open>Layout\<close> is the method of \<open>GameUI\<close>: the scene of the state before the clicks of
    the frame are handled, and the state \<open>handleButtonClicks\<close> leaves.
  \<^item> \<open>PlayerUI\<close> and its functions are the panel of \<open>player_ui.go\<close>, which the program
    never creates.
  \<^item> The closures that \<open>layoutCommunityCards\<close> and \<open>layoutPlayerCards\<close> hand to
    \<open>layout.Rigid\<close> are written out one by one, each with the test and the index the
    source gives it; \<open>slot\<close> and \<open>small_card\<close> are the rule they are compared with.
  \<^item> \<open>play_frames\<close> runs \<open>handleButtonClicks\<close> over the clicks of several frames; it
    builds the reachable state with a negative pot.
  \<^item> The lemmas show what a frame shows: five card slots filled from the left with the
    board, the texts and the buttons in their order, that the amounts are not shown
    as numbers, that in the states the program reaches the conversion to \<open>rune\<close> is
    exact and a negative pot is drawn as \<open>U+FFFD\<close>, and that \<open>Layout\<close> does not panic in
    a state the program reaches.
\<close>

section \<open>Converting an integer to a string\<close>

definition rune :: "int \<Rightarrow> int" where
  "rune n = sint (word_of_int n :: 32 word)"

definition valid_rune :: "int \<Rightarrow> bool" where
  "valid_rune r = (0 \<le> r \<and> r \<le> 0x10FFFF \<and> \<not> (0xD800 \<le> r \<and> r \<le> 0xDFFF))"

definition byte :: "int \<Rightarrow> char" where
  "byte i = char_of (nat i)"

definition EncodeRune :: "int \<Rightarrow> string" where
  "EncodeRune r =
     (if r < 0x80 then [byte r]
      else if r < 0x800 then [byte (0xC0 + r div 64), byte (0x80 + r mod 64)]
      else if r < 0x10000 then
        [byte (0xE0 + r div 4096), byte (0x80 + r div 64 mod 64), byte (0x80 + r mod 64)]
      else
        [byte (0xF0 + r div 262144), byte (0x80 + r div 4096 mod 64),
         byte (0x80 + r div 64 mod 64), byte (0x80 + r mod 64)])"

definition string_of_rune :: "int \<Rightarrow> string" where
  "string_of_rune r = EncodeRune (if valid_rune r then r else 0xFFFD)"

fun digits :: "nat \<Rightarrow> string" where
  "digits n =
     (if n < 10 then [char_of (48 + n)] else digits (n div 10) @ [char_of (48 + n mod 10)])"

definition Itoa :: "int \<Rightarrow> string" where
  "Itoa n = (if n < 0 then CHR ''-'' # digits (nat (- n)) else digits (nat n))"

section \<open>Scenes\<close>

record Rect =
  RectMin :: Point
  RectMax :: Point

datatype Axis = Horizontal | Vertical

datatype Spacing = SpaceStart | SpaceAround | SpaceEvenly

datatype Alignment = Start | Middle

datatype TextStyle = H6 | Body1 | Body2

datatype Clickable =
  foldButton | checkButton | callButton | betButton | raiseButton | allInButton

datatype Scene =
    FillShape NRGBA Rect
  | Offset Point
  | ColorOp NRGBA
  | Label int string
  | Text TextStyle "NRGBA option" string
  | Button Clickable string
  | Slider int int
  | Inset int int int int Scene
  | Rigid Scene
  | Flexed int Scene
  | Flex Axis Spacing Alignment "Scene list"
  | Box Point "Scene list"

fun texts :: "Scene \<Rightarrow> string list" where
  "texts (Label sp s) = [s]"
| "texts (Text st c s) = [s]"
| "texts (Button w s) = [s]"
| "texts (Inset t b l r x) = texts x"
| "texts (Rigid x) = texts x"
| "texts (Flexed w x) = texts x"
| "texts (Flex a sp al xs) = concat (map texts xs)"
| "texts (Box sz xs) = concat (map texts xs)"
| "texts x = []"

fun buttons :: "Scene \<Rightarrow> (Clickable \<times> string) list" where
  "buttons (Button w s) = [(w, s)]"
| "buttons (Inset t b l r x) = buttons x"
| "buttons (Rigid x) = buttons x"
| "buttons (Flexed w x) = buttons x"
| "buttons (Flex a sp al xs) = concat (map buttons xs)"
| "buttons (Box sz xs) = concat (map buttons xs)"
| "buttons x = []"

section \<open>The helper functions\<close>

definition paintRect :: "Point \<Rightarrow> NRGBA \<Rightarrow> Scene" where
  "paintRect sz col = FillShape col \<lparr>RectMin = (0, 0), RectMax = sz\<rparr>"

definition drawBorder :: "Point \<Rightarrow> NRGBA \<Rightarrow> int \<Rightarrow> Scene list" where
  "drawBorder sz col width =
     [FillShape col \<lparr>RectMin = (0, 0), RectMax = (fst sz, width)\<rparr>,
      FillShape col \<lparr>RectMin = (0, snd sz - width), RectMax = (fst sz, snd sz)\<rparr>,
      FillShape col \<lparr>RectMin = (0, 0), RectMax = (width, snd sz)\<rparr>,
      FillShape col \<lparr>RectMin = (fst sz - width, 0), RectMax = (fst sz, snd sz)\<rparr>]"

section \<open>The table\<close>

definition drawCard :: "GameUI \<Rightarrow> Card \<Rightarrow> Scene" where
  "drawCard ui c =
     (let sz = (80, 120);
          borderColor = \<lparr>ColR = 0, ColG = 0, ColB = 0, ColA = 255\<rparr>;
          textColor =
            (if Suit c = Hearts \<or> Suit c = Diamonds
             then \<lparr>ColR = 255, ColG = 0, ColB = 0, ColA = 255\<rparr>
             else \<lparr>ColR = 0, ColG = 0, ColB = 0, ColA = 255\<rparr>)
      in Box sz
           ([FillShape (CardFront (theme ui)) \<lparr>RectMin = (0, 0), RectMax = sz\<rparr>] @
            drawBorder sz borderColor 2 @
            [Offset (10, 30), ColorOp textColor, Label 20 (Card_String c)]))"

definition drawEmptyCard :: "GameUI \<Rightarrow> Scene" where
  "drawEmptyCard ui =
     (let sz = (80, 120);
          emptyColor = \<lparr>ColR = 200, ColG = 200, ColB = 200, ColA = 100\<rparr>
      in Box sz [FillShape emptyColor \<lparr>RectMin = (0, 0), RectMax = sz\<rparr>])"

definition layoutCommunityCards :: "GameUI \<Rightarrow> Scene result" where
  "layoutCommunityCards ui =
     bindR (if go_len (CommunityCards (gameState ui)) > 0
            then bindR (go_index (CommunityCards (gameState ui)) 0) (\<lambda>c. Inr (drawCard ui c))
            else Inr (drawEmptyCard ui)) (\<lambda>c0.
     bindR (if go_len (CommunityCards (gameState ui)) > 1
            then bindR (go_index (CommunityCards (gameState ui)) 1) (\<lambda>c. Inr (drawCard ui c))
            else Inr (drawEmptyCard ui)) (\<lambda>c1.
     bindR (if go_len (CommunityCards (gameState ui)) > 2
            then bindR (go_index (CommunityCards (gameState ui)) 2) (\<lambda>c. Inr (drawCard ui c))
            else Inr (drawEmptyCard ui)) (\<lambda>c2.
     bindR (if go_len (CommunityCards (gameState ui)) > 3
            then bindR (go_index (CommunityCards (gameState ui)) 3) (\<lambda>c. Inr (drawCard ui c))
            else Inr (drawEmptyCard ui)) (\<lambda>c3.
     bindR (if go_len (CommunityCards (gameState ui)) > 4
            then bindR (go_index (CommunityCards (gameState ui)) 4) (\<lambda>c. Inr (drawCard ui c))
            else Inr (drawEmptyCard ui)) (\<lambda>c4.
       Inr (Flex Horizontal SpaceAround Start
              [Rigid c0, Rigid c1, Rigid c2, Rigid c3, Rigid c4]))))))"

definition layoutGameArea :: "GameUI \<Rightarrow> Scene result" where
  "layoutGameArea ui =
     bindR (layoutCommunityCards ui) (\<lambda>cards.
       Inr (Inset 20 20 0 0 (Flex Horizontal SpaceEvenly Middle [Rigid cards])))"

definition layoutPlayerInfo :: "GameUI \<Rightarrow> Scene result" where
  "layoutPlayerInfo ui =
     bindR (GetCurrentPlayer (gameState ui)) (\<lambda>player.
       Inr (Inset 10 10 10 10
         (Flex Vertical SpaceEvenly Start
           [Rigid (Text H6 None (''Player: '' @ Name player)),
            Rigid (Text Body1 None (''Chips: '' @ string_of_rune (rune (Chips player)))),
            Rigid (Text Body1 None (''Current Bet: '' @ string_of_rune (rune (PBet player)))),
            Rigid (Text Body1 None (''Pot: '' @ string_of_rune (rune (Pot (gameState ui)))))])))"

definition layoutActionButtons :: "GameUI \<Rightarrow> Scene" where
  "layoutActionButtons ui =
     Inset 10 10 10 10
       (Flex Horizontal SpaceEvenly Start
         [Rigid (Button foldButton ''Fold''), Rigid (Button checkButton ''Check''),
          Rigid (Button callButton ''Call'')])"

definition layoutBetSlider :: "GameUI \<Rightarrow> Scene" where
  "layoutBetSlider ui =
     Inset 10 10 10 10
       (Flex Vertical SpaceEvenly Start
         [Rigid (Slider 0 1),
          Rigid (Flex Horizontal SpaceEvenly Start
            [Rigid (Button betButton ''Bet''), Rigid (Button raiseButton ''Raise''),
             Rigid (Button allInButton ''All In'')])])"

definition layoutControls :: "GameUI \<Rightarrow> Scene result" where
  "layoutControls ui =
     bindR (layoutPlayerInfo ui) (\<lambda>info.
       Inr (Flex Vertical SpaceEvenly Start
              [Rigid info, Rigid (layoutActionButtons ui), Rigid (layoutBetSlider ui)]))"

definition Layout :: "Point \<Rightarrow> Clicks \<Rightarrow> GameUI \<Rightarrow> (Scene \<times> GameUI) result" where
  "Layout max_size c ui =
     bindR (layoutGameArea ui) (\<lambda>area.
     bindR (layoutControls ui) (\<lambda>controls.
     bindR (handleButtonClicks c ui) (\<lambda>ui'.
       Inr (Box max_size
              [paintRect max_size (TableColor (theme ui)),
               Flex Vertical SpaceEvenly Start [Flexed 7 area, Flexed 3 controls]], ui'))))"

section \<open>The panel of a player\<close>

record PlayerUI =
  uiPlayer :: Player
  uiPosition :: Point
  isActive :: bool
  uiTheme :: Theme

definition NewPlayerUI :: "Player \<Rightarrow> Point \<Rightarrow> Theme \<Rightarrow> PlayerUI" where
  "NewPlayerUI player position th =
     \<lparr>uiPlayer = player, uiPosition = position, isActive = False, uiTheme = th\<rparr>"

definition SetActive :: "bool \<Rightarrow> PlayerUI \<Rightarrow> PlayerUI" where
  "SetActive active p = p\<lparr>isActive := active\<rparr>"

definition drawSmallCard :: "Card \<Rightarrow> Theme \<Rightarrow> Scene" where
  "drawSmallCard c th =
     (let sz = (40, 60);
          borderColor = \<lparr>ColR = 0, ColG = 0, ColB = 0, ColA = 255\<rparr>;
          textColor =
            (if Suit c = Hearts \<or> Suit c = Diamonds
             then \<lparr>ColR = 255, ColG = 0, ColB = 0, ColA = 255\<rparr>
             else \<lparr>ColR = 0, ColG = 0, ColB = 0, ColA = 255\<rparr>)
      in Box sz
           ([FillShape (CardFront th) \<lparr>RectMin = (0, 0), RectMax = sz\<rparr>] @
            drawBorder sz borderColor 1 @
            [Offset (5, 15), ColorOp textColor, Label 12 (Card_String c)]))"

definition drawSmallEmptyCard :: "Theme \<Rightarrow> Scene" where
  "drawSmallEmptyCard th =
     (let sz = (40, 60);
          emptyColor = \<lparr>ColR = 200, ColG = 200, ColB = 200, ColA = 100\<rparr>
      in Box sz [FillShape emptyColor \<lparr>RectMin = (0, 0), RectMax = sz\<rparr>])"

definition layoutPlayerCards :: "PlayerUI \<Rightarrow> Scene result" where
  "layoutPlayerCards p =
     bindR (if go_len (PCards (uiPlayer p)) > 0
            then bindR (go_index (PCards (uiPlayer p)) 0)
                   (\<lambda>c. Inr (drawSmallCard c (uiTheme p)))
            else Inr (drawSmallEmptyCard (uiTheme p))) (\<lambda>c0.
     bindR (if go_len (PCards (uiPlayer p)) > 1
            then bindR (go_index (PCards (uiPlayer p)) 1)
                   (\<lambda>c. Inr (drawSmallCard c (uiTheme p)))
            else Inr (drawSmallEmptyCard (uiTheme p))) (\<lambda>c1.
       Inr (Flex Horizontal SpaceStart Start [Rigid c0, Rigid c1])))"

definition PlayerUI_Layout :: "PlayerUI \<Rightarrow> Scene result" where
  "PlayerUI_Layout p =
     (let bgColor = (if isActive p then ActivePlayer (uiTheme p) else PlayerColor (uiTheme p));
          sz = (150, 100);
          white = \<lparr>ColR = 255, ColG = 255, ColB = 255, ColA = 255\<rparr>
      in bindR (layoutPlayerCards p) (\<lambda>cards.
           Inr (Box sz
             [Offset (uiPosition p),
              FillShape bgColor \<lparr>RectMin = (0, 0), RectMax = sz\<rparr>,
              Inset 5 5 5 5
                (Flex Vertical SpaceStart Start
                  [Rigid (Text Body1 (Some white) (Name (uiPlayer p))),
                   Rigid (Text Body2 (Some white)
                     (''Chips: '' @ string_of_rune (rune (Chips (uiPlayer p))))),
                   Rigid (Text Body2 (Some white)
                     (''Bet: '' @ string_of_rune (rune (PBet (uiPlayer p))))),
                   Rigid cards])])))"

section \<open>Facts about the conversion\<close>

declare digits.simps [simp del]

lemma rune_id: "- (2 ^ 31) \<le> n \<Longrightarrow> n < 2 ^ 31 \<Longrightarrow> rune n = n"
  by (simp add: rune_def sint_sbintrunc' signed_take_bit_int_eq_self_iff)

lemma rune_eq: "rune n = (n + 2 ^ 31) mod 2 ^ 32 - 2 ^ 31"
  by (simp add: rune_def int_word_sint)

lemma rune_wraps: "rune (n + 2 ^ 32 * k) = rune n"
proof -
  have "(word_of_int (n + 2 ^ 32 * k) :: 32 word) = word_of_int n"
    by (simp add: word_of_int_eq_iff take_bit_eq_mod del: of_int_add of_int_mult)
  then show ?thesis by (simp add: rune_def)
qed

lemma rune_range: "- (2 ^ 31) \<le> rune n \<and> rune n < 2 ^ 31"
  unfolding rune_def using sint_range_size [of "word_of_int n :: 32 word"]
  by (simp add: word_size)

lemma of_char_byte: "0 \<le> i \<Longrightarrow> i < 256 \<Longrightarrow> (of_char (byte i) :: nat) = nat i"
  by (simp add: byte_def nat_less_iff)

lemma digits_ne [simp]: "digits n \<noteq> []"
  by (subst digits.simps) simp

lemma hd_digits: "(of_char (hd (digits n)) :: nat) \<in> {48..57}"
proof (induction n rule: digits.induct)
  case (1 n)
  show ?case
  proof (cases "n < 10")
    case True
    then show ?thesis by (subst digits.simps) simp
  next
    case False
    with 1 show ?thesis by (subst digits.simps) simp
  qed
qed

lemma length_digits_one: "length (digits n) = 1 \<longleftrightarrow> n < 10"
proof (cases "n < 10")
  case True
  then show ?thesis by (subst digits.simps) simp
next
  case False
  have "length (digits (n div 10)) \<noteq> 0" by simp
  with False show ?thesis by (subst digits.simps) simp
qed

lemma hd_Itoa: "(of_char (hd (Itoa n)) :: nat) \<le> 57"
  using hd_digits [of "nat n"] by (simp add: Itoa_def)

lemma Itoa_one: "length (Itoa n) = 1 \<Longrightarrow> 0 \<le> n \<and> n < 10 \<and> Itoa n = [char_of (48 + nat n)]"
  by (auto simp: Itoa_def length_digits_one digits.simps [of "nat n"] split: if_splits)

lemma EncodeRune_low: "r < 0x80 \<Longrightarrow> EncodeRune r = [byte r]"
  by (simp add: EncodeRune_def)

lemma hd_EncodeRune_high:
  assumes "0x80 \<le> r" and "r \<le> 0x10FFFF"
  shows "192 \<le> (of_char (hd (EncodeRune r)) :: nat)"
proof -
  have "r div 64 < 32" if "r < 0x800" using that by simp
  moreover have "r div 4096 < 16" if "r < 0x10000" using that by simp
  moreover have "r div 262144 < 16" using assms(2) by simp
  moreover have "0 \<le> r div 64" "0 \<le> r div 4096" "0 \<le> r div 262144" using assms(1) by simp_all
  ultimately show ?thesis using assms
    by (auto simp: EncodeRune_def of_char_byte)
qed

lemma length_string_of_rune: "length (string_of_rune r) \<in> {1..4}"
  by (simp add: string_of_rune_def EncodeRune_def)

lemma string_of_rune_not_Itoa: "string_of_rune (rune n) \<noteq> Itoa n"
proof
  assume eq: "string_of_rune (rune n) = Itoa n"
  define r where "r = (if valid_rune (rune n) then rune n else 0xFFFD)"
  have r: "0 \<le> r" "r \<le> 0x10FFFF" by (auto simp: r_def valid_rune_def)
  have s: "string_of_rune (rune n) = EncodeRune r" by (simp add: string_of_rune_def r_def)
  show False
  proof (cases "r < 0x80")
    case True
    with eq s have one: "Itoa n = [byte r]" by (simp add: EncodeRune_low)
    then have "length (Itoa n) = 1" by simp
    from Itoa_one [OF this] have n: "0 \<le> n" "n < 10" "Itoa n = [char_of (48 + nat n)]"
      by simp_all
    then have "rune n = n" by (intro rune_id) simp_all
    with n have "r = n" by (simp add: r_def valid_rune_def)
    with one n have "(of_char (byte n) :: nat) = of_char (char_of (48 + nat n) :: char)" by simp
    with n show False by (simp add: of_char_byte)
  next
    case False
    with r hd_EncodeRune_high [of r] have "192 \<le> (of_char (hd (EncodeRune r)) :: nat)" by simp
    with eq s hd_Itoa [of n] show False by simp
  qed
qed


lemma string_of_rune_1000: "string_of_rune (rune 1000) = [CHR 0xCF, CHR 0xA8]"
  by code_simp

section \<open>Facts about the scenes of the table\<close>

lemma texts_drawCard [simp]: "texts (drawCard ui c) = [Card_String c]"
  by (simp add: drawCard_def drawBorder_def Let_def)

lemma texts_drawEmptyCard [simp]: "texts (drawEmptyCard ui) = []"
  by (simp add: drawEmptyCard_def Let_def)

lemma buttons_cards [simp]: "buttons (drawCard ui c) = []" "buttons (drawEmptyCard ui) = []"
  by (simp_all add: drawCard_def drawEmptyCard_def drawBorder_def Let_def)

definition slot :: "GameUI \<Rightarrow> nat \<Rightarrow> Scene" where
  "slot ui i =
     Rigid (if i < length (CommunityCards (gameState ui))
            then drawCard ui (CommunityCards (gameState ui) ! i) else drawEmptyCard ui)"

lemma layoutCommunityCards_eq:
  "layoutCommunityCards ui = Inr (Flex Horizontal SpaceAround Start (map (slot ui) [0..<5]))"
proof -
  have "[0..<5] = [0, 1, 2, 3, 4]" by (simp add: upt_rec)
  then show ?thesis
    by (simp add: layoutCommunityCards_def slot_def go_index_def in_range_def go_len_def)
qed

lemma texts_slot:
  "texts (slot ui i) =
     (if i < length (CommunityCards (gameState ui))
      then [Card_String (CommunityCards (gameState ui) ! i)] else [])"
  by (simp add: slot_def)

lemma concat_texts_slots:
  "concat (map (texts \<circ> slot ui) [0..<n]) =
     map Card_String (take n (CommunityCards (gameState ui)))"
proof (induction n)
  case 0
  show ?case by simp
next
  case (Suc n)
  then show ?case by (simp add: texts_slot take_Suc_conv_app_nth)
qed

lemma texts_layoutGameArea:
  "\<exists>s. layoutGameArea ui = Inr s \<and> buttons s = [] \<and>
     texts s = map Card_String (take 5 (CommunityCards (gameState ui)))"
proof -
  have "concat (map (buttons \<circ> slot ui) [0..<5]) = []" by (simp add: slot_def)
  then show ?thesis
    by (simp add: layoutGameArea_def layoutCommunityCards_eq concat_texts_slots)
qed

definition info_texts :: "GameState \<Rightarrow> Player \<Rightarrow> string list" where
  "info_texts g p =
     [''Player: '' @ Name p, ''Chips: '' @ string_of_rune (rune (Chips p)),
      ''Current Bet: '' @ string_of_rune (rune (PBet p)),
      ''Pot: '' @ string_of_rune (rune (Pot g))]"

definition button_list :: "(Clickable \<times> string) list" where
  "button_list =
     [(foldButton, ''Fold''), (checkButton, ''Check''), (callButton, ''Call''),
      (betButton, ''Bet''), (raiseButton, ''Raise''), (allInButton, ''All In'')]"

lemma layoutControls_Inr:
  assumes "GetCurrentPlayer (gameState ui) = Inr p"
  shows "\<exists>s. layoutControls ui = Inr s \<and> buttons s = button_list \<and>
           texts s = info_texts (gameState ui) p @ map snd button_list"
  using assms
  by (simp add: layoutControls_def layoutPlayerInfo_def layoutActionButtons_def
      layoutBetSlider_def info_texts_def button_list_def)

lemma layoutControls_Inl:
  "GetCurrentPlayer (gameState ui) = Inl e \<Longrightarrow> layoutControls ui = Inl e"
  by (simp add: layoutControls_def layoutPlayerInfo_def)

lemma Layout_Inr:
  assumes "GetCurrentPlayer (gameState ui) = Inr p" and "handleButtonClicks c ui = Inr ui'"
  shows "\<exists>s. Layout max_size c ui = Inr (s, ui') \<and> buttons s = button_list \<and>
           texts s = map Card_String (take 5 (CommunityCards (gameState ui))) @
                     info_texts (gameState ui) p @ map snd button_list"
proof -
  from texts_layoutGameArea [of ui] obtain a where
    a: "layoutGameArea ui = Inr a" "buttons a = []"
      "texts a = map Card_String (take 5 (CommunityCards (gameState ui)))" by blast
  from layoutControls_Inr [OF assms(1)] obtain k where
    k: "layoutControls ui = Inr k" "buttons k = button_list"
      "texts k = info_texts (gameState ui) p @ map snd button_list" by blast
  from a k assms(2) show ?thesis by (simp add: Layout_def paintRect_def)
qed

lemma Layout_Inl:
  "GetCurrentPlayer (gameState ui) = Inl e \<Longrightarrow> Layout max_size c ui = Inl e"
  using texts_layoutGameArea [of ui] by (auto simp: Layout_def layoutControls_Inl)

lemma board_size_le_5: "board_size ph \<le> 5"
  by (cases ph) simp_all

lemma take_board:
  "table_inv g \<Longrightarrow> take 5 (CommunityCards g) = CommunityCards g"
  using board_size_le_5 [of "CurrentPhase g"] by (simp add: table_inv_def board_ok_def)

definition no_clicks :: Clicks where
  "no_clicks =
     \<lparr>foldClicked = False, checkClicked = False, callClicked = False, betClicked = False,
      raiseClicked = False, allInClicked = False, sliderAmount = (\<lambda>chips. 0)\<rparr>"

text \<open>
  C14 (safety). A frame on a table that satisfies the invariants does not panic. It
  shows the whole board, card by card, then the four lines about the seat to act and
  the pot, then the six buttons in the order in which \<open>handleButtonClicks\<close> asks for
  their clicks; the state it leaves is the state \<open>handleButtonClicks\<close> leaves, so the
  frame shows the table as it was before its own clicks.
\<close>

theorem Layout_safe:
  assumes "table_inv (gameState ui)"
  shows "\<exists>s ui'. Layout max_size c ui = Inr (s, ui') \<and> handleButtonClicks c ui = Inr ui' \<and>
           table_inv (gameState ui') \<and> buttons s = button_list \<and>
           texts s = map Card_String (CommunityCards (gameState ui)) @
                     info_texts (gameState ui) (current (gameState ui)) @ map snd button_list"
proof -
  from assms have "GetCurrentPlayer (gameState ui) = Inr (current (gameState ui))"
    by (simp add: GetCurrentPlayer_def table_inv_def wf_game_current)
  moreover from handleButtonClicks_table_inv [OF assms, of c] obtain ui'
    where "handleButtonClicks c ui = Inr ui'" "table_inv (gameState ui')" by blast
  ultimately show ?thesis
    using Layout_Inr [of ui _ c ui' max_size] take_board [OF assms] by auto
qed

theorem Layout_safe_witness:
  "table_inv (gameState (NewGameUI NewTheme sample_table)) \<and>
   (\<exists>s ui'. Layout (800, 600) no_clicks (NewGameUI NewTheme sample_table) = Inr (s, ui') \<and>
      buttons s = button_list \<and>
      take 2 (texts s) = [''Player: Player 1'', ''Chips: '' @ [CHR 0xCF, CHR 0xA8]])"
proof -
  have t: "table_inv (gameState (NewGameUI NewTheme sample_table))"
    by (simp add: NewGameUI_def)
  have "current sample_table = NewPlayer ''1'' ''Player 1'' 1000 0"
    "CommunityCards sample_table = []"
    by (simp_all add: current_def sample_defs)
  with Layout_safe [OF t, of "(800, 600)" no_clicks] show ?thesis
    by (auto simp: NewGameUI_def info_texts_def NewPlayer_def string_of_rune_1000)
qed

text \<open>
  C22 (equivalence). \<open>layoutCommunityCards\<close>, which the source writes as five closures,
  each with its own test of the length and its own index, follows one rule for the
  five slots: slot \<open>i\<close> shows card \<open>i\<close> of the board when the board has one and the
  placeholder otherwise. No test and index are mismatched, so no board, of whatever
  length, makes an index expression panic.
\<close>

theorem layoutCommunityCards_five_slots:
  "layoutCommunityCards ui = Inr (Flex Horizontal SpaceAround Start (map (slot ui) [0..<5]))"
  by (rule layoutCommunityCards_eq)

text \<open>
  C21 (functional). The lines that should show the chips and the bet of the seat to
  act and the pot do not show these numbers: the text after the caption is the UTF-8
  encoding of the code point with that number, at most four bytes, and never the
  decimal numeral. A stack of 1000 chips is shown as the two bytes \<open>0xCF 0xA8\<close>.
\<close>

theorem amounts_are_not_shown_as_numbers:
  assumes "layoutPlayerInfo ui = Inr s"
  shows "\<exists>p chips bet pot.
           GetCurrentPlayer (gameState ui) = Inr p \<and>
           texts s = [''Player: '' @ Name p, ''Chips: '' @ chips, ''Current Bet: '' @ bet,
                      ''Pot: '' @ pot] \<and>
           chips \<noteq> Itoa (Chips p) \<and> bet \<noteq> Itoa (PBet p) \<and> pot \<noteq> Itoa (Pot (gameState ui)) \<and>
           length chips \<le> 4 \<and> length bet \<le> 4 \<and> length pot \<le> 4 \<and>
           (Chips p = 1000 \<longrightarrow> chips = [CHR 0xCF, CHR 0xA8])"
proof -
  from assms obtain p where p: "GetCurrentPlayer (gameState ui) = Inr p"
    by (auto simp: layoutPlayerInfo_def bindR_eq_Inr_iff)
  with assms have "texts s = info_texts (gameState ui) p"
    by (auto simp: layoutPlayerInfo_def info_texts_def)
  with p show ?thesis
    using length_string_of_rune string_of_rune_not_Itoa
    by (auto simp: info_texts_def string_of_rune_1000)
qed

theorem amounts_are_not_shown_as_numbers_witness:
  "\<exists>s. layoutPlayerInfo (NewGameUI NewTheme sample_table) = Inr s \<and>
     texts s ! 1 = ''Chips: '' @ [CHR 0xCF, CHR 0xA8] \<and> texts s ! 1 \<noteq> ''Chips: 1000''"
proof -
  have "GetCurrentPlayer sample_table = Inr (NewPlayer ''1'' ''Player 1'' 1000 0)"
    by (simp add: GetCurrentPlayer_def sample_defs go_defs)
  then obtain s where s: "layoutPlayerInfo (NewGameUI NewTheme sample_table) = Inr s"
    by (simp add: layoutPlayerInfo_def NewGameUI_def)
  from amounts_are_not_shown_as_numbers [OF s] s show ?thesis
    by (auto simp: NewGameUI_def GetCurrentPlayer_def sample_defs go_defs)
qed

section \<open>The amounts of the running program\<close>

fun play_frames :: "Clicks list \<Rightarrow> GameUI \<Rightarrow> GameUI result" where
  "play_frames [] ui = Inr ui"
| "play_frames (c # cs) ui = bindR (handleButtonClicks c ui) (play_frames cs)"

lemma reachable_frames: "reachable ui \<Longrightarrow> play_frames cs ui = Inr ui' \<Longrightarrow> reachable ui'"
  by (induction cs arbitrary: ui) (auto simp: bindR_eq_Inr_iff intro: reachable.frame)

lemma GetCurrentPlayer_in_set: "GetCurrentPlayer g = Inr p \<Longrightarrow> p \<in> set (Players g)"
  by (auto simp: GetCurrentPlayer_def go_index_eq_Inr_iff in_range_def go_len_def
      intro!: nth_mem)

lemma string_of_rune_small:
  "0 \<le> n \<Longrightarrow> n \<le> 4000 \<Longrightarrow> string_of_rune (rune n) = EncodeRune n"
  by (simp add: rune_id string_of_rune_def valid_rune_def)

lemma string_of_rune_negative:
  "- 15 \<le> n \<Longrightarrow> n < 0 \<Longrightarrow> string_of_rune (rune n) = [CHR 0xEF, CHR 0xBF, CHR 0xBD]"
proof -
  have "EncodeRune 0xFFFD = [CHR 0xEF, CHR 0xBF, CHR 0xBD]" by code_simp
  then show "- 15 \<le> n \<Longrightarrow> n < 0 \<Longrightarrow> ?thesis"
    by (simp add: rune_id string_of_rune_def valid_rune_def)
qed

text \<open>
  C40 (bounds). In the running program the conversion of an amount to \<open>rune\<close> never
  wraps: in every state the program reaches, the stack and the bet of the seat to act
  and the pot are inside the 32 bits, so the three lines show the code points with
  exactly these numbers. The pot can be negative there (down to -15), and a negative
  pot is shown as the three bytes of \<open>U+FFFD\<close>.
\<close>

theorem reachable_amounts_fit_a_rune:
  assumes "reachable ui" and "layoutPlayerInfo ui = Inr s"
  shows "\<exists>p. GetCurrentPlayer (gameState ui) = Inr p \<and>
           rune (Chips p) = Chips p \<and> rune (PBet p) = PBet p \<and>
           rune (Pot (gameState ui)) = Pot (gameState ui) \<and>
           texts s =
             [''Player: '' @ Name p, ''Chips: '' @ EncodeRune (Chips p),
              ''Current Bet: '' @ EncodeRune (PBet p),
              ''Pot: '' @ (if Pot (gameState ui) < 0 then [CHR 0xEF, CHR 0xBF, CHR 0xBD]
                          else EncodeRune (Pot (gameState ui)))]"
proof -
  from assms(2) obtain p where p: "GetCurrentPlayer (gameState ui) = Inr p"
    by (auto simp: layoutPlayerInfo_def bindR_eq_Inr_iff)
  from reachable_bounds_aux [OF assms(1) GetCurrentPlayer_in_set [OF p]]
  have b: "0 \<le> Chips p" "Chips p \<le> 4000" "0 \<le> PBet p" "PBet p \<le> 4000"
    "- 15 \<le> Pot (gameState ui)" "Pot (gameState ui) \<le> 3985"
    by simp_all
  then have e: "string_of_rune (rune (Chips p)) = EncodeRune (Chips p)"
    "string_of_rune (rune (PBet p)) = EncodeRune (PBet p)"
    "string_of_rune (rune (Pot (gameState ui))) =
       (if Pot (gameState ui) < 0 then [CHR 0xEF, CHR 0xBF, CHR 0xBD]
        else EncodeRune (Pot (gameState ui)))"
    by (simp_all add: string_of_rune_small string_of_rune_negative)
  from b have r: "rune (Chips p) = Chips p" "rune (PBet p) = PBet p"
    "rune (Pot (gameState ui)) = Pot (gameState ui)"
    by (simp_all add: rune_id)
  from assms(2) p have t: "texts s = info_texts (gameState ui) p"
    by (auto simp: layoutPlayerInfo_def info_texts_def)
  from p r show ?thesis unfolding t info_texts_def e by simp
qed

theorem reachable_amounts_fit_a_rune_witness:
  "\<exists>(ui :: GameUI) s. reachable ui \<and> layoutPlayerInfo ui = Inr s \<and>
     Pot (gameState ui) = - 15 \<and> texts s ! 3 = ''Pot: '' @ [CHR 0xEF, CHR 0xBF, CHR 0xBD]"
proof -
  let ?raise = "no_clicks\<lparr>raiseClicked := True\<rparr>"
  let ?call = "no_clicks\<lparr>callClicked := True\<rparr>"
  let ?cs = "[?raise, ?call, ?call, ?call, ?call, ?call, ?call, ?call]"
  have "case play_frames ?cs (NewGameUI NewTheme sample_started) of
          Inl e \<Rightarrow> False
        | Inr ui \<Rightarrow> Pot (gameState ui) = - 15 \<and>
            (case layoutPlayerInfo ui of Inl e \<Rightarrow> False | Inr s \<Rightarrow> True)"
    by code_simp
  then obtain ui :: GameUI and s
    where f: "play_frames ?cs (NewGameUI NewTheme sample_started) = Inr ui"
      and v: "Pot (gameState ui) = - 15" "layoutPlayerInfo ui = Inr s"
    by (auto split: sum.splits)
  have "reachable (NewGameUI NewTheme sample_started)"
    unfolding sample_started_def by (rule reachable_first_hand)
  from reachable_frames [OF this f] have r: "reachable ui" .
  from reachable_amounts_fit_a_rune [OF r v(2)] r v show ?thesis
    by auto
qed

section \<open>Facts about the panel of a player\<close>

definition small_card :: "PlayerUI \<Rightarrow> nat \<Rightarrow> Scene" where
  "small_card p i =
     Rigid (if i < length (PCards (uiPlayer p))
            then drawSmallCard (PCards (uiPlayer p) ! i) (uiTheme p)
            else drawSmallEmptyCard (uiTheme p))"

lemma layoutPlayerCards_eq:
  "layoutPlayerCards p = Inr (Flex Horizontal SpaceStart Start [small_card p 0, small_card p 1])"
  by (simp add: layoutPlayerCards_def small_card_def go_index_def in_range_def go_len_def)

lemma texts_small_card:
  "texts (small_card p i) =
     (if i < length (PCards (uiPlayer p)) then [Card_String (PCards (uiPlayer p) ! i)] else [])"
  by (simp add: small_card_def drawSmallCard_def drawSmallEmptyCard_def drawBorder_def Let_def)

text \<open>
  The panel of a player never panics, whatever cards the player
  holds. It is drawn at the position of the panel, on the colour of the seat to act
  exactly when the panel is active, and shows the name, the two amounts (as code
  points, not as numbers) and the first two hole cards.
\<close>

theorem PlayerUI_Layout_shows:
  "\<exists>bg rest. PlayerUI_Layout p = Inr (Box (150, 100) (Offset (uiPosition p) # bg # rest)) \<and>
     bg = FillShape (if isActive p then ActivePlayer (uiTheme p) else PlayerColor (uiTheme p))
            \<lparr>RectMin = (0, 0), RectMax = (150, 100)\<rparr> \<and>
     concat (map texts rest) =
       [Name (uiPlayer p), ''Chips: '' @ string_of_rune (rune (Chips (uiPlayer p))),
        ''Bet: '' @ string_of_rune (rune (PBet (uiPlayer p)))] @
       map Card_String (take 2 (PCards (uiPlayer p)))"
proof -
  have "take 2 xs = (if 1 < length xs then [xs ! 0, xs ! 1] else if 0 < length xs then [xs ! 0] else [])"
    for xs :: "Card list"
    by (cases xs; cases "tl xs") auto
  then show ?thesis
    by (simp add: PlayerUI_Layout_def layoutPlayerCards_eq texts_small_card Let_def)
qed

end
