(* ===== verification/DB_Model.thy ===== *)
theory DB_Model
  imports Go_Heap Game_Model
begin

text \<open>
  The store of \<open>src/pkg/db/mock_spacetime.go\<close>.

  \<^item> \<open>MockSpaceTimeDB\<close> is the struct: three Go maps from strings to pointers and the
    lock. \<open>PlayerProfile\<close> and \<open>GameHistoryEntry\<close> are the structs the pointers of the
    second and third map point to (their fields \<open>ID\<close>, \<open>Name\<close> and \<open>Players\<close> are
    \<open>ProfileID\<close>, \<open>ProfileName\<close> and \<open>EntryPlayers\<close> here, apart from the fields of a
    seat and a table); a \<open>time.Time\<close> is only stored, as a number.
  \<^item> \<open>DBProcess\<close> is the part of the process a method of the store reads or writes: the
    store itself (the program has one, \<open>mockDB\<close>), the objects its pointers point to,
    the log and the clock.
  \<^item> Each method is a definition of the same name. It takes the lock, does its work,
    writes its log line and releases the lock, as the source does with
    \<open>defer db.mu.Unlock()\<close>; the result is the Go result (\<open>None\<close> for a \<open>nil\<close> error,
    \<open>Inl\<close> of the error for a miss) with the process it leaves. A method that panics
    or cannot take the lock is \<open>Inl\<close> of the panic.
  \<^item> \<open>SerializeGameState\<close> and \<open>DeserializeGameState\<close> wrap \<open>json.Marshal\<close> and
    \<open>json.Unmarshal\<close> of the standard library, which are their first arguments here:
    \<open>marshal\<close> sees the table behind the pointer (\<open>None\<close> for \<open>nil\<close>), \<open>unmarshal\<close> gives
    the table it has filled in, or the error.
  \<^item> \<open>DBCall\<close> and \<open>db_step\<close> give the methods one interface; \<open>kv_step\<close> is the
    key-value store they promise, and \<open>db_abs\<close> reads it off a process.
  \<^item> The lemmas give every method in closed form on a free lock and show the round
    trips of the three maps, the errors of the lookups, the order of a history, that
    no sequence of calls blocks, and that \<open>db_step\<close> implements \<open>kv_step\<close>.
\<close>

section \<open>The objects of the store\<close>

type_synonym Time = int

record PlayerProfile =
  ProfileID :: string
  ProfileName :: string
  TotalChips :: int
  GamesPlayed :: int
  GamesWon :: int
  BiggestPot :: int
  LastLoginTime :: Time

record GameHistoryEntry =
  GameID :: string
  Timestamp :: Time
  EntryPlayers :: "string list"
  Winner :: string
  PotSize :: int
  HandSummary :: string

record MockSpaceTimeDB =
  gameStates :: "string \<rightharpoonup> ref"
  playerProfiles :: "string \<rightharpoonup> ref"
  gameHistory :: "string \<rightharpoonup> ref list"
  mu :: RWMutex

datatype error = errors_New string

record DBProcess = Runtime +
  database :: MockSpaceTimeDB
  games :: "GameState heap"
  profiles :: "PlayerProfile heap"
  entries :: "GameHistoryEntry heap"

section \<open>The methods\<close>

definition NewMockSpaceTimeDB :: MockSpaceTimeDB where
  "NewMockSpaceTimeDB =
     \<lparr>gameStates = Map.empty, playerProfiles = Map.empty, gameHistory = Map.empty,
      mu = Unlocked\<rparr>"

definition with_mu ::
  "(RWMutex \<Rightarrow> RWMutex result) \<Rightarrow> 'a DBProcess_scheme \<Rightarrow> 'a DBProcess_scheme result" where
  "with_mu f s = bindR (f (mu (database s))) (\<lambda>m. Inr (s\<lparr>database := (database s)\<lparr>mu := m\<rparr>\<rparr>))"

definition slice_at :: "('k \<rightharpoonup> 'v list) \<Rightarrow> 'k \<Rightarrow> 'v list" where
  "slice_at m k = (case m k of None \<Rightarrow> [] | Some xs \<Rightarrow> xs)"

definition SaveGameState ::
  "string \<Rightarrow> ref \<Rightarrow> 'a DBProcess_scheme \<Rightarrow> (error option \<times> 'a DBProcess_scheme) result" where
  "SaveGameState gameID state s =
     bindR (with_mu mu_Lock s) (\<lambda>s1.
       let s2 = s1\<lparr>database := (database s1)
                   \<lparr>gameStates := (gameStates (database s1))(gameID \<mapsto> state)\<rparr>\<rparr>;
           s3 = log_Println (''Game state saved for game '' @ gameID) s2
       in bindR (with_mu mu_Unlock s3) (\<lambda>s4. Inr (None, s4)))"

definition LoadGameState ::
  "string \<Rightarrow> 'a DBProcess_scheme \<Rightarrow> ((error + ref) \<times> 'a DBProcess_scheme) result" where
  "LoadGameState gameID s =
     bindR (with_mu mu_RLock s) (\<lambda>s1.
       case gameStates (database s1) gameID of
         None \<Rightarrow> bindR (with_mu mu_RUnlock s1)
                   (\<lambda>s2. Inr (Inl (errors_New ''game state not found''), s2))
       | Some state \<Rightarrow> bindR (with_mu mu_RUnlock s1) (\<lambda>s2. Inr (Inr state, s2)))"

definition SavePlayerProfile ::
  "ref \<Rightarrow> 'a DBProcess_scheme \<Rightarrow> (error option \<times> 'a DBProcess_scheme) result" where
  "SavePlayerProfile profile s =
     bindR (with_mu mu_Lock s) (\<lambda>s1.
     bindR (deref (profiles s1) profile) (\<lambda>p.
       let s2 = s1\<lparr>database := (database s1)
                   \<lparr>playerProfiles := (playerProfiles (database s1))(ProfileID p \<mapsto> profile)\<rparr>\<rparr>;
           s3 = log_Println (''Player profile saved for player '' @ ProfileID p) s2
       in bindR (with_mu mu_Unlock s3) (\<lambda>s4. Inr (None, s4))))"

definition LoadPlayerProfile ::
  "string \<Rightarrow> 'a DBProcess_scheme \<Rightarrow> ((error + ref) \<times> 'a DBProcess_scheme) result" where
  "LoadPlayerProfile playerID s =
     bindR (with_mu mu_RLock s) (\<lambda>s1.
       case playerProfiles (database s1) playerID of
         None \<Rightarrow> bindR (with_mu mu_RUnlock s1)
                   (\<lambda>s2. Inr (Inl (errors_New ''player profile not found''), s2))
       | Some profile \<Rightarrow> bindR (with_mu mu_RUnlock s1) (\<lambda>s2. Inr (Inr profile, s2)))"

definition AddGameHistoryEntry ::
  "string \<Rightarrow> ref \<Rightarrow> 'a DBProcess_scheme \<Rightarrow> (error option \<times> 'a DBProcess_scheme) result" where
  "AddGameHistoryEntry gameID entry s =
     bindR (with_mu mu_Lock s) (\<lambda>s1.
       let h = gameHistory (database s1);
           h1 = (if h gameID = None then h(gameID \<mapsto> []) else h);
           h2 = h1(gameID \<mapsto> slice_at h1 gameID @ [entry]);
           s2 = s1\<lparr>database := (database s1)\<lparr>gameHistory := h2\<rparr>\<rparr>;
           s3 = log_Println (''Game history entry added for game '' @ gameID) s2
       in bindR (with_mu mu_Unlock s3) (\<lambda>s4. Inr (None, s4)))"

definition GetGameHistory ::
  "string \<Rightarrow> 'a DBProcess_scheme \<Rightarrow> ((error + ref list) \<times> 'a DBProcess_scheme) result" where
  "GetGameHistory gameID s =
     bindR (with_mu mu_RLock s) (\<lambda>s1.
       case gameHistory (database s1) gameID of
         None \<Rightarrow> bindR (with_mu mu_RUnlock s1)
                   (\<lambda>s2. Inr (Inl (errors_New ''game history not found''), s2))
       | Some history \<Rightarrow> bindR (with_mu mu_RUnlock s1) (\<lambda>s2. Inr (Inr history, s2)))"

definition Connect :: "'a Runtime_scheme \<Rightarrow> error option \<times> 'a Runtime_scheme" where
  "Connect s =
     (None, log_Println ''Connected to SpaceTimeDB (mock)''
              (time_Sleep 500 (log_Println ''Connecting to SpaceTimeDB (mock)...'' s)))"

definition Disconnect :: "'a Runtime_scheme \<Rightarrow> error option \<times> 'a Runtime_scheme" where
  "Disconnect s =
     (None, log_Println ''Disconnected from SpaceTimeDB (mock)''
              (time_Sleep 200 (log_Println ''Disconnecting from SpaceTimeDB (mock)...'' s)))"

definition SerializeGameState ::
  "(GameState option \<Rightarrow> error + string) \<Rightarrow> ref \<Rightarrow> 'a DBProcess_scheme \<Rightarrow> string \<times> error option" where
  "SerializeGameState marshal state s =
     (case marshal (case state of Null \<Rightarrow> None | Ref a \<Rightarrow> cells (games s) a) of
        Inl err \<Rightarrow> ('''', Some err)
      | Inr data \<Rightarrow> (data, None))"

definition DeserializeGameState ::
  "(string \<Rightarrow> error + GameState) \<Rightarrow> string \<Rightarrow> 'a DBProcess_scheme \<Rightarrow>
   (ref \<times> error option) \<times> 'a DBProcess_scheme" where
  "DeserializeGameState unmarshal data s =
     (case unmarshal data of
        Inl err \<Rightarrow> ((Null, Some err), s)
      | Inr state \<Rightarrow> (let (r, h) = new state (games s) in ((r, None), s\<lparr>games := h\<rparr>)))"

section \<open>One interface for the methods\<close>

datatype DBCall =
  SaveGame string ref | LoadGame string | SaveProfile ref | LoadProfile string |
  AddHistory string ref | GetHistory string

datatype DBReply = Done | Failed error | Pointer ref | Pointers "ref list"

fun reply_of :: "error option \<Rightarrow> DBReply" where
  "reply_of None = Done"
| "reply_of (Some e) = Failed e"

fun db_step :: "DBCall \<Rightarrow> 'a DBProcess_scheme \<Rightarrow> (DBReply \<times> 'a DBProcess_scheme) result" where
  "db_step (SaveGame k r) s = bindR (SaveGameState k r s) (\<lambda>(e, s'). Inr (reply_of e, s'))"
| "db_step (LoadGame k) s =
     bindR (LoadGameState k s) (\<lambda>(r, s'). Inr (case_sum Failed Pointer r, s'))"
| "db_step (SaveProfile r) s = bindR (SavePlayerProfile r s) (\<lambda>(e, s'). Inr (reply_of e, s'))"
| "db_step (LoadProfile k) s =
     bindR (LoadPlayerProfile k s) (\<lambda>(r, s'). Inr (case_sum Failed Pointer r, s'))"
| "db_step (AddHistory k r) s =
     bindR (AddGameHistoryEntry k r s) (\<lambda>(e, s'). Inr (reply_of e, s'))"
| "db_step (GetHistory k) s =
     bindR (GetGameHistory k s) (\<lambda>(r, s'). Inr (case_sum Failed Pointers r, s'))"

fun db_run :: "DBCall list \<Rightarrow> 'a DBProcess_scheme \<Rightarrow> (DBReply list \<times> 'a DBProcess_scheme) result" where
  "db_run [] s = Inr ([], s)"
| "db_run (c # cs) s =
     bindR (db_step c s) (\<lambda>(r, s'). bindR (db_run cs s') (\<lambda>(rs, s''). Inr (r # rs, s'')))"

fun saves_game :: "string \<Rightarrow> DBCall \<Rightarrow> bool" where
  "saves_game k (SaveGame k' r) = (k' = k)"
| "saves_game k c = False"

fun profile_ok :: "PlayerProfile heap \<Rightarrow> DBCall \<Rightarrow> bool" where
  "profile_ok ps (SaveProfile r) = returns (deref ps r)"
| "profile_ok ps c = True"

definition new_process :: DBProcess where
  "new_process =
     \<lparr>logged = [], slept = 0, database = NewMockSpaceTimeDB, games = empty_heap,
      profiles = empty_heap, entries = empty_heap\<rparr>"

section \<open>The key-value store the methods promise\<close>

type_synonym KV = "(string \<rightharpoonup> ref) \<times> (string \<rightharpoonup> ref) \<times> (string \<Rightarrow> ref list)"

definition lookup_reply :: "string \<Rightarrow> ref option \<Rightarrow> DBReply" where
  "lookup_reply what r =
     (case r of None \<Rightarrow> Failed (errors_New (what @ '' not found'')) | Some p \<Rightarrow> Pointer p)"

fun kv_step :: "PlayerProfile heap \<Rightarrow> DBCall \<Rightarrow> KV \<Rightarrow> (DBReply \<times> KV) result" where
  "kv_step ps (SaveGame k r) (g, p, h) = Inr (Done, (g(k \<mapsto> r), p, h))"
| "kv_step ps (LoadGame k) (g, p, h) = Inr (lookup_reply ''game state'' (g k), (g, p, h))"
| "kv_step ps (SaveProfile r) (g, p, h) =
     bindR (deref ps r) (\<lambda>profile. Inr (Done, (g, p(ProfileID profile \<mapsto> r), h)))"
| "kv_step ps (LoadProfile k) (g, p, h) =
     Inr (lookup_reply ''player profile'' (p k), (g, p, h))"
| "kv_step ps (AddHistory k r) (g, p, h) = Inr (Done, (g, p, h(k := h k @ [r])))"
| "kv_step ps (GetHistory k) (g, p, h) =
     Inr (if h k = [] then Failed (errors_New ''game history not found'') else Pointers (h k),
          (g, p, h))"

fun kv_run :: "PlayerProfile heap \<Rightarrow> DBCall list \<Rightarrow> KV \<Rightarrow> (DBReply list \<times> KV) result" where
  "kv_run ps [] kv = Inr ([], kv)"
| "kv_run ps (c # cs) kv =
     bindR (kv_step ps c kv) (\<lambda>(r, kv'). bindR (kv_run ps cs kv') (\<lambda>(rs, kv''). Inr (r # rs, kv'')))"

definition db_abs :: "'a DBProcess_scheme \<Rightarrow> KV" where
  "db_abs s =
     (gameStates (database s), playerProfiles (database s), slice_at (gameHistory (database s)))"

definition db_ok :: "'a DBProcess_scheme \<Rightarrow> bool" where
  "db_ok s = (mu (database s) = Unlocked \<and> (\<forall>k. gameHistory (database s) k \<noteq> Some []))"

definition abs_result ::
  "('r \<times> 'a DBProcess_scheme) result \<Rightarrow> ('r \<times> KV) result" where
  "abs_result m = (case m of Inl e \<Rightarrow> Inl e | Inr (r, s) \<Rightarrow> Inr (r, db_abs s))"

section \<open>The lock around a method\<close>

lemma with_mu_Lock:
  "mu (database s) = Unlocked \<Longrightarrow>
   with_mu mu_Lock s = Inr (s\<lparr>database := (database s)\<lparr>mu := Writing\<rparr>\<rparr>)"
  by (simp add: with_mu_def)

lemma with_mu_RLock:
  "mu (database s) = Unlocked \<Longrightarrow>
   with_mu mu_RLock s = Inr (s\<lparr>database := (database s)\<lparr>mu := Reading 0\<rparr>\<rparr>)"
  by (simp add: with_mu_def)

lemma with_mu_Unlock:
  "mu (database s) = Writing \<Longrightarrow>
   with_mu mu_Unlock s = Inr (s\<lparr>database := (database s)\<lparr>mu := Unlocked\<rparr>\<rparr>)"
  by (simp add: with_mu_def)

lemma with_mu_RUnlock:
  "mu (database s) = Reading 0 \<Longrightarrow>
   with_mu mu_RUnlock s = Inr (s\<lparr>database := (database s)\<lparr>mu := Unlocked\<rparr>\<rparr>)"
  by (simp add: with_mu_def)

lemma with_mu_held:
  "mu (database s) \<noteq> Unlocked \<Longrightarrow> with_mu mu_Lock s = Inl Deadlock"
  "mu (database s) = Writing \<Longrightarrow> with_mu mu_RLock s = Inl Deadlock"
  by (cases "mu (database s)"; simp add: with_mu_def)+

lemma unlocked_id:
  "mu (database s) = Unlocked \<Longrightarrow> s\<lparr>database := (database s)\<lparr>mu := Unlocked\<rparr>\<rparr> = s"
  by (cases s, cases "database s") simp

lemmas with_mu_simps = with_mu_Lock with_mu_RLock with_mu_Unlock with_mu_RUnlock

section \<open>The methods in closed form\<close>

lemma SaveGameState_eq:
  assumes "mu (database s) = Unlocked"
  shows "SaveGameState k r s =
           Inr (None, log_Println (''Game state saved for game '' @ k)
                  (s\<lparr>database := (database s)\<lparr>gameStates := (gameStates (database s))(k \<mapsto> r)\<rparr>\<rparr>))"
  using assms unlocked_id [of s]
  by (cases s, cases "database s")
     (simp add: SaveGameState_def with_mu_def log_Println_def)

lemma LoadGameState_eq:
  assumes "mu (database s) = Unlocked"
  shows "LoadGameState k s =
           Inr (case gameStates (database s) k of
                  None \<Rightarrow> Inl (errors_New ''game state not found'') | Some r \<Rightarrow> Inr r, s)"
  using assms
  by (cases s, cases "database s")
     (simp add: LoadGameState_def with_mu_def split: option.splits)

lemma SavePlayerProfile_eq:
  assumes "mu (database s) = Unlocked" and "deref (profiles s) r = Inr p"
  shows "SavePlayerProfile r s =
           Inr (None, log_Println (''Player profile saved for player '' @ ProfileID p)
                  (s\<lparr>database := (database s)
                       \<lparr>playerProfiles := (playerProfiles (database s))(ProfileID p \<mapsto> r)\<rparr>\<rparr>))"
  using assms
  by (cases s, cases "database s")
     (simp add: SavePlayerProfile_def with_mu_def log_Println_def)

lemma SavePlayerProfile_panics:
  assumes "mu (database s) = Unlocked" and "deref (profiles s) r = Inl e"
  shows "SavePlayerProfile r s = Inl e"
  using assms by (simp add: SavePlayerProfile_def with_mu_def)

lemma LoadPlayerProfile_eq:
  assumes "mu (database s) = Unlocked"
  shows "LoadPlayerProfile k s =
           Inr (case playerProfiles (database s) k of
                  None \<Rightarrow> Inl (errors_New ''player profile not found'') | Some r \<Rightarrow> Inr r, s)"
  using assms
  by (cases s, cases "database s")
     (simp add: LoadPlayerProfile_def with_mu_def split: option.splits)

lemma AddGameHistoryEntry_eq:
  assumes "mu (database s) = Unlocked"
  shows "AddGameHistoryEntry k r s =
           Inr (None, log_Println (''Game history entry added for game '' @ k)
                  (s\<lparr>database := (database s)
                       \<lparr>gameHistory := (gameHistory (database s))
                          (k \<mapsto> slice_at (gameHistory (database s)) k @ [r])\<rparr>\<rparr>))"
  using assms
  by (cases s, cases "database s")
     (auto simp: AddGameHistoryEntry_def with_mu_def log_Println_def slice_at_def Let_def)

lemma GetGameHistory_eq:
  assumes "mu (database s) = Unlocked"
  shows "GetGameHistory k s =
           Inr (case gameHistory (database s) k of
                  None \<Rightarrow> Inl (errors_New ''game history not found'') | Some es \<Rightarrow> Inr es, s)"
  using assms
  by (cases s, cases "database s")
     (simp add: GetGameHistory_def with_mu_def split: option.splits)

lemma Connect_no_error [simp]: "fst (Connect s) = None" "fst (Disconnect s) = None"
  by (simp_all add: Connect_def Disconnect_def)

lemmas db_eqs =
  SaveGameState_eq LoadGameState_eq SavePlayerProfile_eq LoadPlayerProfile_eq
  AddGameHistoryEntry_eq GetGameHistory_eq

lemma db_held:
  assumes "mu (database s) = Writing"
  shows "SaveGameState k r s = Inl Deadlock" "LoadGameState k s = Inl Deadlock"
    "SavePlayerProfile r s = Inl Deadlock" "LoadPlayerProfile k s = Inl Deadlock"
    "AddGameHistoryEntry k r s = Inl Deadlock" "GetGameHistory k s = Inl Deadlock"
  using assms
  by (simp_all add: SaveGameState_def LoadGameState_def SavePlayerProfile_def
      LoadPlayerProfile_def AddGameHistoryEntry_def GetGameHistory_def with_mu_def)

section \<open>The methods implement the key-value store\<close>

lemma abs_result_simps [simp]:
  "abs_result (Inl e) = Inl e" "abs_result (Inr (r, s)) = Inr (r, db_abs s)"
  by (simp_all add: abs_result_def)

lemma fields_Println [simp]:
  "database (log_Println msg s) = database s" "games (log_Println msg s) = games s"
  "profiles (log_Println msg s) = profiles s" "entries (log_Println msg s) = entries s"
  by (simp_all add: log_Println_def)

lemma fields_Sleep [simp]:
  "database (time_Sleep ms s) = database s" "games (time_Sleep ms s) = games s"
  "profiles (time_Sleep ms s) = profiles s" "entries (time_Sleep ms s) = entries s"
  by (simp_all add: time_Sleep_def)

lemma db_abs_Println [simp]: "db_abs (log_Println msg s) = db_abs s"
  by (simp add: db_abs_def)

lemma db_ok_Println [simp]: "db_ok (log_Println msg s) = db_ok s"
  by (simp add: db_ok_def)

lemma slice_at_upd [simp]: "slice_at (h(k \<mapsto> es)) = (slice_at h)(k := es)"
  by (auto simp: slice_at_def fun_eq_iff)

lemma slice_at_Nil_iff:
  "\<forall>k. h k \<noteq> Some [] \<Longrightarrow> slice_at h k = [] \<longleftrightarrow> h k = None"
  by (auto simp: slice_at_def split: option.splits)

lemma db_step_abs:
  assumes "db_ok s"
  shows "abs_result (db_step c s) = kv_step (profiles s) c (db_abs s)"
proof -
  from assms have mu: "mu (database s) = Unlocked" by (simp add: db_ok_def)
  show ?thesis
  proof (cases c)
    case (SaveProfile r)
    then show ?thesis
      using SavePlayerProfile_eq [OF mu, of r] SavePlayerProfile_panics [OF mu, of r]
      by (cases "deref (profiles s) r") (simp_all add: db_abs_def)
  next
    case (GetHistory k)
    with assms show ?thesis
      by (auto simp: GetGameHistory_eq [OF mu] db_abs_def db_ok_def slice_at_def
          split: option.splits)
  qed (simp_all add: db_eqs [OF mu] db_abs_def lookup_reply_def split: option.splits)
qed

lemma db_step_ok:
  assumes "db_ok s" and "db_step c s = Inr (r, s')"
  shows "db_ok s'" and "profiles s' = profiles s" and "games s' = games s"
    and "entries s' = entries s" and "slept s' = slept s"
proof -
  from assms(1) have mu: "mu (database s) = Unlocked" by (simp add: db_ok_def)
  have "db_ok s' \<and> profiles s' = profiles s \<and> games s' = games s \<and>
        entries s' = entries s \<and> slept s' = slept s"
  proof (cases c)
    case (SaveProfile p)
    with assms show ?thesis
      using SavePlayerProfile_eq [OF mu, of p] SavePlayerProfile_panics [OF mu, of p]
      by (cases "deref (profiles s) p") (auto simp: db_ok_def)
  qed (use assms in \<open>auto simp: db_eqs [OF mu] db_ok_def split: option.splits if_splits\<close>)
  then show "db_ok s'" and "profiles s' = profiles s" and "games s' = games s"
    and "entries s' = entries s" and "slept s' = slept s" by simp_all
qed

lemma db_run_abs:
  "db_ok s \<Longrightarrow> abs_result (db_run cs s) = kv_run (profiles s) cs (db_abs s)"
proof (induction cs arbitrary: s)
  case Nil
  show ?case by simp
next
  case (Cons c cs)
  show ?case
  proof (cases "db_step c s")
    case (Inl e)
    with db_step_abs [OF Cons.prems, of c, symmetric] show ?thesis by simp
  next
    case (Inr x)
    obtain r s' where x: "x = (r, s')" by (cases x)
    from db_step_ok [OF Cons.prems Inr [unfolded x]]
    have ok: "db_ok s'" and ps: "profiles s' = profiles s" by simp_all
    from db_step_abs [OF Cons.prems, of c] Inr x
    have "kv_step (profiles s) c (db_abs s) = Inr (r, db_abs s')" by simp
    with Cons.IH [OF ok, symmetric] Inr x ps show ?thesis
      by (cases "db_run cs s'") (auto simp: abs_result_def)
  qed
qed

lemma db_run_kv:
  assumes "db_ok s" and "db_run cs s = Inr (rs, s')"
  shows "kv_run (profiles s) cs (db_abs s) = Inr (rs, db_abs s')"
  using db_run_abs [OF assms(1), of cs] assms(2) by simp

lemma kv_run_db:
  assumes "db_ok s" and "kv_run (profiles s) cs (db_abs s) = Inr (rs, kv)"
  shows "\<exists>s'. db_run cs s = Inr (rs, s') \<and> db_abs s' = kv"
  using db_run_abs [OF assms(1), of cs] assms(2)
  by (cases "db_run cs s") (auto simp: abs_result_def)

lemma db_run_ok:
  "db_ok s \<Longrightarrow> db_run cs s = Inr (rs, s') \<Longrightarrow>
   db_ok s' \<and> length rs = length cs \<and> games s' = games s \<and> profiles s' = profiles s \<and>
   entries s' = entries s"
proof (induction cs arbitrary: s rs)
  case Nil
  then show ?case by simp
next
  case (Cons c cs)
  from Cons.prems(2) obtain r s1 rs1 where
    c: "db_step c s = Inr (r, s1)" and cs: "db_run cs s1 = Inr (rs1, s')" and rs: "rs = r # rs1"
    by (auto simp: bindR_eq_Inr_iff)
  from db_step_ok [OF Cons.prems(1) c] Cons.IH [OF _ cs] rs show ?case by simp
qed

section \<open>Facts about the key-value store\<close>

lemma kv_run_append:
  "kv_run ps (cs @ ds) kv =
     bindR (kv_run ps cs kv) (\<lambda>(rs, kv').
       bindR (kv_run ps ds kv') (\<lambda>(rs', kv''). Inr (rs @ rs', kv'')))"
proof (induction cs arbitrary: kv)
  case Nil
  show ?case by (cases "kv_run ps ds kv") auto
next
  case (Cons c cs)
  show ?case
  proof (cases "kv_step ps c kv")
    case (Inr x)
    obtain r kv1 where x: "x = (r, kv1)" by (cases x)
    show ?thesis
    proof (cases "kv_run ps cs kv1")
      case (Inr y)
      then show ?thesis
        using Cons.IH [of kv1] \<open>kv_step ps c kv = Inr x\<close> x
        by (cases "kv_run ps ds (snd y)") (auto split: prod.splits)
    qed (use Cons.IH [of kv1] \<open>kv_step ps c kv = Inr x\<close> x in simp)
  qed simp
qed

lemma kv_step_returns:
  "profile_ok ps c \<Longrightarrow> \<exists>r kv'. kv_step ps c kv = Inr (r, kv')"
  by (cases c; cases kv rule: prod_cases3) (auto simp: returns_iff)

lemma kv_run_returns:
  "list_all (profile_ok ps) cs \<Longrightarrow> \<exists>rs kv'. kv_run ps cs kv = Inr (rs, kv')"
proof (induction cs arbitrary: kv)
  case Nil
  show ?case by (simp del: split_paired_Ex)
next
  case (Cons c cs)
  from Cons.prems kv_step_returns [of ps c kv]
  obtain r kv1 where "kv_step ps c kv = Inr (r, kv1)" by auto
  with Cons.IH [of kv1] Cons.prems show ?case by auto
qed

lemma kv_step_keeps_game:
  "kv_step ps c (g, p, h) = Inr (r, (g', p', h')) \<Longrightarrow> \<not> saves_game k c \<Longrightarrow> g' k = g k"
  by (cases c) (auto simp: bindR_eq_Inr_iff)

lemma kv_run_keeps_game:
  "kv_run ps cs (g, p, h) = Inr (rs, (g', p', h')) \<Longrightarrow> \<not> list_ex (saves_game k) cs \<Longrightarrow>
   g' k = g k"
proof (induction cs arbitrary: g p h rs)
  case Nil
  then show ?case by simp
next
  case (Cons c cs)
  from Cons.prems(1) obtain r g1 p1 h1 rs1 where
    c: "kv_step ps c (g, p, h) = Inr (r, (g1, p1, h1))" and
    cs: "kv_run ps cs (g1, p1, h1) = Inr (rs1, (g', p', h'))"
    by (auto simp: bindR_eq_Inr_iff)
  from Cons.IH [OF cs] kv_step_keeps_game [OF c, of k] Cons.prems(2) show ?case by simp
qed

lemma kv_run_history:
  "kv_run ps (map (AddHistory k) es) (g, p, h) =
     Inr (replicate (length es) Done, (g, p, h(k := h k @ es)))"
  by (induction es arbitrary: h) simp_all

section \<open>Serialized tables\<close>

lemma SerializeGameState_Inr:
  "deref (games s) r = Inr g \<Longrightarrow> marshal (Some g) = Inr d \<Longrightarrow>
   SerializeGameState marshal r s = (d, None)"
  by (auto simp: SerializeGameState_def deref_Inr_iff)

lemma DeserializeGameState_Inr:
  "unmarshal d = Inr g \<Longrightarrow>
   DeserializeGameState unmarshal d s =
     ((fst (new g (games s)), None), s\<lparr>games := snd (new g (games s))\<rparr>)"
  by (simp add: DeserializeGameState_def split: prod.splits)

lemma DeserializeGameState_Inl:
  "unmarshal d = Inl e \<Longrightarrow> DeserializeGameState unmarshal d s = ((Null, Some e), s)"
  by (simp add: DeserializeGameState_def)

lemma serialized_copy:
  assumes "heap_ok (games s)" and "deref (games s) r = Inr g"
    and "marshal (Some g) = Inr d" and "unmarshal d = Inr g"
  shows "\<exists>r' s'. DeserializeGameState unmarshal (fst (SerializeGameState marshal r s)) s =
           ((r', None), s') \<and> r' \<noteq> r \<and> deref (games s') r' = Inr g \<and>
           deref (games s') r = Inr g \<and> database s' = database s"
proof -
  from assms(1,2) have v: "valid (games s) r"
    by (cases r) (auto simp: deref_def heap_ok_def split: option.splits)
  have "SerializeGameState marshal r s = (d, None)"
    using assms(2,3) by (rule SerializeGameState_Inr)
  with new_fresh [OF assms(1) v, of g] deref_new_other [OF assms(1) v, of g] assms
  show ?thesis
    by (simp add: DeserializeGameState_Inr)
qed

section \<open>What the store guarantees\<close>

lemma db_ok_new_process [simp]: "db_ok new_process"
  by (simp add: db_ok_def new_process_def NewMockSpaceTimeDB_def)

lemma db_abs_new_process:
  "db_abs new_process = (Map.empty, Map.empty, \<lambda>k. [])"
  by (simp add: db_abs_def new_process_def NewMockSpaceTimeDB_def slice_at_def fun_eq_iff)

lemma fields_new_process [simp]:
  "profiles new_process = empty_heap" "games new_process = empty_heap"
  "gameStates (database new_process) = Map.empty"
  "playerProfiles (database new_process) = Map.empty"
  "gameHistory (database new_process) = Map.empty" "mu (database new_process) = Unlocked"
  "logged new_process = []" "slept new_process = 0"
  by (simp_all add: new_process_def NewMockSpaceTimeDB_def)

text \<open>
  C9 (refinement). On a store whose lock is free, a sequence of calls of the six
  methods answers as the key-value store \<open>kv_run\<close> does and leaves the maps that
  \<open>kv_run\<close> leaves; it gives one answer per call, releases the lock, and changes no
  object the pointers point to.
\<close>

theorem db_run_implements_store:
  assumes "db_ok s"
  shows "abs_result (db_run cs s) = kv_run (profiles s) cs (db_abs s) \<and>
         (\<forall>rs s'. db_run cs s = Inr (rs, s') \<longrightarrow>
            db_ok s' \<and> length rs = length cs \<and> games s' = games s \<and>
            profiles s' = profiles s \<and> entries s' = entries s)"
  using db_run_abs [OF assms] db_run_ok [OF assms] by blast

theorem db_run_implements_store_witness:
  "db_ok new_process \<and>
   abs_result (db_run [SaveGame ''game-1'' (Ref 0), LoadGame ''game-1'', GetHistory ''game-1'']
      new_process) =
     Inr ([Done, Pointer (Ref 0), Failed (errors_New ''game history not found'')],
          ([''game-1'' \<mapsto> Ref 0], Map.empty, \<lambda>k. []))"
  using db_run_implements_store [OF db_ok_new_process,
      of "[SaveGame ''game-1'' (Ref 0), LoadGame ''game-1'', GetHistory ''game-1'']"]
  by (simp add: db_abs_new_process lookup_reply_def)

text \<open>
  C19 (liveness). No call blocks: on a store whose lock is free, every sequence of
  calls that saves no \<open>nil\<close> profile returns, with the lock free again. A call on a
  store whose lock is held for writing never returns.
\<close>

theorem db_run_never_blocks:
  assumes "db_ok s" and "list_all (profile_ok (profiles s)) cs"
  shows "\<exists>rs s'. db_run cs s = Inr (rs, s') \<and> db_ok s'"
proof -
  from kv_run_returns [OF assms(2)] obtain rs kv
    where "kv_run (profiles s) cs (db_abs s) = Inr (rs, kv)" by blast
  from kv_run_db [OF assms(1) this] obtain s' where "db_run cs s = Inr (rs, s')" by blast
  with db_run_ok [OF assms(1) this] show ?thesis by blast
qed

theorem db_run_never_blocks_witness:
  "db_ok new_process \<and>
   list_all (profile_ok (profiles new_process)) [AddHistory ''g'' Null, LoadProfile ''1''] \<and>
   (\<exists>rs s'. db_run [AddHistory ''g'' Null, LoadProfile ''1''] new_process = Inr (rs, s') \<and>
      db_ok s')"
  using db_run_never_blocks [of new_process "[AddHistory ''g'' Null, LoadProfile ''1'']"]
  by simp

text \<open>
  C17 (roundtrip). On a store whose lock is free, a pointer saved under a game
  identifier is the pointer loaded under it, whatever calls come in between, as long
  as none of them saves under the same identifier and none saves a \<open>nil\<close> profile
  (such a call panics).
\<close>

theorem saved_game_is_loaded:
  assumes "db_ok s" and "list_all (profile_ok (profiles s)) cs"
    and "\<not> list_ex (saves_game k) cs"
  shows "\<exists>rs s'. db_run (SaveGame k r # cs @ [LoadGame k]) s =
           Inr (Done # rs @ [Pointer r], s') \<and> gameStates (database s') k = Some r"
proof -
  obtain g p h where kv: "db_abs s = (g, p, h)" by (cases "db_abs s" rule: prod_cases3)
  from kv_run_returns [OF assms(2)] obtain rs g' p' h'
    where run: "kv_run (profiles s) cs (g(k \<mapsto> r), p, h) = Inr (rs, (g', p', h'))"
    by (metis prod_cases3)
  from kv_run_keeps_game [OF run assms(3)] have g': "g' k = Some r" by simp
  with run kv have "kv_run (profiles s) (SaveGame k r # cs @ [LoadGame k]) (db_abs s) =
      Inr (Done # rs @ [Pointer r], (g', p', h'))"
    by (simp add: kv_run_append lookup_reply_def)
  from kv_run_db [OF assms(1) this] g' show ?thesis by (auto simp: db_abs_def)
qed

theorem saved_game_is_loaded_witness:
  "db_ok new_process \<and>
   list_all (profile_ok (profiles new_process)) [SaveGame ''game-2'' Null] \<and>
   \<not> list_ex (saves_game ''game-1'') [SaveGame ''game-2'' Null] \<and>
   (\<exists>rs s'. db_run (SaveGame ''game-1'' (Ref 7) # [SaveGame ''game-2'' Null] @
                      [LoadGame ''game-1'']) new_process =
      Inr (Done # rs @ [Pointer (Ref 7)], s') \<and>
      gameStates (database s') ''game-1'' = Some (Ref 7))"
  using saved_game_is_loaded [of new_process "[SaveGame ''game-2'' Null]" "''game-1''" "Ref 7"]
  by simp

text \<open>
  C20 (error). A lookup fails exactly when its map has no entry for the key, with the
  error of its kind, and leaves the process as it was; on a new store every lookup
  fails.
\<close>

theorem lookup_misses:
  assumes "mu (database s) = Unlocked"
  shows "(LoadGameState k s = Inr (Inl (errors_New ''game state not found''), s)) =
           (gameStates (database s) k = None) \<and>
         (LoadPlayerProfile k s = Inr (Inl (errors_New ''player profile not found''), s)) =
           (playerProfiles (database s) k = None) \<and>
         (GetGameHistory k s = Inr (Inl (errors_New ''game history not found''), s)) =
           (gameHistory (database s) k = None)"
  by (auto simp: db_eqs [OF assms] split: option.splits)

theorem lookup_misses_witness:
  "mu (database new_process) = Unlocked \<and>
   LoadGameState ''game-1'' new_process =
     Inr (Inl (errors_New ''game state not found''), new_process) \<and>
   LoadPlayerProfile ''1'' new_process =
     Inr (Inl (errors_New ''player profile not found''), new_process) \<and>
   GetGameHistory ''game-1'' new_process =
     Inr (Inl (errors_New ''game history not found''), new_process)"
  using lookup_misses [of new_process] by simp

text \<open>
  C18 (functional). The history of a game is the list of the entries added under its
  identifier, in the order of the calls: adding \<open>es\<close> one by one extends the history by
  \<open>es\<close>, and leaves the history of every other game alone.
\<close>

theorem history_in_order:
  assumes "db_ok s" and "es \<noteq> []"
  shows "\<exists>s'. db_run (map (AddHistory k) es) s = Inr (replicate (length es) Done, s') \<and>
           GetGameHistory k s' = Inr (Inr (slice_at (gameHistory (database s)) k @ es), s') \<and>
           (\<forall>k'. k' \<noteq> k \<longrightarrow> gameHistory (database s') k' = gameHistory (database s) k')"
proof -
  let ?h = "slice_at (gameHistory (database s))"
  have "kv_run (profiles s) (map (AddHistory k) es) (db_abs s) =
      Inr (replicate (length es) Done,
           (gameStates (database s), playerProfiles (database s), ?h(k := ?h k @ es)))"
    by (simp add: db_abs_def kv_run_history)
  from kv_run_db [OF assms(1) this] obtain s' where
    run: "db_run (map (AddHistory k) es) s = Inr (replicate (length es) Done, s')" and
    abs: "slice_at (gameHistory (database s')) = ?h(k := ?h k @ es)"
    by (auto simp: db_abs_def)
  from db_run_ok [OF assms(1) run] have ok: "db_ok s'" by simp
  then have mu: "mu (database s') = Unlocked" by (simp add: db_ok_def)
  have at: "gameHistory (database s') k' = gameHistory (database s) k'" if "k' \<noteq> k" for k'
    using fun_cong [OF abs, of k'] that ok assms(1)
    by (auto simp: slice_at_def db_ok_def split: option.splits)
  have "gameHistory (database s') k = Some (?h k @ es)"
    using fun_cong [OF abs, of k] assms(2) by (auto simp: slice_at_def split: option.splits)
  with run at show ?thesis by (simp add: GetGameHistory_eq [OF mu])
qed

theorem history_in_order_witness:
  "db_ok new_process \<and> [Ref 1, Ref 0, Ref 1] \<noteq> [] \<and>
   (\<exists>s'. db_run (map (AddHistory ''game-1'') [Ref 1, Ref 0, Ref 1]) new_process =
            Inr (replicate (length [Ref 1, Ref 0, Ref 1]) Done, s') \<and>
      GetGameHistory ''game-1'' s' = Inr (Inr [Ref 1, Ref 0, Ref 1], s'))"
  using history_in_order [of new_process "[Ref 1, Ref 0, Ref 1]" "''game-1''"]
  by (auto simp: slice_at_def)

text \<open>
  Saving a \<open>nil\<close> profile panics with a nil pointer dereference, having
  written nothing; on a store whose lock is held it does not get that far.
\<close>

theorem SavePlayerProfile_nil_panics:
  "SavePlayerProfile Null s =
     Inl (if mu (database s) = Unlocked then NilDereference else Deadlock)"
  by (cases "mu (database s)") (simp_all add: SavePlayerProfile_def with_mu_def)

end
