(* ===== verification/Program_Model.thy ===== *)
theory Program_Model
  imports DB_Model Game_View
begin

text \<open>
  The program (\<open>src/cmd/poker/main.go\<close>): the store, the table and the window together.

  \<^item> In the component theories a table is a value and a method returns the table it
    leaves. In the program the table is one object, and both the controller and the
    store hold a pointer to it. \<open>GameUIObj\<close> is the struct \<open>GameUI\<close> with that pointer;
    a \<open>Program\<close> is the process of the store, with the heap of tables, and the struct.
    \<open>load_ui\<close> reads the table behind the pointer, \<open>store_ui\<close> writes through it; a
    method call on the struct is a \<open>load_ui\<close>, the method on values, and a \<open>store_ui\<close>.
  \<^item> \<open>main_connect\<close> is the process after \<open>Connect\<close>, and \<open>run_setup\<close> is \<open>run\<close> up to
    the event loop; \<open>frame_event\<close> is the body of the loop for a frame; \<open>run_loop\<close> is
    the loop over the events that arrive, among them the calls of the callback
    \<open>startNewGame\<close> that \<open>main\<close> registers.
  \<^item> \<open>main\<close> is the whole program. Its two error branches are branches of the model
    (\<open>Connect\<close> and \<open>SaveGameState\<close> never return an error, so neither is taken; in the
    first no window exists yet, and the result shows \<open>zero_GameUIObj\<close>, the zero value
    of the struct). \<open>defer mockDB.Disconnect()\<close> is the list of deferred calls that
    \<open>main\<close> hands to \<open>process_end\<close>. \<open>window_goroutine\<close> is the function that \<open>main\<close>
    starts with \<open>go\<close>: it ends the process with \<open>os.Exit(0)\<close> or \<open>log.Fatal\<close> when
    \<open>run\<close> returns; while \<open>run\<close> waits for an event, \<open>main\<close> itself sits in
    \<open>app.Main()\<close>, which does not return on \<open>js/wasm\<close>, the only target the program
    compiles for (it imports \<open>syscall/js\<close>): the process is \<open>Blocked\<close>.
  \<^item> The lemmas show that the program never panics, that the table behind the pointer
    is a state of \<open>reachable\<close>, that the store keeps returning the pointer to the live
    table, and what the process has logged when it ends.
\<close>

section \<open>The struct behind the window\<close>

record GameUIObj =
  objTheme :: Theme
  objGameState :: ref
  objBetAmount :: int
  objWindowSize :: Point

type_synonym Program = "DBProcess \<times> GameUIObj"

definition load_ui :: "Program \<Rightarrow> GameUI result" where
  "load_ui p =
     bindR (deref (games (fst p)) (objGameState (snd p))) (\<lambda>g.
       Inr \<lparr>theme = objTheme (snd p), gameState = g, betAmount = objBetAmount (snd p),
            windowSize = objWindowSize (snd p)\<rparr>)"

definition store_ui :: "GameUI \<Rightarrow> Program \<Rightarrow> Program result" where
  "store_ui ui p =
     bindR (assign (objGameState (snd p)) (gameState ui) (games (fst p))) (\<lambda>h.
       Inr ((fst p)\<lparr>games := h\<rparr>,
            (snd p)\<lparr>objTheme := theme ui, objBetAmount := betAmount ui,
                    objWindowSize := windowSize ui\<rparr>))"

section \<open>Starting up\<close>

definition main_connect :: DBProcess where
  "main_connect = snd (Connect new_process)"

definition run_setup :: "(nat \<Rightarrow> nat) \<Rightarrow> DBProcess \<Rightarrow> Program result" where
  "run_setup rnd s =
     (let (gameState, h) = new (NewGameState sample_players 5 10) (games s)
      in bindR (deref h gameState) (\<lambda>g.
         bindR (StartNewHand rnd g) (\<lambda>g'.
         bindR (assign gameState g' h) (\<lambda>h'.
         bindR (SaveGameState ''game-1'' gameState (s\<lparr>games := h'\<rparr>)) (\<lambda>(err, s1).
           let s2 = (case err of
                       None \<Rightarrow> s1
                     | Some (errors_New msg) \<Rightarrow>
                         log_Println (''Failed to save game state: '' @ msg) s1)
           in Inr (s2, \<lparr>objTheme = NewTheme, objGameState = gameState,
                        objBetAmount = BigBlind g', objWindowSize = (0, 0)\<rparr>))))))"

section \<open>The event loop\<close>

datatype Event = DestroyEvent "error option" | FrameEvent Point Clicks | StartNewGameCall

datatype 'a ended = Waiting 'a | Returned "error option" 'a

definition frame_event :: "Point \<Rightarrow> Clicks \<Rightarrow> Program \<Rightarrow> (Scene \<times> Program) result" where
  "frame_event sz c p =
     bindR (load_ui p) (\<lambda>ui.
     bindR (Layout sz c (SetWindowSize sz ui)) (\<lambda>(scene, ui').
     bindR (store_ui ui' p) (\<lambda>p'. Inr (scene, p'))))"

fun run_loop ::
  "Event list \<Rightarrow> Scene list \<Rightarrow> Program \<Rightarrow> (Scene list \<times> Program) ended result" where
  "run_loop [] frames p = Inr (Waiting (frames, p))"
| "run_loop (DestroyEvent err # es) frames p = Inr (Returned err (frames, p))"
| "run_loop (FrameEvent sz c # es) frames p =
     bindR (frame_event sz c p) (\<lambda>(scene, p'). run_loop es (frames @ [scene]) p')"
| "run_loop (StartNewGameCall # es) frames p =
     run_loop es frames (log_Println ''Starting new game from JavaScript'' (fst p), snd p)"

definition run ::
  "(nat \<Rightarrow> nat) \<Rightarrow> Event list \<Rightarrow> DBProcess \<Rightarrow> (Scene list \<times> Program) ended result" where
  "run rnd es s = bindR (run_setup rnd s) (run_loop es [])"

definition zero_GameUIObj :: GameUIObj where
  "zero_GameUIObj =
     \<lparr>objTheme = NewTheme, objGameState = Null, objBetAmount = 0, objWindowSize = (0, 0)\<rparr>"

fun window_goroutine :: "(Scene list \<times> Program) ended \<Rightarrow> (Scene list \<times> Program) leave" where
  "window_goroutine (Waiting x) = Blocked x"
| "window_goroutine (Returned None x) = Exit 0 x"
| "window_goroutine (Returned (Some (errors_New msg)) x) =
     Exit 1 (fst x, (log_Println msg (fst (snd x)), snd (snd x)))"

definition deferred_Disconnect :: "Scene list \<times> Program \<Rightarrow> Scene list \<times> Program" where
  "deferred_Disconnect x = (fst x, (snd (Disconnect (fst (snd x))), snd (snd x)))"

definition main ::
  "(nat \<Rightarrow> nat) \<Rightarrow> Event list \<Rightarrow> (int option \<times> Scene list \<times> Program) result" where
  "main rnd es =
     (case Connect new_process of
        (Some (errors_New msg), s) \<Rightarrow>
          Inr (process_end []
            (Exit 1 ([], (log_Println (''Failed to connect to database: '' @ msg) s,
                          zero_GameUIObj))))
      | (None, s) \<Rightarrow>
          bindR (run rnd es s) (\<lambda>r.
            Inr (process_end [deferred_Disconnect] (window_goroutine r))))"

section \<open>Reading and writing through the pointer\<close>

lemma load_ui_Inr_iff:
  "load_ui p = Inr ui \<longleftrightarrow>
     deref (games (fst p)) (objGameState (snd p)) = Inr (gameState ui) \<and>
     theme ui = objTheme (snd p) \<and> betAmount ui = objBetAmount (snd p) \<and>
     windowSize ui = objWindowSize (snd p)"
  by (cases ui) (auto simp: load_ui_def bindR_eq_Inr_iff)

lemma store_ui_load_ui:
  assumes "load_ui p = Inr ui"
  shows "\<exists>p'. store_ui ui' p = Inr p' \<and> load_ui p' = Inr ui' \<and>
           database (fst p') = database (fst p) \<and> logged (fst p') = logged (fst p) \<and>
           slept (fst p') = slept (fst p) \<and> objGameState (snd p') = objGameState (snd p)"
proof -
  from assms obtain a where a: "objGameState (snd p) = Ref a"
    "cells (games (fst p)) a = Some (gameState ui)"
    by (auto simp: load_ui_Inr_iff deref_Inr_iff)
  then have "assign (Ref a) (gameState ui') (games (fst p)) =
      Inr ((games (fst p))\<lparr>cells := (cells (games (fst p)))(a \<mapsto> gameState ui')\<rparr>)"
    by (simp add: assign_Inr_iff)
  with a show ?thesis
    by (simp add: store_ui_def load_ui_Inr_iff deref_Ref)
qed

section \<open>The invariant of the program\<close>

definition start_log :: "string list" where
  "start_log =
     [''Connecting to SpaceTimeDB (mock)...'', ''Connected to SpaceTimeDB (mock)'',
      ''Game state saved for game game-1'']"

definition prog_inv :: "Program \<Rightarrow> bool" where
  "prog_inv p =
     (db_ok (fst p) \<and> gameStates (database (fst p)) ''game-1'' = Some (objGameState (snd p)) \<and>
      (\<exists>ui. load_ui p = Inr ui \<and> reachable ui) \<and>
      take 3 (logged (fst p)) = start_log \<and>
      list_all (\<lambda>l. l = ''Starting new game from JavaScript'') (drop 3 (logged (fst p))) \<and>
      slept (fst p) = 500)"

lemma main_connect_fields [simp]:
  "games main_connect = empty_heap" "database main_connect = NewMockSpaceTimeDB"
  "logged main_connect = [''Connecting to SpaceTimeDB (mock)...'', ''Connected to SpaceTimeDB (mock)'']"
  "slept main_connect = 500"
  by (simp_all add: main_connect_def Connect_def new_process_def)

lemma run_setup_eq:
  "\<exists>p. run_setup rnd main_connect = Inr p \<and>
     load_ui p = Inr (NewGameUI NewTheme (started rnd sample_table)) \<and>
     database (fst p) = NewMockSpaceTimeDB\<lparr>gameStates := [''game-1'' \<mapsto> objGameState (snd p)]\<rparr> \<and>
     logged (fst p) = start_log \<and> slept (fst p) = 500"
proof -
  have mu: "mu (database (main_connect\<lparr>games := h\<rparr>)) = Unlocked" for h
    by (simp add: NewMockSpaceTimeDB_def)
  have "StartNewHand rnd (NewGameState sample_players 5 10) = Inr (started rnd sample_table)"
    using first_hand_eq [of rnd] by (simp add: first_hand_def sample_table_def)
  then show ?thesis
    by (simp add: run_setup_def new_def empty_heap_def deref_def assign_def
        SaveGameState_eq [OF mu] load_ui_def NewGameUI_def start_log_def NewMockSpaceTimeDB_def)
qed

lemma prog_inv_setup: "\<exists>p. run_setup rnd main_connect = Inr p \<and> prog_inv p"
proof -
  from run_setup_eq [of rnd] obtain p where
    p: "run_setup rnd main_connect = Inr p"
      "load_ui p = Inr (NewGameUI NewTheme (started rnd sample_table))"
      "database (fst p) = NewMockSpaceTimeDB\<lparr>gameStates := [''game-1'' \<mapsto> objGameState (snd p)]\<rparr>"
      "logged (fst p) = start_log" "slept (fst p) = 500" by blast
  then have "prog_inv p"
    using reachable_first_hand [of rnd]
    by (auto simp: prog_inv_def db_ok_def NewMockSpaceTimeDB_def start_log_def)
  with p(1) show ?thesis by blast
qed

lemma frame_event_prog_inv:
  assumes "prog_inv p"
  shows "\<exists>scene p'. frame_event sz c p = Inr (scene, p') \<and> prog_inv p' \<and>
           buttons scene = button_list"
proof -
  from assms obtain ui where ui: "load_ui p = Inr ui" "reachable ui"
    by (auto simp: prog_inv_def)
  then have r: "reachable (SetWindowSize sz ui)" by (simp add: reachable.resize)
  then have "table_inv (gameState (SetWindowSize sz ui))"
    using reachable_program_inv by (auto simp: program_inv_def)
  from Layout_safe [OF this, of sz c] obtain scene ui' where
    l: "Layout sz c (SetWindowSize sz ui) = Inr (scene, ui')"
      "handleButtonClicks c (SetWindowSize sz ui) = Inr ui'" "buttons scene = button_list"
    by blast
  from r l(2) have r': "reachable ui'" by (rule reachable.frame)
  from store_ui_load_ui [OF ui(1), of ui'] obtain p' where
    p': "store_ui ui' p = Inr p'" "load_ui p' = Inr ui'"
      "database (fst p') = database (fst p)" "logged (fst p') = logged (fst p)"
      "slept (fst p') = slept (fst p)" "objGameState (snd p') = objGameState (snd p)"
    by blast
  with assms r' have "prog_inv p'" by (auto simp: prog_inv_def db_ok_def)
  with ui(1) l p'(1) show ?thesis by (simp add: frame_event_def)
qed

lemma callback_prog_inv:
  assumes "prog_inv p"
  shows "prog_inv (log_Println ''Starting new game from JavaScript'' (fst p), snd p)"
proof -
  from assms have "length (logged (fst p)) \<ge> 3"
    by (auto simp: prog_inv_def start_log_def dest: arg_cong [of _ _ length])
  with assms show ?thesis
    by (auto simp: prog_inv_def load_ui_def)
qed

fun first_destroy :: "Event list \<Rightarrow> error option option" where
  "first_destroy [] = None"
| "first_destroy (DestroyEvent err # es) = Some err"
| "first_destroy (e # es) = first_destroy es"

fun exit_status :: "error option option \<Rightarrow> int option" where
  "exit_status None = None"
| "exit_status (Some None) = Some 0"
| "exit_status (Some (Some e)) = Some 1"

fun how :: "'a ended \<Rightarrow> error option option" where
  "how (Waiting x) = None"
| "how (Returned e x) = Some e"

fun final :: "'a ended \<Rightarrow> 'a" where
  "final (Waiting x) = x"
| "final (Returned e x) = x"

lemma run_loop_prog_inv:
  "prog_inv p \<Longrightarrow>
   \<exists>r new. run_loop es frames p = Inr r \<and> prog_inv (snd (final r)) \<and>
     fst (final r) = frames @ new \<and> length new \<le> length es \<and>
     list_all (\<lambda>s. buttons s = button_list) new"
proof (induction es arbitrary: frames p)
  case Nil
  then show ?case by simp
next
  case (Cons e es)
  show ?case
  proof (cases e)
    case (DestroyEvent err)
    with Cons.prems show ?thesis by simp
  next
    case (FrameEvent sz c)
    from frame_event_prog_inv [OF Cons.prems, of sz c] obtain scene p' where
      f: "frame_event sz c p = Inr (scene, p')" "prog_inv p'" "buttons scene = button_list"
      by blast
    from Cons.IH [OF f(2), of "frames @ [scene]"] obtain r new where
      "run_loop es (frames @ [scene]) p' = Inr r" "prog_inv (snd (final r))"
      "fst (final r) = frames @ scene # new" "length new \<le> length es"
      "list_all (\<lambda>s. buttons s = button_list) new"
      by auto
    with FrameEvent f show ?thesis by simp
  next
    case StartNewGameCall
    with Cons.IH [OF callback_prog_inv [OF Cons.prems], of frames] show ?thesis
      by (auto intro: le_SucI)
  qed
qed

lemma run_loop_how: "run_loop es frames p = Inr r \<Longrightarrow> how r = first_destroy es"
proof (induction es arbitrary: frames p)
  case Nil
  then show ?case by auto
next
  case (Cons e es)
  then show ?case by (cases e) (auto simp: bindR_eq_Inr_iff)
qed

lemma run_prog_inv:
  "\<exists>r. run rnd es main_connect = Inr r \<and> prog_inv (snd (final r)) \<and>
     length (fst (final r)) \<le> length es \<and>
     list_all (\<lambda>s. buttons s = button_list) (fst (final r)) \<and> how r = first_destroy es"
proof -
  from prog_inv_setup [of rnd] obtain p where
    p: "run_setup rnd main_connect = Inr p" "prog_inv p" by blast
  from run_loop_prog_inv [OF p(2), of es "[]"] obtain r where
    r: "run_loop es [] p = Inr r" "prog_inv (snd (final r))"
      "length (fst (final r)) \<le> length es"
      "list_all (\<lambda>s. buttons s = button_list) (fst (final r))" by auto
  with p(1) run_loop_how [OF r(1)] show ?thesis by (simp add: run_def)
qed

lemma main_run:
  "main rnd es =
     bindR (run rnd es main_connect) (\<lambda>r.
       Inr (process_end [deferred_Disconnect] (window_goroutine r)))"
  by (simp add: main_def main_connect_def Connect_def)

lemma window_goroutine_leaves:
  "window_goroutine r \<noteq> Return x"
  "fst (process_end ds (window_goroutine r)) = exit_status (how r)"
  by (cases r rule: window_goroutine.cases; simp)+

lemma main_eq:
  assumes "run rnd es main_connect = Inr r"
  shows "\<exists>p. main rnd es = Inr (exit_status (how r), fst (final r), p) \<and>
           snd p = snd (snd (final r)) \<and> database (fst p) = database (fst (snd (final r))) \<and>
           games (fst p) = games (fst (snd (final r))) \<and>
           slept (fst p) = slept (fst (snd (final r))) \<and>
           take (length (logged (fst (snd (final r))))) (logged (fst p)) =
             logged (fst (snd (final r)))"
  using assms by (cases r rule: window_goroutine.cases) (auto simp: main_run prod_eq_iff)

lemma main_returns: "\<exists>status frames p. main rnd es = Inr (status, frames, p)"
  using run_prog_inv [of rnd es] main_eq [of rnd es] by blast

text \<open>
  The deferred \<open>Disconnect\<close> never runs. \<open>main\<close> registers it, but the process ends in
  the goroutine of the window, by \<open>os.Exit\<close> or \<open>log.Fatal\<close>, or it is still waiting; it
  never ends by a return of \<open>main\<close>, which alone would run the call, log two more
  lines and sleep 200 more milliseconds.
\<close>

lemma window_goroutine_no_deferred:
  "process_end ds (window_goroutine r) = process_end [] (window_goroutine r)"
  by (rule process_end_not_Return) (rule window_goroutine_leaves)

lemma main_runs_no_deferred_call:
  "main rnd es =
     bindR (run rnd es main_connect) (\<lambda>r. Inr (process_end [] (window_goroutine r)))"
  unfolding main_run by (subst window_goroutine_no_deferred) (rule refl)

lemma return_would_disconnect:
  "process_end [deferred_Disconnect] (Return (frames, s, w)) =
     (Some 0, frames,
      log_Println ''Disconnected from SpaceTimeDB (mock)''
        (time_Sleep 200 (log_Println ''Disconnecting from SpaceTimeDB (mock)...'' s)), w)"
  by (simp add: deferred_Disconnect_def Disconnect_def)

section \<open>What the program guarantees\<close>

definition fold_click :: Clicks where
  "fold_click = no_clicks\<lparr>foldClicked := True\<rparr>"

lemma main_fold_scenario:
  "(case main (\<lambda>i. i) [FrameEvent (800, 600) fold_click] of
      Inr (st, fr, p) \<Rightarrow>
        (case deref (games (fst p)) (objGameState (snd p)) of
           Inr g \<Rightarrow> map Status (Players g) = [Folded, Active, Active, Active]
         | Inl e \<Rightarrow> False)
    | Inl e \<Rightarrow> False)"
  by code_simp

text \<open>
  C2 (safety). The program never panics, whatever events arrive and however the deck
  is shuffled: connecting, setting up the table, saving it, every frame and every
  call of the callback return. When it ends or waits for the next event, the pointer
  of the window points to a table that is a state of \<open>reachable\<close>, so the table
  satisfies the invariants and holds 4000 chips; one scene was drawn per frame at
  most, each with the six buttons.
\<close>

theorem main_never_panics:
  "\<exists>status frames p ui. main rnd es = Inr (status, frames, p) \<and>
     load_ui p = Inr ui \<and> reachable ui \<and> table_inv (gameState ui) \<and>
     in_play (gameState ui) = 4000 \<and> length frames \<le> length es \<and>
     list_all (\<lambda>s. buttons s = button_list) frames"
proof -
  from run_prog_inv [of rnd es] obtain r where
    r: "run rnd es main_connect = Inr r" "prog_inv (snd (final r))"
      "length (fst (final r)) \<le> length es"
      "list_all (\<lambda>s. buttons s = button_list) (fst (final r))" by blast
  from r(2) obtain ui where ui: "load_ui (snd (final r)) = Inr ui" "reachable ui"
    by (auto simp: prog_inv_def)
  from main_eq [OF r(1)] obtain p where
    p: "main rnd es = Inr (exit_status (how r), fst (final r), p)"
      "snd p = snd (snd (final r))" "games (fst p) = games (fst (snd (final r)))" by blast
  from ui(1) p(2,3) have "load_ui p = Inr ui" by (simp add: load_ui_def)
  with p(1) ui(2) r(3,4) reachable_program_inv [OF ui(2)] show ?thesis
    by (auto simp: program_inv_def)
qed

theorem main_never_panics_witness:
  "\<exists>status frames p ui.
     main (\<lambda>i. i) [FrameEvent (800, 600) fold_click, StartNewGameCall, DestroyEvent None] =
       Inr (status, frames, p) \<and>
     load_ui p = Inr ui \<and> in_play (gameState ui) = 4000 \<and> length frames \<le> 3"
  using main_never_panics
    [of "\<lambda>i. i" "[FrameEvent (800, 600) fold_click, StartNewGameCall, DestroyEvent None]"]
  by auto

text \<open>
  C6 (refinement). The store does not hold a snapshot of the table: it holds the
  pointer that the window holds. Whenever the program ends or waits, loading
  \<open>game-1\<close> succeeds and gives the pointer of the window, and the table behind it is
  the table as the clicks so far have left it, not the table that was saved before
  the first frame.
\<close>

theorem store_returns_the_live_table:
  assumes "main rnd es = Inr (status, frames, p)"
  shows "\<exists>ui. LoadGameState ''game-1'' (fst p) = Inr (Inr (objGameState (snd p)), fst p) \<and>
           load_ui p = Inr ui \<and> reachable ui \<and>
           deref (games (fst p)) (objGameState (snd p)) = Inr (gameState ui)"
proof -
  from run_prog_inv [of rnd es] obtain r where
    r: "run rnd es main_connect = Inr r" "prog_inv (snd (final r))" by blast
  from r(2) obtain ui where ui: "load_ui (snd (final r)) = Inr ui" "reachable ui"
    by (auto simp: prog_inv_def)
  from main_eq [OF r(1)] assms have
    p: "snd p = snd (snd (final r))" "games (fst p) = games (fst (snd (final r)))"
      "database (fst p) = database (fst (snd (final r)))" by auto
  from ui(1) p have l: "load_ui p = Inr ui" by (simp add: load_ui_def)
  from r(2) p have "mu (database (fst p)) = Unlocked"
    "gameStates (database (fst p)) ''game-1'' = Some (objGameState (snd p))"
    by (simp_all add: prog_inv_def db_ok_def)
  with l ui(2) show ?thesis
    by (auto simp: LoadGameState_eq load_ui_Inr_iff)
qed

theorem store_returns_the_live_table_witness:
  "\<exists>status frames p (ui :: GameUI).
     main (\<lambda>i. i) [FrameEvent (800, 600) fold_click] = Inr (status, frames, p) \<and>
     LoadGameState ''game-1'' (fst p) = Inr (Inr (objGameState (snd p)), fst p) \<and>
     deref (games (fst p)) (objGameState (snd p)) = Inr (gameState ui) \<and>
     map Status (Players (gameState ui)) = [Folded, Active, Active, Active]"
proof -
  from main_returns obtain st fr p where
    m: "main (\<lambda>i. i) [FrameEvent (800, 600) fold_click] = Inr (st, fr, p)" by blast
  from main_fold_scenario have
    "case deref (games (fst p)) (objGameState (snd p)) of
       Inr g \<Rightarrow> map Status (Players g) = [Folded, Active, Active, Active] | Inl e \<Rightarrow> False"
    unfolding m by simp
  then obtain g where
    g: "deref (games (fst p)) (objGameState (snd p)) = Inr g"
      "map Status (Players g) = [Folded, Active, Active, Active]"
    by (cases "deref (games (fst p)) (objGameState (snd p))") simp_all
  from store_returns_the_live_table [OF m] obtain ui :: GameUI where
    u: "LoadGameState ''game-1'' (fst p) = Inr (Inr (objGameState (snd p)), fst p)"
      "deref (games (fst p)) (objGameState (snd p)) = Inr (gameState ui)" by blast
  from u(2) g have "map Status (Players (gameState ui)) = [Folded, Active, Active, Active]"
    by simp
  with m u have
    "main (\<lambda>i. i) [FrameEvent (800, 600) fold_click] = Inr (st, fr, p) \<and>
     LoadGameState ''game-1'' (fst p) = Inr (Inr (objGameState (snd p)), fst p) \<and>
     deref (games (fst p)) (objGameState (snd p)) = Inr (gameState ui) \<and>
     map Status (Players (gameState ui)) = [Folded, Active, Active, Active]"
    by (intro conjI)
  then show ?thesis by - (rule exI)+
qed

text \<open>
  C23 (functional). What the process has logged and how it ends. The log starts with
  the two lines of \<open>Connect\<close> and the line of \<open>SaveGameState\<close>; the process has slept
  the 500 milliseconds of \<open>Connect\<close> and never the 200 of \<open>Disconnect\<close>: \<open>main\<close> defers
  that call, but the process ends through \<open>os.Exit\<close> or \<open>log.Fatal\<close> in the goroutine of
  the window, and \<open>process_end\<close> runs the deferred calls only when \<open>main\<close> returns. The
  exit status is 0 when the first window event that ends the loop carries no error,
  1 when it carries one, and there is none while no such event has arrived.
\<close>

theorem main_log_and_exit:
  assumes "main rnd es = Inr (status, frames, p)"
  shows "take 3 (logged (fst p)) = start_log \<and> slept (fst p) = 500 \<and>
         status = exit_status (first_destroy es)"
proof -
  from run_prog_inv [of rnd es] obtain r where
    r: "run rnd es main_connect = Inr r" "prog_inv (snd (final r))"
      "how r = first_destroy es" by blast
  let ?s = "fst (snd (final r))"
  from r(2) have s: "take 3 (logged ?s) = start_log" "slept ?s = 500"
    by (simp_all add: prog_inv_def)
  then have len: "3 \<le> length (logged ?s)"
    by (auto simp: start_log_def dest: arg_cong [of _ _ length])
  from main_eq [OF r(1)] assms r(3) have
    m: "status = exit_status (first_destroy es)" "slept (fst p) = slept ?s"
      "take (length (logged ?s)) (logged (fst p)) = logged ?s" by auto
  from len have "take 3 (logged (fst p)) = take 3 (take (length (logged ?s)) (logged (fst p)))"
    by (simp add: min_def)
  with m s show ?thesis by simp
qed

theorem main_log_and_exit_witness:
  "\<exists>frames p.
     main (\<lambda>i. i) [StartNewGameCall, DestroyEvent (Some (errors_New ''closed'')),
                    FrameEvent (800, 600) fold_click] = Inr (Some 1, frames, p) \<and>
     take 3 (logged (fst p)) = start_log \<and> slept (fst p) = 500"
proof -
  let ?es = "[StartNewGameCall, DestroyEvent (Some (errors_New ''closed'')),
              FrameEvent (800, 600) fold_click]"
  from main_returns [of "\<lambda>i. i" ?es] obtain st fr p
    where m: "main (\<lambda>i. i) ?es = Inr (st, fr, p)" by blast
  from main_log_and_exit [OF m] m show ?thesis by simp
qed

end
