(* ===== verification/Server_Model.thy ===== *)
theory Server_Model
  imports Go_Heap "HOL-Library.Sublist"
begin

text \<open>
  The file server (\<open>src/cmd/server/main.go\<close>).

  \<^item> \<open>handler\<close> is the function that \<open>main\<close> registers for every path: it sets the
    content type of a path that ends in \<open>.wasm\<close> and hands the request to the file
    server of the standard library, which is the argument \<open>fs\<close> here and not modelled.
    A \<open>Header\<close> is the \<open>http.Header\<close> of the response, \<open>header_Set\<close> its method \<open>Set\<close>.
  \<^item> \<open>server_main\<close> is \<open>main\<close>: the line it logs, the requests it serves until
    \<open>http.ListenAndServe\<close> returns its error, and the exit of \<open>log.Fatal\<close>.
  \<^item> The lemmas show which requests get the content type and that the server ends
    with status 1 after logging the error.
\<close>

section \<open>The handler\<close>

type_synonym Header = "string \<rightharpoonup> string list"

record Request =
  URLPath :: string

definition header_Set :: "string \<Rightarrow> string \<Rightarrow> Header \<Rightarrow> Header" where
  "header_Set k v h = h(k \<mapsto> [v])"

definition handler :: "(Header \<Rightarrow> Request \<Rightarrow> 'r) \<Rightarrow> Header \<Rightarrow> Request \<Rightarrow> 'r" where
  "handler fs w r =
     (let w' = (if suffix ''.wasm'' (URLPath r)
                then header_Set ''Content-Type'' ''application/wasm'' w else w)
      in fs w' r)"

definition server_main ::
  "(Header \<Rightarrow> Request \<Rightarrow> 'r) \<Rightarrow> Request list \<Rightarrow> string \<Rightarrow> Runtime \<Rightarrow> 'r list \<times> int \<times> Runtime" where
  "server_main fs requests err s =
     (let s1 = log_Println ''Starting server on :8080...'' s;
          responses = map (handler fs Map.empty) requests
      in (responses, 1, log_Println err s1))"

section \<open>What the server guarantees\<close>

lemma handler_wasm:
  "suffix ''.wasm'' (URLPath r) \<Longrightarrow>
   handler fs w r = fs (w(''Content-Type'' \<mapsto> [''application/wasm''])) r"
  by (simp add: handler_def header_Set_def)

lemma handler_other: "\<not> suffix ''.wasm'' (URLPath r) \<Longrightarrow> handler fs w r = fs w r"
  by (simp add: handler_def)

text \<open>
  The file server sees the content type \<open>application/wasm\<close> on the
  response of a request exactly when the path of the request ends in \<open>.wasm\<close>, unless
  the header had it before; every other field of the header reaches it unchanged.
  The server serves every request, logs its start and the error that ends it, and
  exits with status 1.
\<close>

theorem handler_sets_wasm_type:
  "handler (\<lambda>w r. w k) w r =
     (if k = ''Content-Type'' \<and> suffix ''.wasm'' (URLPath r) then Some [''application/wasm'']
      else w k) \<and>
   server_main fs requests err s =
     (map (handler fs Map.empty) requests, 1,
      s\<lparr>logged := logged s @ [''Starting server on :8080...'', err]\<rparr>)"
  by (simp add: handler_def header_Set_def server_main_def log_Println_def)

end
