(* ===== verification/Spec2Isabelle.thy ===== *)
theory Spec2Isabelle
  imports Go_Prelude Go_Heap Deck_Model Player_Model Hand_Model Game_Model Game_Seats Seat_Search
    Game_Frame Game_Start Game_Chips Game_Cards Game_Phase Game_UI Game_View DB_Model
    Program_Model Server_Model
begin

text \<open>
  \<^bold>\<open>A verification development for go-wasm-poker.\<close>

  The program is a Texas Hold'em table written in Go. Package \<open>game\<close>
  (\<open>src/pkg/game\<close>) is the engine: cards and the deck (\<open>card.go\<close>), a seat and its chips
  (\<open>player.go\<close>), the hand evaluator (\<open>hand.go\<close>) and the table with its betting state
  machine (\<open>game.go\<close>). Package \<open>ui\<close> (\<open>src/pkg/ui\<close>) draws the table and turns button
  clicks into calls of \<open>ProcessAction\<close>; package \<open>db\<close> (\<open>src/pkg/db\<close>) is an in-memory
  store of tables, profiles and histories; \<open>src/cmd/poker/main.go\<close> seats four players,
  starts the first hand and runs the window, \<open>src/cmd/server/main.go\<close> serves files.

  The parts meet in \<open>main.go\<close>: \<open>main\<close> creates the store and connects, \<open>run\<close> seats
  the players, starts the first hand on a table it allocates, saves the pointer to
  that table in the store and hands the same pointer to the window; every frame lays
  the table out and then lets the clicks of the frame act on it.

  \<^bold>\<open>How Go is modelled\<close> (theories \<open>Go_Prelude\<close> and \<open>Go_Heap\<close>).
  A struct is a record, an \<open>iota\<close> enumeration a datatype with its numbering as a
  function (\<open>Suit_int\<close>, \<open>Rank_int\<close>, \<open>PlayerAction_int\<close>, \<open>HandRank_int\<close>,
  \<open>GamePhase_int\<close>). A method with a pointer receiver takes the value and returns the
  new value. A run-time panic is a value: \<open>'a result\<close> is \<open>panic + 'a\<close>, \<open>go_index\<close> is
  indexing (\<open>IndexOutOfRange\<close>), \<open>go_mod\<close> is \<open>%\<close> (truncated remainder, \<open>DivideByZero\<close>),
  \<open>Draw\<close> slices (\<open>SliceBoundsOutOfRange\<close>); \<open>bindR\<close> sequences calls that may panic.
  Go's \<open>int\<close> is modelled as \<open>int\<close>: theorem \<open>reachable_amounts_bounded\<close> shows that in
  the running program every amount stays between -15 and 4000, so no computation
  comes near the 64-bit range. \<open>Players\<close> is a slice of pointers in Go and a list of
  records here; the two agree because \<open>run\<close> seats four distinct players and no method
  stores a player twice. The names \<open>PCards\<close>, \<open>PBet\<close>, \<open>Player_Fold\<close>, \<open>Pair_hand\<close>, \<open>HRank\<close>,
  \<open>HCards\<close> and \<open>HValue\<close> stand for \<open>Cards\<close>, \<open>Bet\<close>, \<open>Fold\<close>, \<open>Pair\<close>, \<open>Rank\<close>, \<open>Cards\<close> and
  \<open>Value\<close> of the source, which are taken by other fields and constructors.
  Because the enumerations are datatypes, a value outside an enumeration cannot be
  written down: the \<open>default\<close> branches of the \<open>String\<close> methods and of the \<open>switch\<close> in
  \<open>ProcessAction\<close> have no counterpart.
  Where two parts of the program hold the same object, pointers are explicit
  (\<open>Go_Heap\<close>): a \<open>ref\<close> is \<open>Null\<close> or an address into an \<open>'a heap\<close>, \<open>deref\<close> panics on
  \<open>nil\<close> (\<open>NilDereference\<close>), \<open>new\<close> allocates, \<open>assign\<close> writes through the pointer. The
  lock of the store is an \<open>RWMutex\<close>: with one goroutine a lock that is held is never
  released, so taking it is the fatal error \<open>Deadlock\<close>. What package \<open>log\<close> writes and
  what \<open>time.Sleep\<close> waits is kept in a \<open>Runtime\<close> record. How \<open>main\<close> stops is a
  \<open>leave\<close> (it returns, the process is ended by \<open>os.Exit\<close> or \<open>log.Fatal\<close>, or it
  blocks), and \<open>process_end\<close> runs the deferred calls when it returns and only then.
  Functions of libraries that the source only calls and whose result it passes on
  (\<open>json.Marshal\<close>, \<open>json.Unmarshal\<close>, the file server of \<open>net/http\<close>) are arguments
  of the definitions that call them.

  \<^bold>\<open>The theories.\<close>

  \<^item> \<open>Deck_Model\<close> (\<open>card.go\<close>): \<open>Suit\<close>, \<open>Rank\<close>, \<open>Card\<close>, \<open>Deck\<close>, \<open>NewDeck\<close>, \<open>Shuffle\<close>,
    \<open>Draw\<close>, \<open>DrawOne\<close>. The random source of \<open>Shuffle\<close> is an argument \<open>rnd\<close>: the
    Fisher-Yates loop of \<open>math/rand\<close> (\<open>shuffle_loop\<close>, written from its documentation)
    calls the swap closure of the source (\<open>swap_cards\<close>) with \<open>rnd i mod (i + 1)\<close>. Shown:
    a new deck has the 52 cards once each; shuffling permutes, for every \<open>rnd\<close>; \<open>Draw\<close>
    splits the deck and panics on a negative count; \<open>Draw n\<close> draws what \<open>n\<close> calls of
    \<open>DrawOne\<close> draw (\<open>draw_each\<close> is that loop).
  \<^item> \<open>Player_Model\<close> (\<open>player.go\<close>): \<open>Player\<close>, \<open>NewPlayer\<close>, \<open>PlaceBet\<close>, \<open>CollectWinnings\<close>,
    \<open>Player_Fold\<close>, \<open>ResetForNewHand\<close>, \<open>IsActive\<close>, \<open>CanAct\<close>. Shown: \<open>PlaceBet\<close> succeeds
    exactly when the stack covers the amount, keeps \<open>holdings\<close> (stack plus bet) and
    \<open>player_ok\<close>; it accepts negative amounts.
  \<^item> \<open>Hand_Model\<close> (\<open>hand.go\<close>): \<open>HandRank\<close> (a linear order by its numbering),
    \<open>HandEvaluation\<close>, the ten \<open>check...\<close> functions, \<open>EvaluateHand\<close>, \<open>CompareHands\<close>. Shown:
    \<open>CompareHands\<close> decides the lexicographic order on (category, value) and is
    transitive; \<open>EvaluateHand\<close> returns a high card of value 0 for every input, because
    every \<open>check...\<close> function of the source is a placeholder.
  \<^item> \<open>Game_Model\<close> (\<open>game.go\<close>, and \<open>run\<close> of \<open>cmd/poker/main.go\<close>): \<open>GameState\<close>,
    \<open>NewGameState\<close>, \<open>StartNewHand\<close>, \<open>findNextActivePosition\<close>, \<open>DealFlop\<close>, \<open>DealTurn\<close>,
    \<open>DealRiver\<close>, \<open>ProcessAction\<close>, \<open>countActivePlayers\<close>, \<open>advancePhase\<close>,
    \<open>determineWinners\<close>, \<open>GetCurrentPlayer\<close>, \<open>IsHandOver\<close>; \<open>sample_table\<close> and
    \<open>first_hand\<close> are the table and the first hand of \<open>run\<close>. Definitions only.
  \<^item> \<open>Game_Seats\<close>: the specification \<open>next_active\<close> of the seat search (the first active
    seat clockwise, found with \<open>List.find\<close>) and the proof that the counting loop
    computes it; the loop terminates by the measure \<open>len(Players) - count\<close>. \<open>wf_game\<close>
    is well-formedness: a seat exists and the three positions are seats.
  \<^item> \<open>Seat_Search\<close>: the same loop written with its two variables by \<open>while_option\<close>
    (\<open>SeatLoop\<close>, \<open>seat_test\<close>, \<open>seat_body\<close>, \<open>findNextActivePosition_while\<close>). Shown: it
    ends after at most \<open>len(Players)\<close> rounds on every input; a lemma links it to the
    recursive function, about which the properties of the search are stated.
  \<^item> \<open>Game_Frame\<close>: what each method leaves unchanged, and that on a well-formed table
    no method panics and well-formedness is kept.
  \<^item> \<open>Game_Start\<close>: \<open>StartNewHand\<close> in closed form (\<open>started\<close>), and its panic on a table
    without seats.
  \<^item> \<open>Game_Chips\<close>: \<open>in_play\<close>, \<open>total_bets\<close>, \<open>money_ok\<close>. An action conserves the chips
    of the seats and changes the pot by what the bets change; no stack or bet becomes
    negative; \<open>StartNewHand\<close> keeps the stacks and drops the bets and the pot.
  \<^item> \<open>Game_Cards\<close>: \<open>all_cards\<close>, \<open>board_ok\<close>. A hand starts with the 52 cards once each,
    two per seat that takes part; actions only remove cards; the board has the size of
    its street.
  \<^item> \<open>Game_Phase\<close>: the rules as a specification (\<open>legal\<close>, \<open>paid\<close>, \<open>seat_after\<close>,
    \<open>apply_action\<close>, \<open>closes\<close>, \<open>next_phase\<close>) and the refinement: \<open>ProcessAction\<close> returns
    \<open>legal\<close>, applies \<open>apply_action\<close>, and advances the phase by one street exactly when
    \<open>closes\<close> holds.
  \<^item> \<open>Game_UI\<close> (\<open>game_ui.go\<close>): \<open>Theme\<close>, \<open>NewTheme\<close>, \<open>GameUI\<close>, \<open>NewGameUI\<close>,
    \<open>SetWindowSize\<close>, \<open>handleButtonClicks\<close>, and the inductive set \<open>reachable\<close> of the
    states of the window. The colours are \<open>8 word\<close>s. The six \<open>widget.Clickable\<close> and
    the slider of the struct are the input of a frame (\<open>Clicks\<close>); the field
    \<open>cardImages\<close> is never read. By rule induction every reachable state satisfies
    \<open>table_inv\<close> and holds 4000 chips, and no frame panics.
  \<^item> \<open>Game_View\<close> (\<open>game_ui.go\<close>, \<open>player_ui.go\<close>): what is drawn, as a \<open>Scene\<close>: the
    drawing operations and widgets in the order the source emits them, inside the
    containers it nests them in. One definition per layout or drawing function, with
    the closures of \<open>layoutCommunityCards\<close> and \<open>layoutPlayerCards\<close> written out one by
    one as in the source
    (\<open>Layout\<close>, \<open>layoutGameArea\<close>, \<open>layoutCommunityCards\<close>, \<open>layoutControls\<close>,
    \<open>layoutPlayerInfo\<close>, \<open>layoutActionButtons\<close>, \<open>layoutBetSlider\<close>, \<open>drawCard\<close>,
    \<open>drawEmptyCard\<close>, \<open>paintRect\<close>, \<open>drawBorder\<close>; \<open>PlayerUI\<close>, \<open>NewPlayerUI\<close>,
    \<open>SetActive\<close>, \<open>PlayerUI_Layout\<close>, \<open>layoutPlayerCards\<close>, \<open>drawSmallCard\<close>,
    \<open>drawSmallEmptyCard\<close>). \<open>string(rune(n))\<close> is \<open>string_of_rune (rune n)\<close>, with
    \<open>rune\<close> the conversion to \<open>int32\<close> through a \<open>32 word\<close>. Shown: a frame does not
    panic on a table that satisfies the invariants and shows the board, four lines and
    six buttons; the five card slots follow one rule (\<open>slot\<close>); the amounts are drawn as
    code points and never as decimal numerals; in the states the program reaches the
    conversion does not wrap, and a negative pot, which the program does reach
    (\<open>play_frames\<close> replays the clicks), is drawn as \<open>U+FFFD\<close>.
  \<^item> \<open>DB_Model\<close> (\<open>mock_spacetime.go\<close>): \<open>MockSpaceTimeDB\<close>, \<open>PlayerProfile\<close>,
    \<open>GameHistoryEntry\<close> and every method, each with its lock, its work and its log
    line, on a \<open>DBProcess\<close>: the store, the heaps of the objects its pointers point to,
    the log and the clock. \<open>db_step\<close> gives the six methods that use the maps one
    interface, \<open>kv_step\<close> is the key-value store they promise. Shown: \<open>db_step\<close>
    implements \<open>kv_step\<close>; no sequence of calls blocks; what is saved is loaded; a
    lookup fails exactly on a missing key; a history keeps the order of its entries;
    saving a \<open>nil\<close> profile panics.
  \<^item> \<open>Program_Model\<close> (\<open>cmd/poker/main.go\<close>): \<open>main\<close> and \<open>run\<close> with the event loop
    over a list of events (\<open>Event\<close>, \<open>run_setup\<close>, \<open>frame_event\<close>, \<open>run_loop\<close>, \<open>main\<close>);
    \<open>main\<close> has its two error branches, the deferred \<open>Disconnect\<close>
    (\<open>deferred_Disconnect\<close>) and the goroutine that ends the process
    (\<open>window_goroutine\<close>).
    The table is an object on the heap; the window (\<open>GameUIObj\<close>) and the store hold
    pointers to it, and a method call on it is \<open>load_ui\<close>, the method on values, and
    \<open>store_ui\<close>. Shown: the program never panics and the table behind the pointer is
    a state of \<open>reachable\<close>; the store returns the live table, not a snapshot; the log
    and the exit status; the deferred call never runs, because \<open>main\<close> never returns.
  \<^item> \<open>Server_Model\<close> (\<open>cmd/server/main.go\<close>): \<open>handler\<close> and \<open>server_main\<close>.
  \<^item> This theory: properties that span the engine and its invariants. \<open>play\<close> runs a
    list of actions and \<open>table_after\<close> is the table they leave, starting from the first
    hand of the program with the deck as \<open>NewDeck\<close> orders it; they provide the
    concrete tables on which the general theorems are applied. Shown: the first hand of
    the program; after every round that closes into a new street a call refunds the
    bet of the seat; a fold that leaves one seat pays nobody.

  \<^bold>\<open>Bounds.\<close> The hole-card theorem needs at most 26 seats and the board invariant at
  most 22 (two cards per seat and eight for the board out of 52); the program has
  four. No definition uses fuel: the only loop that is not a traversal of a list is the
  seat search, a \<open>function\<close> with a termination proof and, in \<open>Seat_Search\<close>, a
  \<open>while_option\<close> that is shown to return. The event loop of \<open>run\<close> does not end by
  itself; \<open>run_loop\<close> takes the finite list of the events that have arrived and says
  \<open>Waiting\<close> when none of them closed the window, so a theorem about \<open>main\<close> holds at
  every moment of a run.

  \<^bold>\<open>What the development found.\<close> The blinds are put into the bets of the seats and
  never into the pot; the bets of the seats are not cleared when a street begins, so a
  call on a new street hands chips back and the pot falls below zero (to -15 after a
  raise, three calls and four calls on the flop); a round in
  which nobody bets or raises never closes; when all but one seat fold the next street
  is dealt and nobody receives the pot, because \<open>determineWinners\<close> is empty; a new hand
  discards the bets and the pot of the hand before; the evaluator ranks every hand as a
  high card; an all-in sets the minimum raise to the whole stack; \<open>PlaceBet\<close> accepts
  negative amounts; a table without seats panics with a division by zero. The store
  keeps the pointer it is given, so what it returns later is the table as it is then,
  not as it was saved; the labels for chips, bet and pot show the character with that
  code point instead of the number; \<open>main\<close> defers \<open>Disconnect\<close> but leaves through
  \<open>os.Exit\<close> or \<open>log.Fatal\<close>, so the store is never disconnected; saving a \<open>nil\<close>
  profile panics, while saving a \<open>nil\<close> table does not.

  \<^bold>\<open>Not modelled.\<close> What the libraries do with what the program hands them: how the
  toolkit turns a scene into pixels and pointer events into the \<open>Clicked\<close> of a button
  or the value of the slider, the JSON text that \<open>encoding/json\<close> produces, the files
  the file server reads, and the time stamps of the logger. Goroutines: the model runs
  the window loop, the callback and the store in one sequence, which is how the
  program uses them. The generator behind \<open>Shuffle\<close> is an argument, so nothing is
  claimed about the distribution of the shuffle. The embedded \<open>material.Theme\<close> of
  \<open>Theme\<close> and the map \<open>cardImages\<close> are never read by the source and are left out.
\<close>

section \<open>Replaying hands\<close>

fun play :: "(PlayerAction \<times> int) list \<Rightarrow> GameState \<Rightarrow> GameState result" where
  "play [] g = Inr g"
| "play (e # es) g = bindR (ProcessAction (fst e) (snd e) g) (\<lambda>r. play es (snd r))"

definition outcome :: "GameState result \<Rightarrow> (GameState \<Rightarrow> bool) \<Rightarrow> bool" where
  "outcome r P = (case r of Inl e \<Rightarrow> False | Inr g \<Rightarrow> P g)"

definition hand_after :: "(PlayerAction \<times> int) list \<Rightarrow> GameState result" where
  "hand_after es = bindR (first_hand (\<lambda>i. i)) (play es)"

definition table_after :: "(PlayerAction \<times> int) list \<Rightarrow> GameState" where
  "table_after es = (case hand_after es of Inl e \<Rightarrow> sample_table | Inr g \<Rightarrow> g)"

lemma dealt_first_hand:
  "dealt (after_bb sample_table) = 4"
  "next_active (after_bb sample_table) 3 = 0"
  "\<forall>p \<in> set (after_bb sample_table). Status p = Active"
  by code_simp+

lemma map_const:
  "\<forall>x \<in> set xs. f x = c \<Longrightarrow> map f xs = replicate (length xs) c"
  by (induction xs) simp_all

lemma hole_cards_first_hand:
  "map (\<lambda>p. length (PCards p)) (Players (started rnd sample_table)) = [2, 2, 2, 2]"
proof -
  let ?ps = "Players (started rnd sample_table)"
  have "\<forall>p \<in> set ?ps. Status p = Active"
    using ball_map_cong [of Status ?ps Status "after_bb sample_table" "\<lambda>s. s = Active"]
    by (simp add: dealt_first_hand)
  then have "\<forall>p \<in> set ?ps. length (PCards p) = 2"
    using hole_cards_started [of sample_table _ rnd] by (auto simp: CanAct_def)
  from map_const [OF this] show ?thesis
    by (simp add: numeral_eq_Suc)
qed

text \<open>
  C35 (functional). The first hand of the program, whatever the shuffle: the button
  moves to seat 1, seats 2 and 3 post 5 and 10, seat 0 is first to act, the current bet
  is 10, the pot is empty, every seat holds two cards and 44 cards are left in the deck.
\<close>

theorem first_hand_scenario:
  "\<exists>g. first_hand rnd = Inr g \<and> CurrentPhase g = PreFlop \<and> DealerPos g = 1 \<and>
     CurrentPos g = 0 \<and> map Chips (Players g) = [1000, 1000, 995, 990] \<and>
     map PBet (Players g) = [0, 0, 5, 10] \<and> Pot g = 0 \<and> CurrentBet g = 10 \<and>
     MinRaise g = 10 \<and> LastRaisePos g = - 1 \<and> length (Cards (Deck g)) = 44 \<and>
     map (\<lambda>p. length (PCards p)) (Players g) = [2, 2, 2, 2]"
  by (simp add: first_hand_eq first_hand_blinds Deck_started dealt_first_hand
      length_NewDeck_aux hole_cards_first_hand)

text \<open>
  A raise of 20 by seat 0 and three calls close the first round: the
  flop is dealt (one card burnt, three on the board, 40 left), every seat has paid 30,
  and seat 2, the first active seat after the button, is to act with nothing to match.
\<close>

theorem raised_round_reaches_the_flop:
  "outcome (hand_after [(Raise, 20), (Call, 0), (Call, 0), (Call, 0)])
     (\<lambda>g. CurrentPhase g = Flop \<and> Pot g = 105 \<and> CurrentBet g = 0 \<and> CurrentPos g = 2 \<and>
          LastRaisePos g = - 1 \<and> map Chips (Players g) = [970, 970, 970, 970] \<and>
          map PBet (Players g) = [30, 30, 30, 30] \<and> length (CommunityCards g) = 3 \<and>
          length (Cards (Deck g)) = 40)"
  by code_simp

text \<open>
  C36 (functional). The bets of a street are not cleared when the next street begins.
  Whenever an action on a table that satisfies the invariants closes a betting round
  and a new street is entered, every seat still has the bet it had when the round
  closed while the bet to match is 0 again; so a call by the seat that acts first on
  the new street is accepted as a call of minus its bet: the seat gets its bet back
  and the pot falls by the same amount.
\<close>

theorem call_on_a_new_street_refunds:
  assumes "table_inv g" and "ProcessAction a amount g = Inr (ok, g1)"
    and "CurrentPhase g1 \<noteq> CurrentPhase g" and "CurrentPhase g1 \<noteq> Showdown"
  shows "CurrentBet g1 = 0 \<and>
         Players g1 = go_update (Players g) (CurrentPos g) (seat_after a amount g) \<and>
         (\<exists>g2. ProcessAction Call 0 g1 = Inr (True, g2) \<and>
            Players g2 = go_update (Players g1) (CurrentPos g1) (seat_after Call 0 g1) \<and>
            PBet (seat_after Call 0 g1) = 0 \<and>
            Chips (seat_after Call 0 g1) = Chips (current g1) + PBet (current g1) \<and>
            Pot g2 = Pot g1 - PBet (current g1))"
proof -
  from assms(1) have wf: "wf_game g" by (simp add: table_inv_def)
  from ProcessAction_new_phase [OF wf assms(2,3)] advancePhase_new_street [OF _ _ assms(4)]
    assms(3)
  have g1: "CurrentBet g1 = 0" "Players g1 = Players (apply_action a amount g)"
    by auto
  from ProcessAction_table_inv [OF assms(1), of a amount] assms(2)
  have wf1: "wf_game g1" and m: "money_ok g1" by (auto simp: table_inv_def)
  from m current_in_set [OF wf1] have "0 \<le> Chips (current g1)" "0 \<le> PBet (current g1)"
    by (auto simp: money_ok_def)
  with g1(1) have l: "legal Call 0 g1" by simp
  from ProcessAction_legal_aux [OF wf1 l] g1 show ?thesis
    by (auto simp: seat_after_PBet apply_action_def)
qed

theorem call_on_a_new_street_refunds_witness:
  "table_inv (table_after [(Raise, 20), (Call, 0), (Call, 0)]) \<and>
   ProcessAction Call 0 (table_after [(Raise, 20), (Call, 0), (Call, 0)]) =
     Inr (True, table_after [(Raise, 20), (Call, 0), (Call, 0), (Call, 0)]) \<and>
   CurrentPhase (table_after [(Raise, 20), (Call, 0), (Call, 0)]) = PreFlop \<and>
   CurrentPhase (table_after [(Raise, 20), (Call, 0), (Call, 0), (Call, 0)]) = Flop \<and>
   Pot (table_after [(Raise, 20), (Call, 0), (Call, 0), (Call, 0)]) = 105 \<and>
   (\<exists>g2. ProcessAction Call 0 (table_after [(Raise, 20), (Call, 0), (Call, 0), (Call, 0)]) =
           Inr (True, g2) \<and>
      Pot g2 = 75 \<and> map Chips (Players g2) = [970, 970, 1000, 970] \<and>
      map PBet (Players g2) = [30, 30, 0, 30])"
proof -
  let ?g = "table_after [(Raise, 20), (Call, 0), (Call, 0)]"
  let ?g1 = "table_after [(Raise, 20), (Call, 0), (Call, 0), (Call, 0)]"
  have inv: "table_inv ?g" by code_simp
  have step: "ProcessAction Call 0 ?g = Inr (True, ?g1)" by code_simp
  have ph: "CurrentPhase ?g = PreFlop" "CurrentPhase ?g1 = Flop" by code_simp+
  have v: "Pot ?g1 = 105" "PBet (current ?g1) = 30"
    "map Chips (go_update (Players ?g1) (CurrentPos ?g1) (seat_after Call 0 ?g1)) =
       [970, 970, 1000, 970]"
    "map PBet (go_update (Players ?g1) (CurrentPos ?g1) (seat_after Call 0 ?g1)) =
       [30, 30, 0, 30]"
    by code_simp+
  from call_on_a_new_street_refunds [OF inv step] ph v inv step show ?thesis
    by auto
qed

text \<open>
  C37 (functional). A hand that ends by folds pays nobody. When a fold on a well-formed
  table leaves at most one seat in the hand, the fold is accepted and the hand is
  over, but the table moves on to the next street as after any closed round, the pot
  stays as it is, and no seat receives a chip: every stack and every bet is what it
  was before the fold.
\<close>

theorem fold_to_one_pays_nobody:
  assumes "wf_game g" and "countActivePlayers (apply_action Fold amount g) \<le> 1"
  shows "\<exists>g'. ProcessAction Fold amount g = Inr (True, g') \<and> IsHandOver g' \<and>
           CurrentPhase g' = next_phase (CurrentPhase g) \<and> Pot g' = Pot g \<and>
           map Chips (Players g') = map Chips (Players g) \<and>
           map PBet (Players g') = map PBet (Players g)"
proof -
  let ?g = "apply_action Fold amount g"
  from ProcessAction_legal_aux [OF assms(1), of Fold amount] obtain g'
    where r: "ProcessAction Fold amount g = Inr (True, g')"
      and p: "Players g' = go_update (Players g) (CurrentPos g) (seat_after Fold amount g)"
      and pot: "Pot g' = Pot g"
    by auto
  from p have "Players g' = Players ?g" by (simp add: apply_action_def)
  with assms(2) have "IsHandOver g'" by (simp add: IsHandOver_def countActivePlayers_def)
  moreover from assms(2) have "closes ?g" by (simp add: closes_def)
  with ProcessAction_phase_aux [OF r assms(1)]
  have "CurrentPhase g' = next_phase (CurrentPhase g)" by simp
  moreover from p have "map Chips (Players g') = map Chips (Players g)"
    "map PBet (Players g') = map PBet (Players g)"
    by (simp_all add: current_def map_go_update_same)
  ultimately show ?thesis using r pot by simp
qed

theorem fold_to_one_pays_nobody_witness:
  "wf_game (table_after [(Fold, 0), (Fold, 0)]) \<and>
   countActivePlayers (apply_action Fold 0 (table_after [(Fold, 0), (Fold, 0)])) \<le> 1 \<and>
   (\<exists>g'. ProcessAction Fold 0 (table_after [(Fold, 0), (Fold, 0)]) = Inr (True, g') \<and>
      IsHandOver g' \<and> CurrentPhase g' = Flop \<and> Pot g' = 0 \<and>
      map Chips (Players g') = [1000, 1000, 995, 990] \<and>
      map PBet (Players g') = [0, 0, 5, 10])"
proof -
  let ?g = "table_after [(Fold, 0), (Fold, 0)]"
  have a: "wf_game ?g" "countActivePlayers (apply_action Fold 0 ?g) \<le> 1" by code_simp+
  have v: "CurrentPhase ?g = PreFlop" "Pot ?g = 0"
    "map Chips (Players ?g) = [1000, 1000, 995, 990]" "map PBet (Players ?g) = [0, 0, 5, 10]"
    by code_simp+
  from fold_to_one_pays_nobody [OF a] a v show ?thesis by auto
qed

text \<open>
  When every seat calls the big blind and the big blind checks, the
  first round does not end: after two full rounds of calls and checks the hand is still
  before the flop and seat 0 is to act again.
\<close>

theorem limped_round_never_ends:
  "outcome (hand_after [(Call, 0), (Call, 0), (Call, 0), (Check, 0),
                        (Check, 0), (Check, 0), (Check, 0), (Check, 0)])
     (\<lambda>g. CurrentPhase g = PreFlop \<and> CurrentPos g = 0 \<and> CommunityCards g = [] \<and>
          map PBet (Players g) = [10, 10, 10, 10] \<and> Pot g = 25)"
  by code_simp

end
